theory Spec2Isabelle
  imports Complex_Main "HOL-Library.Multiset" "HOL-Library.Sublist" "HOL-Library.Log_Nat"
begin

section \<open>JavaScript numbers\<close>

text \<open>
  A JavaScript number is an IEEE 754 double: \<open>NaN\<close>, the two infinities, and the finite
  values \<open>m * 2^(e - 52)\<close> with an integer \<open>m\<close> below \<open>2^53\<close> in magnitude and an
  exponent \<open>e\<close> from \<open>-1022\<close> to \<open>1023\<close>. \<open>Fin r\<close> is the finite value \<open>r\<close>. The values
  of the model are all the rationals, so that every literal and every count is one; the
  operations round as the machine does. The sign of zero is not modelled: the program
  divides by no zero it has computed.
\<close>

datatype jsnum = Fin rat | PInf | NInf | NaN

subsection \<open>Rounding to the nearest double\<close>

text \<open>\<open>2^e\<close> for an integer \<open>e\<close>, and the exponent of a positive number \<open>r\<close>: the \<open>e\<close> with
  \<open>2^e \<le> r < 2^(e + 1)\<close>.\<close>

definition pow2 :: "int \<Rightarrow> rat" where
  "pow2 e = (if 0 \<le> e then 2 ^ nat e else 1 / 2 ^ nat (- e))"

definition exponent :: "rat \<Rightarrow> int" where
  "exponent r = (if 1 \<le> r then bitlen \<lfloor>r\<rfloor> - 1 else - bitlen (\<lceil>1 / r\<rceil> - 1))"

text \<open>The nearest integer, the even one of the two when they are equally near.\<close>

definition round_half_even :: "rat \<Rightarrow> int" where
  "round_half_even x =
     (let f = \<lfloor>x\<rfloor>; d = x - of_int f in
      if d < 1 / 2 then f else if 1 / 2 < d then f + 1 else if even f then f else f + 1)"

text \<open>
  Around a positive number \<open>a\<close> the doubles are the multiples of \<open>q = 2^(e - 52)\<close>, where
  \<open>e\<close> is the exponent of \<open>a\<close>, and \<open>-1022\<close> when that is less (the subnormal range, where
  \<open>q\<close> is \<open>2^(-1074)\<close>, the smallest positive double). The nearest of them, ties to even:
\<close>

definition round_magnitude :: "rat \<Rightarrow> rat" where
  "round_magnitude a =
     (let q = pow2 (max (exponent a) (- 1022) - 52)
      in of_int (round_half_even (a / q)) * q)"

text \<open>
  The double nearest to \<open>r\<close>: an infinity when the magnitude rounds to \<open>2^1024\<close> or
  more, and zero when it rounds to less than the smallest positive double.
\<close>

definition js_round :: "rat \<Rightarrow> jsnum" where
  "js_round r =
     (if r = 0 then Fin 0
      else if pow2 1024 \<le> round_magnitude \<bar>r\<bar> then (if 0 < r then PInf else NInf)
      else Fin (if 0 < r then round_magnitude \<bar>r\<bar> else - round_magnitude \<bar>r\<bar>))"

text \<open>
  The result of an operation whose exact value is \<open>r\<close>. A quotient is rounded. So is a
  product, and so is a sum, with these provisions. A result that is an integer is kept as
  it is: the integers the program computes are counts and canvas coordinates, far below
  \<open>2^53\<close>, up to where every integer is a double; an array so long that its length times
  100 is not a double is beyond the model. A sum below \<open>2^(-1022)\<close> in magnitude is kept
  as it is: the sum of two doubles is a multiple of \<open>2^(-1074)\<close>, and below \<open>2^(-1022)\<close>
  the multiples of \<open>2^(-1074)\<close> are doubles.
\<close>

definition is_integer :: "rat \<Rightarrow> bool" where
  "is_integer r = (of_int \<lfloor>r\<rfloor> = r)"

definition round_product :: "rat \<Rightarrow> jsnum" where
  "round_product r = (if is_integer r then Fin r else js_round r)"

definition round_sum :: "rat \<Rightarrow> jsnum" where
  "round_sum r = (if is_integer r \<or> \<bar>r\<bar> < pow2 (- 1022) then Fin r else js_round r)"

subsection \<open>The operations\<close>

instantiation jsnum :: "{plus, uminus, minus, times, inverse, ord}"
begin

fun plus_jsnum :: "jsnum \<Rightarrow> jsnum \<Rightarrow> jsnum" where
  "plus_jsnum NaN y = NaN"
| "plus_jsnum x NaN = NaN"
| "plus_jsnum (Fin a) (Fin b) = round_sum (a + b)"
| "plus_jsnum PInf NInf = NaN"
| "plus_jsnum NInf PInf = NaN"
| "plus_jsnum PInf y = PInf"
| "plus_jsnum x PInf = PInf"
| "plus_jsnum NInf y = NInf"
| "plus_jsnum x NInf = NInf"

fun uminus_jsnum :: "jsnum \<Rightarrow> jsnum" where
  "uminus_jsnum (Fin a) = Fin (- a)"
| "uminus_jsnum PInf = NInf"
| "uminus_jsnum NInf = PInf"
| "uminus_jsnum NaN = NaN"

definition minus_jsnum :: "jsnum \<Rightarrow> jsnum \<Rightarrow> jsnum" where
  "minus_jsnum x y = x + (- y)"

fun less_jsnum :: "jsnum \<Rightarrow> jsnum \<Rightarrow> bool" where
  "less_jsnum NaN y = False"
| "less_jsnum x NaN = False"
| "less_jsnum (Fin a) (Fin b) = (a < b)"
| "less_jsnum x NInf = False"
| "less_jsnum PInf y = False"
| "less_jsnum NInf y = True"
| "less_jsnum x PInf = True"

definition less_eq_jsnum :: "jsnum \<Rightarrow> jsnum \<Rightarrow> bool" where
  "less_eq_jsnum x y = (x < y \<or> (x = y \<and> x \<noteq> NaN))"

definition js_sign_times :: "jsnum \<Rightarrow> jsnum \<Rightarrow> jsnum" where
  "js_sign_times x y =
     (if x = Fin 0 \<or> y = Fin 0 then NaN
      else if (x < Fin 0) = (y < Fin 0) then PInf else NInf)"

fun times_jsnum :: "jsnum \<Rightarrow> jsnum \<Rightarrow> jsnum" where
  "times_jsnum NaN y = NaN"
| "times_jsnum x NaN = NaN"
| "times_jsnum (Fin a) (Fin b) = round_product (a * b)"
| "times_jsnum x y = js_sign_times x y"

fun divide_jsnum :: "jsnum \<Rightarrow> jsnum \<Rightarrow> jsnum" where
  "divide_jsnum NaN y = NaN"
| "divide_jsnum x NaN = NaN"
| "divide_jsnum (Fin a) (Fin b) =
     (if b = 0 then (if a = 0 then NaN else if 0 < a then PInf else NInf)
      else js_round (a / b))"
| "divide_jsnum (Fin a) y = Fin 0"
| "divide_jsnum x (Fin b) = (if (x < Fin 0) = (b < 0) then PInf else NInf)"
| "divide_jsnum x y = NaN"

definition inverse_jsnum :: "jsnum \<Rightarrow> jsnum" where
  "inverse_jsnum x = divide (Fin 1) x"

instance ..

end

text \<open>The number of a natural (an array length, a loop index).\<close>

definition num :: "nat \<Rightarrow> jsnum" where
  "num n = Fin (of_nat n)"

text \<open>\<open>Math.min\<close>, \<open>Math.max\<close>: \<open>NaN\<close> if an argument is.\<close>

definition Math_min :: "jsnum \<Rightarrow> jsnum \<Rightarrow> jsnum" where
  "Math_min x y = (if x = NaN \<or> y = NaN then NaN else if x \<le> y then x else y)"

definition Math_max :: "jsnum \<Rightarrow> jsnum \<Rightarrow> jsnum" where
  "Math_max x y = (if x = NaN \<or> y = NaN then NaN else if x \<le> y then y else x)"

text \<open>\<open>Math.PI\<close> is the double nearest to the circle constant; this is its exact value.\<close>

definition Math_PI :: jsnum where
  "Math_PI = Fin (884279719003555 / 281474976710656)"

text \<open>Truthiness (\<open>ToBoolean\<close>) of a number and of a string.\<close>

definition truthy_num :: "jsnum \<Rightarrow> bool" where
  "truthy_num x = (x \<noteq> Fin 0 \<and> x \<noteq> NaN)"

definition truthy_str :: "string \<Rightarrow> bool" where
  "truthy_str s = (s \<noteq> [])"

text \<open>
  \<open>x || d\<close> for an optional string property \<open>x\<close> and a string \<open>d\<close>: \<open>undefined\<close> and
  the empty string are falsy.
\<close>

definition or_default :: "string option \<Rightarrow> string \<Rightarrow> string" where
  "or_default x d = (case x of None \<Rightarrow> d | Some s \<Rightarrow> if truthy_str s then s else d)"

subsection \<open>Array.prototype.slice\<close>

text \<open>\<open>ToIntegerOrInfinity\<close>: \<open>NaN\<close> becomes 0, a finite value is truncated towards zero.\<close>

definition ToIntegerOrInfinity :: "jsnum \<Rightarrow> jsnum" where
  "ToIntegerOrInfinity x =
     (case x of
        NaN \<Rightarrow> Fin 0
      | PInf \<Rightarrow> PInf
      | NInf \<Rightarrow> NInf
      | Fin r \<Rightarrow> Fin (of_int (if 0 \<le> r then \<lfloor>r\<rfloor> else \<lceil>r\<rceil>)))"

text \<open>
  The position a relative index denotes in an array of length \<open>len\<close>: a negative index
  counts from the end, and the result is clamped to \<open>0..len\<close>.
\<close>

definition relative_index :: "nat \<Rightarrow> jsnum \<Rightarrow> nat" where
  "relative_index len x =
     (case ToIntegerOrInfinity x of
        NInf \<Rightarrow> 0
      | PInf \<Rightarrow> len
      | NaN \<Rightarrow> 0
      | Fin r \<Rightarrow> (if r < 0 then nat (max (int len + \<lfloor>r\<rfloor>) 0)
                  else nat (min \<lfloor>r\<rfloor> (int len))))"

definition slice :: "'a list \<Rightarrow> jsnum \<Rightarrow> jsnum \<Rightarrow> 'a list" where
  "slice xs start end =
     (let k = relative_index (length xs) start;
          final = relative_index (length xs) end
      in take (final - k) (drop k xs))"

subsection \<open>Number to string\<close>

fun digits :: "nat \<Rightarrow> string" where
  "digits n = (if n < 10 then [''0123456789'' ! n]
               else digits (n div 10) @ [''0123456789'' ! (n mod 10)])"

declare digits.simps [simp del]

text \<open>
  \<open>Number::toString\<close> as template literals and \<open>toString()\<close> apply it. An integer up to
  \<open>2^53\<close> in magnitude is written with all its decimal digits; for the other finite
  values the text is the shortest decimal that reads back as the same double, which is
  not modelled: it is the parameter \<open>fmt\<close>.
\<close>

definition Number_toString :: "(rat \<Rightarrow> string) \<Rightarrow> jsnum \<Rightarrow> string" where
  "Number_toString fmt x =
     (case x of
        NaN \<Rightarrow> ''NaN''
      | PInf \<Rightarrow> ''Infinity''
      | NInf \<Rightarrow> ''-Infinity''
      | Fin r \<Rightarrow>
          (if of_int \<lfloor>r\<rfloor> = r \<and> \<bar>r\<bar> \<le> 9007199254740992
           then (if r < 0 then ''-'' @ digits (nat (- \<lfloor>r\<rfloor>)) else digits (nat \<lfloor>r\<rfloor>))
           else fmt r))"

section \<open>Data model (types.ts)\<close>

record LeaderboardData =
  nickname :: string
  avatarUrl :: string
  level :: jsnum
  xp :: jsnum
  neededXp :: jsnum
  rank :: "string option"

record PodiumColors =
  first :: "string option"
  second :: "string option"
  third :: "string option"

record PodiumOptions =
  podium_colors :: "PodiumColors option"

record AuroraSpot =
  spot_color :: string
  spot_x :: jsnum
  spot_y :: jsnum
  spot_radius :: jsnum

text \<open>
  \<open>BackgroundOptions = string | GradientOptions | AuroraBackgroundOptions\<close>. The two
  object shapes are told apart at run time by their \<open>type\<close> field alone, so an object
  background is one record with the fields of both interfaces: the program reads
  \<open>colors\<close> only when \<open>type\<close> is not \<open>'aurora'\<close>, and \<open>baseColor\<close> and \<open>spots\<close> only
  when it is. The field \<open>type\<close> is a string, as it is at run time.
\<close>

record BackgroundObject =
  bg_type :: string
  colors :: "string list"
  baseColor :: string
  spots :: "AuroraSpot list"

datatype BackgroundOptions = BgString string | BgObject BackgroundObject

record HeaderOptions =
  title :: string
  subtitle :: "string option"

record RankTier =
  tier_name :: string
  tier_color :: string
  minXp :: jsnum

record XpBarColors =
  primary :: string
  secondary :: string

record FontStyles =
  headerTitle :: "string option"
  headerSubtitle :: "string option"
  userNickname :: "string option"
  userLevel :: "string option"
  userPosition :: "string option"
  xpText :: "string option"
  rankText :: "string option"

text \<open>The seven values of \<open>GradientType\<close>.\<close>

definition GradientType :: "string list" where
  "GradientType =
     [''linear-left-right'', ''linear-right-left'', ''linear-top-bottom'',
      ''linear-bottom-top'', ''linear-top-left-bottom-right'',
      ''linear-top-right-bottom-left'', ''radial'']"

section \<open>The drawing surface\<close>

text \<open>
  The canvas library is outside the repository. A context is modelled by what the
  program does to it: the drawing state its assignments set, the current path, the stack
  of \<open>save\<close>, and the list of paint operations in the order they were issued, each with
  the drawing state it was issued under. Values are kept as assigned; how the library
  parses a colour or a font string, and the pixels a paint operation produces, are not
  modelled.
\<close>

datatype geometry =
  Linear jsnum jsnum jsnum jsnum
| Radial jsnum jsnum jsnum jsnum jsnum jsnum

record CanvasGradient =
  geom :: geometry
  stops :: "(jsnum \<times> string) list"

datatype style = Color string | Gradient CanvasGradient

datatype segment =
  MoveTo jsnum jsnum
| LineTo jsnum jsnum
| QuadraticCurveTo jsnum jsnum jsnum jsnum
| Arc jsnum jsnum jsnum jsnum jsnum
| ClosePath

datatype image = Image string

datatype js_error = Error string

record drawing_state =
  fillStyle :: style
  strokeStyle :: style
  globalAlpha :: jsnum
  font :: string
  textAlign :: string
  lineWidth :: jsnum
  shadowColor :: string
  shadowBlur :: jsnum
  clipping :: "segment list list"

datatype paint =
  FillRect jsnum jsnum jsnum jsnum
| FillPath "segment list"
| StrokePath "segment list"
| FillText string jsnum jsnum
| DrawImage image jsnum jsnum jsnum jsnum

text \<open>
  The state a render runs in: the canvas with its context, and the console, to which
  \<open>console.error\<close> appends.
\<close>

record state =
  canvas_width :: jsnum
  canvas_height :: jsnum
  dstate :: drawing_state
  currentPath :: "segment list"
  saved :: "drawing_state list"
  painted :: "(paint \<times> drawing_state) list"
  console :: "(string \<times> js_error) list"

text \<open>\<open>createCanvas(width, height).getContext('2d')\<close>: a fresh context has the defaults.\<close>

definition createCanvas :: "jsnum \<Rightarrow> jsnum \<Rightarrow> (string \<times> js_error) list \<Rightarrow> state" where
  "createCanvas w h out =
     \<lparr>canvas_width = w, canvas_height = h,
      dstate = \<lparr>fillStyle = Color ''#000000'', strokeStyle = Color ''#000000'',
                globalAlpha = Fin 1, font = ''10px sans-serif'', textAlign = ''start'',
                lineWidth = Fin 1, shadowColor = ''rgba(0, 0, 0, 0)'', shadowBlur = Fin 0,
                clipping = []\<rparr>,
      currentPath = [], saved = [], painted = [], console = out\<rparr>"

definition set_fillStyle :: "style \<Rightarrow> state \<Rightarrow> state" where
  "set_fillStyle v c = c\<lparr>dstate := (dstate c)\<lparr>fillStyle := v\<rparr>\<rparr>"

definition set_strokeStyle :: "style \<Rightarrow> state \<Rightarrow> state" where
  "set_strokeStyle v c = c\<lparr>dstate := (dstate c)\<lparr>strokeStyle := v\<rparr>\<rparr>"

definition set_globalAlpha :: "jsnum \<Rightarrow> state \<Rightarrow> state" where
  "set_globalAlpha v c = c\<lparr>dstate := (dstate c)\<lparr>globalAlpha := v\<rparr>\<rparr>"

definition set_font :: "string \<Rightarrow> state \<Rightarrow> state" where
  "set_font v c = c\<lparr>dstate := (dstate c)\<lparr>font := v\<rparr>\<rparr>"

definition set_textAlign :: "string \<Rightarrow> state \<Rightarrow> state" where
  "set_textAlign v c = c\<lparr>dstate := (dstate c)\<lparr>textAlign := v\<rparr>\<rparr>"

definition set_lineWidth :: "jsnum \<Rightarrow> state \<Rightarrow> state" where
  "set_lineWidth v c = c\<lparr>dstate := (dstate c)\<lparr>lineWidth := v\<rparr>\<rparr>"

definition set_shadowColor :: "string \<Rightarrow> state \<Rightarrow> state" where
  "set_shadowColor v c = c\<lparr>dstate := (dstate c)\<lparr>shadowColor := v\<rparr>\<rparr>"

definition set_shadowBlur :: "jsnum \<Rightarrow> state \<Rightarrow> state" where
  "set_shadowBlur v c = c\<lparr>dstate := (dstate c)\<lparr>shadowBlur := v\<rparr>\<rparr>"

definition emit :: "paint \<Rightarrow> state \<Rightarrow> state" where
  "emit p c = c\<lparr>painted := painted c @ [(p, dstate c)]\<rparr>"

definition fillRect :: "jsnum \<Rightarrow> jsnum \<Rightarrow> jsnum \<Rightarrow> jsnum \<Rightarrow> state \<Rightarrow> state" where
  "fillRect x y w h = emit (FillRect x y w h)"

definition fillText :: "string \<Rightarrow> jsnum \<Rightarrow> jsnum \<Rightarrow> state \<Rightarrow> state" where
  "fillText s x y = emit (FillText s x y)"

definition drawImage :: "image \<Rightarrow> jsnum \<Rightarrow> jsnum \<Rightarrow> jsnum \<Rightarrow> jsnum \<Rightarrow> state \<Rightarrow> state" where
  "drawImage img x y w h = emit (DrawImage img x y w h)"

definition fill :: "state \<Rightarrow> state" where
  "fill c = emit (FillPath (currentPath c)) c"

definition stroke :: "state \<Rightarrow> state" where
  "stroke c = emit (StrokePath (currentPath c)) c"

definition beginPath :: "state \<Rightarrow> state" where
  "beginPath c = c\<lparr>currentPath := []\<rparr>"

definition segment :: "segment \<Rightarrow> state \<Rightarrow> state" where
  "segment g c = c\<lparr>currentPath := currentPath c @ [g]\<rparr>"

definition clip :: "state \<Rightarrow> state" where
  "clip c = c\<lparr>dstate := (dstate c)\<lparr>clipping := clipping (dstate c) @ [currentPath c]\<rparr>\<rparr>"

definition save :: "state \<Rightarrow> state" where
  "save c = c\<lparr>saved := dstate c # saved c\<rparr>"

text \<open>\<open>restore\<close> on an empty stack does nothing.\<close>

definition restore :: "state \<Rightarrow> state" where
  "restore c = (case saved c of [] \<Rightarrow> c | d # ds \<Rightarrow> c\<lparr>dstate := d, saved := ds\<rparr>)"

definition console_error :: "string \<Rightarrow> js_error \<Rightarrow> state \<Rightarrow> state" where
  "console_error msg e c = c\<lparr>console := console c @ [(msg, e)]\<rparr>"

definition createLinearGradient :: "jsnum \<Rightarrow> jsnum \<Rightarrow> jsnum \<Rightarrow> jsnum \<Rightarrow> CanvasGradient" where
  "createLinearGradient x0 y0 x1 y1 = \<lparr>geom = Linear x0 y0 x1 y1, stops = []\<rparr>"

definition createRadialGradient ::
  "jsnum \<Rightarrow> jsnum \<Rightarrow> jsnum \<Rightarrow> jsnum \<Rightarrow> jsnum \<Rightarrow> jsnum \<Rightarrow> CanvasGradient" where
  "createRadialGradient x0 y0 r0 x1 y1 r1 = \<lparr>geom = Radial x0 y0 r0 x1 y1 r1, stops = []\<rparr>"

definition addColorStop :: "jsnum \<Rightarrow> string \<Rightarrow> CanvasGradient \<Rightarrow> CanvasGradient" where
  "addColorStop offset color g = g\<lparr>stops := stops g @ [(offset, color)]\<rparr>"

text \<open>Statements in sequence: the operations of a list, first to last.\<close>

definition run :: "(state \<Rightarrow> state) list \<Rightarrow> state \<Rightarrow> state" where
  "run ops c = fold (\<lambda>f s. f s) ops c"

text \<open>\<open>canvas.toBuffer('image/png')\<close>: the encoded image, as its size and content.\<close>

record Buffer =
  png_width :: jsnum
  png_height :: jsnum
  png_content :: "(paint \<times> drawing_state) list"

definition toBuffer :: "state \<Rightarrow> Buffer" where
  "toBuffer c = \<lparr>png_width = canvas_width c, png_height = canvas_height c,
                 png_content = painted c\<rparr>"

definition moveTo :: "jsnum \<Rightarrow> jsnum \<Rightarrow> state \<Rightarrow> state" where
  "moveTo x y = segment (MoveTo x y)"

definition lineTo :: "jsnum \<Rightarrow> jsnum \<Rightarrow> state \<Rightarrow> state" where
  "lineTo x y = segment (LineTo x y)"

definition quadraticCurveTo :: "jsnum \<Rightarrow> jsnum \<Rightarrow> jsnum \<Rightarrow> jsnum \<Rightarrow> state \<Rightarrow> state" where
  "quadraticCurveTo cpx cpy x y = segment (QuadraticCurveTo cpx cpy x y)"

definition arc :: "jsnum \<Rightarrow> jsnum \<Rightarrow> jsnum \<Rightarrow> jsnum \<Rightarrow> jsnum \<Rightarrow> state \<Rightarrow> state" where
  "arc x y r a0 a1 = segment (Arc x y r a0 a1)"

definition closePath :: "state \<Rightarrow> state" where
  "closePath = segment ClosePath"

section \<open>Array.prototype.sort\<close>

text \<open>
  \<open>sort\<close> is stable and orders \<open>a\<close> after \<open>b\<close> when the comparator's result on
  \<open>(a, b)\<close> is greater than zero; a \<open>NaN\<close> result counts as zero. For a comparator that
  is consistent the result is determined by this, whatever the algorithm; the model
  inserts from the right. (For an inconsistent comparator the language leaves the order
  to the implementation.) The array is sorted in place.
\<close>

fun insert_sorted :: "('a \<Rightarrow> 'a \<Rightarrow> jsnum) \<Rightarrow> 'a \<Rightarrow> 'a list \<Rightarrow> 'a list" where
  "insert_sorted cmp a [] = [a]"
| "insert_sorted cmp a (b # bs) =
     (if cmp a b > Fin 0 then b # insert_sorted cmp a bs else a # b # bs)"

definition Array_sort :: "('a \<Rightarrow> 'a \<Rightarrow> jsnum) \<Rightarrow> 'a list \<Rightarrow> 'a list" where
  "Array_sort cmp xs = foldr (insert_sorted cmp) xs []"

section \<open>LeaderboardBuilder\<close>

text \<open>
  Arrays are objects: \<open>setRankTiers\<close> keeps the caller's array, not a copy of it. The
  tier arrays live in a store, and the builder's field \<open>rankTiers\<close> is a reference into it.
\<close>

type_synonym ref = nat

type_synonym store = "ref \<Rightarrow> RankTier list"

record LeaderboardBuilder =
  users :: "LeaderboardData list"
  limit :: "jsnum option"
  background :: BackgroundOptions
  header :: HeaderOptions
  podium :: PodiumOptions
  rankVisible :: bool
  rankTiers :: ref
  xpBarColors :: XpBarColors
  fontStyles :: FontStyles

text \<open>The field initialisers; \<open>r\<close> is the fresh array \<open>[]\<close> of \<open>rankTiers\<close>.\<close>

definition new_LeaderboardBuilder :: "ref \<Rightarrow> store \<Rightarrow> store \<times> LeaderboardBuilder" where
  "new_LeaderboardBuilder r s =
     (s(r := []),
      \<lparr>users = [], limit = None, background = BgString ''#0D0E12'',
       header = \<lparr>title = ''Leaderboard'', subtitle = None\<rparr>,
       podium = \<lparr>podium_colors = None\<rparr>, rankVisible = True, rankTiers = r,
       xpBarColors = \<lparr>primary = ''#5865F2'', secondary = ''#A458F2''\<rparr>,
       fontStyles = \<lparr>headerTitle = None, headerSubtitle = None, userNickname = None,
                     userLevel = None, userPosition = None, xpText = None,
                     rankText = None\<rparr>\<rparr>)"

definition setUsers :: "LeaderboardData list \<Rightarrow> LeaderboardBuilder \<Rightarrow> LeaderboardBuilder" where
  "setUsers us b = b\<lparr>users := us\<rparr>"

definition setLimit :: "jsnum \<Rightarrow> LeaderboardBuilder \<Rightarrow> LeaderboardBuilder" where
  "setLimit n b = b\<lparr>limit := Some n\<rparr>"

definition setBackground :: "BackgroundOptions \<Rightarrow> LeaderboardBuilder \<Rightarrow> LeaderboardBuilder" where
  "setBackground options b = b\<lparr>background := options\<rparr>"

definition setRankTiers :: "ref \<Rightarrow> store \<times> LeaderboardBuilder \<Rightarrow> store \<times> LeaderboardBuilder" where
  "setRankTiers tiers sb =
     (case sb of (s, b) \<Rightarrow>
        (s(tiers := Array_sort (\<lambda>t u. minXp u - minXp t) (s tiers)),
         b\<lparr>rankTiers := tiers\<rparr>))"

definition getRankForXp :: "store \<Rightarrow> LeaderboardBuilder \<Rightarrow> jsnum \<Rightarrow> RankTier option" where
  "getRankForXp s b v =
     (if length (s (rankTiers b)) = 0 then None
      else find (\<lambda>tier. v \<ge> minXp tier) (s (rankTiers b)))"

subsection \<open>build\<close>

text \<open>
  What a render takes from outside the program. \<open>loadImage\<close> resolves to an image or
  rejects, and a call may fail where another call with the same URL succeeds: the
  outcomes are given call by call. \<open>build\<close> calls \<open>loadImage\<close> once in each pass of its
  loop and awaits the outcome before it goes on, so the calls are numbered by the index
  of the row, and \<open>loadImage env i url\<close> is the outcome of the call of row \<open>i\<close>. The other
  part is the text of the numbers that \<open>Number_toString\<close> leaves open.
\<close>

record env =
  loadImage :: "nat \<Rightarrow> string \<Rightarrow> js_error + image"
  formatNumber :: "rat \<Rightarrow> string"

definition roundRect ::
  "jsnum \<Rightarrow> jsnum \<Rightarrow> jsnum \<Rightarrow> jsnum \<Rightarrow> jsnum \<Rightarrow> state \<Rightarrow> state" where
  "roundRect x y w h radius =
     run [beginPath,
          moveTo (x + radius) y,
          lineTo (x + w - radius) y,
          quadraticCurveTo (x + w) y (x + w) (y + radius),
          lineTo (x + w) (y + h - radius),
          quadraticCurveTo (x + w) (y + h) (x + w - radius) (y + h),
          lineTo (x + radius) (y + h),
          quadraticCurveTo x (y + h) x (y + h - radius),
          lineTo x (y + radius),
          quadraticCurveTo x y (x + radius) y,
          closePath]"

definition usersToRender :: "LeaderboardBuilder \<Rightarrow> LeaderboardData list" where
  "usersToRender b =
     (case limit b of
        None \<Rightarrow> users b
      | Some n \<Rightarrow> if truthy_num n then slice (users b) (Fin 0) n else users b)"

definition width :: jsnum where
  "width = Fin 900"

definition has_subtitle :: "LeaderboardBuilder \<Rightarrow> bool" where
  "has_subtitle b = (case subtitle (header b) of None \<Rightarrow> False | Some s \<Rightarrow> truthy_str s)"

definition headerHeight :: "LeaderboardBuilder \<Rightarrow> jsnum" where
  "headerHeight b = (if has_subtitle b then Fin 150 else Fin 120)"

definition height :: "LeaderboardBuilder \<Rightarrow> jsnum" where
  "height b = headerHeight b + (num (length (usersToRender b)) * Fin 100) + Fin 20"

text \<open>Lines 221 to 229: one spot of the aurora.\<close>

definition aurora_spot :: "jsnum \<Rightarrow> jsnum \<Rightarrow> AuroraSpot \<Rightarrow> state \<Rightarrow> state" where
  "aurora_spot w h spot =
     (let gradient =
            addColorStop (Fin 1) (spot_color spot @ ''00'')
              (addColorStop (Fin 0) (spot_color spot)
                 (createRadialGradient (spot_x spot) (spot_y spot) (Fin 0)
                    (spot_x spot) (spot_y spot) (spot_radius spot)))
      in run [set_fillStyle (Gradient gradient), fillRect (Fin 0) (Fin 0) w h])"

text \<open>Lines 235 to 244: the \<open>switch\<close> on the gradient's type.\<close>

definition gradient_for :: "string \<Rightarrow> jsnum \<Rightarrow> jsnum \<Rightarrow> CanvasGradient" where
  "gradient_for t w h =
     (if t = ''linear-left-right'' then createLinearGradient (Fin 0) (Fin 0) w (Fin 0)
      else if t = ''linear-right-left'' then createLinearGradient w (Fin 0) (Fin 0) (Fin 0)
      else if t = ''linear-top-bottom'' then createLinearGradient (Fin 0) (Fin 0) (Fin 0) h
      else if t = ''linear-bottom-top'' then createLinearGradient (Fin 0) h (Fin 0) (Fin 0)
      else if t = ''linear-top-left-bottom-right'' then
        createLinearGradient (Fin 0) (Fin 0) w h
      else if t = ''linear-top-right-bottom-left'' then
        createLinearGradient w (Fin 0) (Fin 0) h
      else if t = ''radial'' then
        createRadialGradient (w / Fin 2) (h / Fin 2) (Fin 0) (w / Fin 2) (h / Fin 2)
          (Math_max w h / Fin 2)
      else createLinearGradient (Fin 0) (Fin 0) w h)"

text \<open>Lines 245 to 247: \<open>colors.forEach((color, index) => gradient.addColorStop(...))\<close>.\<close>

definition add_stops :: "string list \<Rightarrow> CanvasGradient \<Rightarrow> CanvasGradient" where
  "add_stops cs g =
     fold (\<lambda>(index, color). addColorStop (num index / (num (length cs) - Fin 1)) color)
       (enumerate 0 cs) g"

text \<open>Lines 210 to 250: the background.\<close>

definition build_background :: "BackgroundOptions \<Rightarrow> jsnum \<Rightarrow> jsnum \<Rightarrow> state \<Rightarrow> state" where
  "build_background bg w h =
     (case bg of
        BgString color \<Rightarrow> run [set_fillStyle (Color color), fillRect (Fin 0) (Fin 0) w h]
      | BgObject ob \<Rightarrow>
          if bg_type ob = ''aurora'' then
            run ([set_fillStyle (Color (baseColor ob)),
                  fillRect (Fin 0) (Fin 0) w h,
                  set_globalAlpha (Fin (4 / 10))]
                 @ map (aurora_spot w h) (spots ob)
                 @ [set_globalAlpha (Fin 1)])
          else
            run [set_fillStyle (Gradient (add_stops (colors ob) (gradient_for (bg_type ob) w h))),
                 fillRect (Fin 0) (Fin 0) w h])"

text \<open>Lines 252 to 263: the header.\<close>

definition build_header :: "LeaderboardBuilder \<Rightarrow> state \<Rightarrow> state" where
  "build_header b =
     run ([set_textAlign ''center'',
           set_fillStyle (Color ''#FFFFFF''),
           set_font (or_default (headerTitle (fontStyles b)) ''bold 42px Roboto''),
           set_shadowColor ''rgba(0, 0, 0, 0.5)'',
           set_shadowBlur (Fin 10),
           fillText (title (header b)) (width / Fin 2) (Fin 85)]
          @ (case subtitle (header b) of
               None \<Rightarrow> []
             | Some s \<Rightarrow>
                 if truthy_str s then
                   [set_font (or_default (headerSubtitle (fontStyles b)) ''22px Roboto''),
                    set_fillStyle (Color ''#B9BBBE''),
                    fillText s (width / Fin 2) (Fin 115)]
                 else [])
          @ [set_shadowColor ''transparent''])"

text \<open>Lines 270 to 277: the card of a row, filled and outlined.\<close>

definition build_card :: "jsnum \<Rightarrow> state \<Rightarrow> state" where
  "build_card y =
     run [set_fillStyle (Color ''rgba(255, 255, 255, 0.04)''),
          roundRect (Fin 30) y (width - Fin 60) (Fin 90) (Fin 15),
          fill,
          set_strokeStyle (Color ''rgba(255, 255, 255, 0.1)''),
          set_lineWidth (Fin 1),
          roundRect (Fin 30) y (width - Fin 60) (Fin 90) (Fin 15),
          stroke]"

text \<open>
  Lines 279 to 282. \<open>c && v\<close> is \<open>v\<close> when \<open>c\<close> holds and \<open>false\<close> otherwise, \<open>u || v\<close> is
  \<open>u\<close> when \<open>u\<close> is truthy and \<open>v\<close> otherwise; the result is used as a colour only when
  it is truthy, so a falsy result is \<open>None\<close>.
\<close>

definition podium_color :: "PodiumOptions \<Rightarrow> (PodiumColors \<Rightarrow> string option) \<Rightarrow> string option" where
  "podium_color p sel =
     (case podium_colors p of
        None \<Rightarrow> None
      | Some cs \<Rightarrow>
          (case sel cs of None \<Rightarrow> None | Some s \<Rightarrow> if truthy_str s then Some s else None))"

definition podiumColor :: "PodiumOptions \<Rightarrow> nat \<Rightarrow> string option" where
  "podiumColor p position =
     (if position = 1 \<and> podium_color p first \<noteq> None then podium_color p first
      else if position = 2 \<and> podium_color p second \<noteq> None then podium_color p second
      else if position = 3 then podium_color p third
      else None)"

text \<open>Lines 284 to 289: the podium accent.\<close>

definition build_podium :: "LeaderboardBuilder \<Rightarrow> nat \<Rightarrow> jsnum \<Rightarrow> state \<Rightarrow> state" where
  "build_podium b position y =
     (case podiumColor (podium b) position of
        None \<Rightarrow> run []
      | Some color \<Rightarrow>
          run [set_strokeStyle (Color color),
               set_lineWidth (Fin 2),
               roundRect (Fin 30) y (width - Fin 60) (Fin 90) (Fin 15),
               stroke])"

text \<open>Lines 291 to 294: the position index.\<close>

definition build_position :: "env \<Rightarrow> LeaderboardBuilder \<Rightarrow> nat \<Rightarrow> jsnum \<Rightarrow> state \<Rightarrow> state" where
  "build_position env b position y =
     run [set_font (or_default (userPosition (fontStyles b)) ''bold 30px Roboto''),
          set_fillStyle (Color ''#B9BBBE''),
          set_textAlign ''center'',
          fillText (Number_toString (formatNumber env) (num position)) (Fin 80) (y + Fin 58)]"

text \<open>Lines 296 to 304: the body of the \<open>try\<close>, and the \<open>try\<close> with its \<open>catch\<close>.\<close>

definition try_avatar ::
  "env \<Rightarrow> nat \<Rightarrow> LeaderboardData \<Rightarrow> jsnum \<Rightarrow> state \<Rightarrow> js_error + state" where
  "try_avatar env i player y c =
     (case loadImage env i (avatarUrl player) of
        Inl e \<Rightarrow> Inl e
      | Inr avatar \<Rightarrow>
          Inr (run [save,
                    beginPath,
                    arc (Fin 170) (y + Fin 45) (Fin 30) (Fin 0) (Math_PI * Fin 2),
                    clip,
                    drawImage avatar (Fin 140) (y + Fin 15) (Fin 60) (Fin 60),
                    restore] c))"

definition build_avatar :: "env \<Rightarrow> nat \<Rightarrow> LeaderboardData \<Rightarrow> jsnum \<Rightarrow> state \<Rightarrow> state" where
  "build_avatar env i player y c =
     (case try_avatar env i player y c of
        Inl e \<Rightarrow> console_error ''Could not load avatar'' e c
      | Inr c' \<Rightarrow> c')"

text \<open>Lines 306 to 312: the nickname and the level.\<close>

definition build_name :: "env \<Rightarrow> LeaderboardBuilder \<Rightarrow> LeaderboardData \<Rightarrow> jsnum \<Rightarrow> state \<Rightarrow> state" where
  "build_name env b player y =
     run [set_textAlign ''left'',
          set_fillStyle (Color ''#FFFFFF''),
          set_font (or_default (userNickname (fontStyles b)) ''bold 22px Roboto''),
          fillText (nickname player) (Fin 225) (y + Fin 40),
          set_fillStyle (Color ''#B9BBBE''),
          set_font (or_default (userLevel (fontStyles b)) ''16px Roboto''),
          fillText (''Level '' @ Number_toString (formatNumber env) (level player))
            (Fin 225) (y + Fin 65)]"

text \<open>Lines 314 to 333: the XP bar and its text.\<close>

definition barWidth :: "LeaderboardBuilder \<Rightarrow> jsnum" where
  "barWidth b = (if rankVisible b then Fin 200 else Fin 350)"

definition progress :: "LeaderboardData \<Rightarrow> jsnum" where
  "progress player = (if neededXp player > Fin 0 then xp player / neededXp player else Fin 0)"

definition xpGradient :: "LeaderboardBuilder \<Rightarrow> CanvasGradient" where
  "xpGradient b =
     addColorStop (Fin 1) (secondary (xpBarColors b))
       (addColorStop (Fin 0) (primary (xpBarColors b))
          (createLinearGradient (Fin 450) (Fin 0) (Fin 450 + barWidth b) (Fin 0)))"

definition xp_text :: "env \<Rightarrow> LeaderboardData \<Rightarrow> string" where
  "xp_text env player =
     Number_toString (formatNumber env) (xp player) @ '' / ''
       @ Number_toString (formatNumber env) (neededXp player)"

definition build_xp_bar :: "env \<Rightarrow> LeaderboardBuilder \<Rightarrow> LeaderboardData \<Rightarrow> jsnum \<Rightarrow> state \<Rightarrow> state" where
  "build_xp_bar env b player y =
     run ([set_fillStyle (Color ''rgba(0, 0, 0, 0.3)''),
           roundRect (Fin 450) (y + Fin 45) (barWidth b) (Fin 10) (Fin 5),
           fill]
          @ (if progress player > Fin 0 then
               [set_fillStyle (Gradient (xpGradient b)),
                roundRect (Fin 450) (y + Fin 45)
                  (barWidth b * Math_min (progress player) (Fin 1)) (Fin 10) (Fin 5),
                fill]
             else [])
          @ [set_font (or_default (xpText (fontStyles b)) ''bold 10px Roboto''),
             set_fillStyle (Color ''#FFFFFF''),
             set_textAlign ''right'',
             fillText (xp_text env player) (Fin 450 + barWidth b) (y + Fin 70)])"

text \<open>Lines 335 to 341: the rank label.\<close>

definition build_rank :: "store \<Rightarrow> LeaderboardBuilder \<Rightarrow> LeaderboardData \<Rightarrow> jsnum \<Rightarrow> state \<Rightarrow> state" where
  "build_rank s b player y =
     (case getRankForXp s b (xp player) of
        None \<Rightarrow> run []
      | Some tier \<Rightarrow>
          if rankVisible b then
            run [set_textAlign ''right'',
                 set_font (or_default (rankText (fontStyles b)) ''bold 22px Roboto''),
                 set_fillStyle (Color (tier_color tier)),
                 fillText (tier_name tier) (width - Fin 50) (y + Fin 58)]
          else run [])"

text \<open>Lines 266 to 341: the body of the loop, for the row of index \<open>i\<close>.\<close>

definition row_y :: "LeaderboardBuilder \<Rightarrow> nat \<Rightarrow> jsnum" where
  "row_y b i = headerHeight b + num i * Fin 100"

definition build_row :: "env \<Rightarrow> store \<Rightarrow> LeaderboardBuilder \<Rightarrow> nat \<Rightarrow> LeaderboardData \<Rightarrow> state \<Rightarrow> state" where
  "build_row env s b i player =
     (let position = i + 1; y = row_y b i in
      run [build_card y,
           build_podium b position y,
           build_position env b position y,
           build_avatar env i player y,
           build_name env b player y,
           build_xp_bar env b player y,
           build_rank s b player y])"

text \<open>Line 265: the loop over \<open>usersToRender\<close>, from index \<open>i\<close> on.\<close>

fun build_rows ::
  "env \<Rightarrow> store \<Rightarrow> LeaderboardBuilder \<Rightarrow> nat \<Rightarrow> LeaderboardData list \<Rightarrow> state \<Rightarrow> state" where
  "build_rows env s b i [] c = c"
| "build_rows env s b i (player # rest) c =
     build_rows env s b (Suc i) rest (build_row env s b i player c)"

text \<open>
  \<open>build\<close>, run with the console holding \<open>out\<close>: the state when the last row is drawn,
  and the result, the buffer the promise resolves to together with the console.
\<close>

definition build_state :: "env \<Rightarrow> store \<Rightarrow> LeaderboardBuilder \<Rightarrow> (string \<times> js_error) list \<Rightarrow> state" where
  "build_state env s b out =
     build_rows env s b 0 (usersToRender b)
       (build_header b
          (build_background (background b) width (height b)
             (createCanvas width (height b) out)))"

definition build ::
  "env \<Rightarrow> store \<Rightarrow> LeaderboardBuilder \<Rightarrow> (string \<times> js_error) list
     \<Rightarrow> Buffer \<times> (string \<times> js_error) list" where
  "build env s b out = (toBuffer (build_state env s b out), console (build_state env s b out))"

subsection \<open>The colour stops of the aurora\<close>

text \<open>
  \<open>addColorStop\<close> parses the colour it is given and throws when that is no colour. The
  colours of a configuration are colours by the data model, and the stops made of them
  are recorded as above. One stop is made of a string the program builds: the second
  stop of an aurora spot, \<open>spot.color + '00'\<close> (line 225). What the library throws for a
  string, if it throws, is a parameter, the library not being part of the repository.
\<close>

type_synonym color_check = "string \<Rightarrow> js_error option"

definition addColorStop_checked ::
  "color_check \<Rightarrow> jsnum \<Rightarrow> string \<Rightarrow> CanvasGradient \<Rightarrow> js_error + CanvasGradient" where
  "addColorStop_checked rejects offset color g =
     (case rejects color of
        Some e \<Rightarrow> Inl e
      | None \<Rightarrow> Inr (addColorStop offset color g))"

text \<open>Lines 221 to 229 with the check: a spot is painted, or the second stop throws.\<close>

definition aurora_spot_checked ::
  "color_check \<Rightarrow> jsnum \<Rightarrow> jsnum \<Rightarrow> AuroraSpot \<Rightarrow> state \<Rightarrow> js_error + state" where
  "aurora_spot_checked rejects w h spot c =
     (case addColorStop_checked rejects (Fin 1) (spot_color spot @ ''00'')
             (addColorStop (Fin 0) (spot_color spot)
                (createRadialGradient (spot_x spot) (spot_y spot) (Fin 0)
                   (spot_x spot) (spot_y spot) (spot_radius spot))) of
        Inl e \<Rightarrow> Inl e
      | Inr gradient \<Rightarrow>
          Inr (run [set_fillStyle (Gradient gradient), fillRect (Fin 0) (Fin 0) w h] c))"

text \<open>
  Line 220, \<open>spots.forEach\<close>: the first throw ends the loop. On a throw the result is the
  error together with the state the context is left in.
\<close>

fun aurora_spots_checked ::
  "color_check \<Rightarrow> jsnum \<Rightarrow> jsnum \<Rightarrow> AuroraSpot list \<Rightarrow> state \<Rightarrow> js_error \<times> state + state" where
  "aurora_spots_checked rejects w h [] c = Inr c"
| "aurora_spots_checked rejects w h (spot # rest) c =
     (case aurora_spot_checked rejects w h spot c of
        Inl e \<Rightarrow> Inl (e, c)
      | Inr c' \<Rightarrow> aurora_spots_checked rejects w h rest c')"

text \<open>
  Lines 214 to 231. Nothing catches the throw of a stop: there is no \<open>try\<close> around the
  loop, so line 231, which sets the opacity back, is not reached.
\<close>

definition aurora_checked ::
  "color_check \<Rightarrow> BackgroundObject \<Rightarrow> jsnum \<Rightarrow> jsnum \<Rightarrow> state \<Rightarrow> js_error \<times> state + state" where
  "aurora_checked rejects ob w h c =
     (case aurora_spots_checked rejects w h (spots ob)
             (run [set_fillStyle (Color (baseColor ob)),
                   fillRect (Fin 0) (Fin 0) w h,
                   set_globalAlpha (Fin (4 / 10))] c) of
        Inl ec \<Rightarrow> Inl ec
      | Inr c' \<Rightarrow> Inr (set_globalAlpha (Fin 1) c'))"

text \<open>
  \<open>build\<close> with the check: the promise is rejected with the error of the stop, nothing
  after the background being run, or resolves to the buffer.
\<close>

definition build_checked ::
  "color_check \<Rightarrow> env \<Rightarrow> store \<Rightarrow> LeaderboardBuilder \<Rightarrow> (string \<times> js_error) list
     \<Rightarrow> js_error \<times> state + Buffer \<times> (string \<times> js_error) list" where
  "build_checked rejects env s b out =
     (case background b of
        BgString color \<Rightarrow> Inr (build env s b out)
      | BgObject ob \<Rightarrow>
          if bg_type ob = ''aurora'' then
            (case aurora_checked rejects ob width (height b)
                    (createCanvas width (height b) out) of
               Inl ec \<Rightarrow> Inl ec
             | Inr c \<Rightarrow>
                 Inr (toBuffer (build_rows env s b 0 (usersToRender b) (build_header b c)),
                      console (build_rows env s b 0 (usersToRender b) (build_header b c))))
          else Inr (build env s b out))"

section \<open>What a render has drawn\<close>

text \<open>
  The paint operations a state holds, in order, without the drawing states; and the same
  with the opacity each one was issued under.
\<close>

definition paints :: "state \<Rightarrow> paint list" where
  "paints c = map fst (painted c)"

definition drawn :: "state \<Rightarrow> (paint \<times> jsnum) list" where
  "drawn c = map (\<lambda>e. (fst e, globalAlpha (snd e))) (painted c)"

definition under :: "jsnum \<Rightarrow> paint list \<Rightarrow> (paint \<times> jsnum) list" where
  "under a ps = map (\<lambda>p. (p, a)) ps"

definition fresh :: state where
  "fresh = createCanvas (Fin 0) (Fin 0) []"

text \<open>
  A rectangle with rounded corners as a path: from \<open>x\<close> to \<open>x + w\<close> across and from \<open>y\<close>
  to \<open>y + h\<close> down, each corner a curve of radius \<open>r\<close>.
\<close>

definition rounded_rect :: "jsnum \<Rightarrow> jsnum \<Rightarrow> jsnum \<Rightarrow> jsnum \<Rightarrow> jsnum \<Rightarrow> segment list" where
  "rounded_rect x y w h r =
     [MoveTo (x + r) y,
      LineTo (x + w - r) y,
      QuadraticCurveTo (x + w) y (x + w) (y + r),
      LineTo (x + w) (y + h - r),
      QuadraticCurveTo (x + w) (y + h) (x + w - r) (y + h),
      LineTo (x + r) (y + h),
      QuadraticCurveTo x (y + h) x (y + h - r),
      LineTo x (y + r),
      QuadraticCurveTo x y (x + r) y,
      ClosePath]"

text \<open>The paint operations one row issues.\<close>

definition row_paints :: "env \<Rightarrow> store \<Rightarrow> LeaderboardBuilder \<Rightarrow> nat \<Rightarrow> LeaderboardData \<Rightarrow> paint list" where
  "row_paints env s b i player = paints (build_row env s b i player fresh)"

section \<open>Notions the properties are stated with\<close>

text \<open>A tier array in the order \<open>setRankTiers\<close> aims at: no tier before one of greater \<open>minXp\<close>.\<close>

definition descending :: "RankTier list \<Rightarrow> bool" where
  "descending ts = sorted_wrt (\<lambda>t u. minXp u \<le> minXp t) ts"

text \<open>
  The paint operations with the fill style and the opacity each was issued under; the
  gradient of an aurora spot; and the blocks of statements that only add to what is
  drawn.
\<close>

definition layers :: "state \<Rightarrow> (paint \<times> style \<times> jsnum) list" where
  "layers c = map (\<lambda>e. (fst e, fillStyle (snd e), globalAlpha (snd e))) (painted c)"

definition spot_gradient :: "AuroraSpot \<Rightarrow> CanvasGradient" where
  "spot_gradient spot =
     \<lparr>geom = Radial (spot_x spot) (spot_y spot) (Fin 0) (spot_x spot) (spot_y spot)
               (spot_radius spot),
      stops = [(Fin 0, spot_color spot), (Fin 1, spot_color spot @ ''00'')]\<rparr>"

definition grows :: "(state \<Rightarrow> state) \<Rightarrow> bool" where
  "grows f = (\<forall>c. \<exists>r. painted (f c) = painted c @ r)"

text \<open>
  Whether a paint operation draws an image, and what has been painted apart from the
  images, each paint operation with the drawing state it was issued under.
\<close>

definition is_image :: "paint \<Rightarrow> bool" where
  "is_image p = (case p of DrawImage img x y w h \<Rightarrow> True | _ \<Rightarrow> False)"

definition without_images :: "(paint \<times> drawing_state) list \<Rightarrow> (paint \<times> drawing_state) list" where
  "without_images ps = filter (\<lambda>e. \<not> is_image (fst e)) ps"

text \<open>
  Two states of the context that differ at most in the images painted, the current path
  and the console; and a state in which no clip is in force or saved, and none was when
  anything other than an image was painted.
\<close>

definition alike :: "state \<Rightarrow> state \<Rightarrow> bool" where
  "alike c c' =
     (canvas_width c = canvas_width c' \<and> canvas_height c = canvas_height c'
      \<and> dstate c = dstate c' \<and> saved c = saved c'
      \<and> without_images (painted c) = without_images (painted c'))"

definition unclipped :: "state \<Rightarrow> bool" where
  "unclipped c =
     (clipping (dstate c) = [] \<and> list_all (\<lambda>d. clipping d = []) (saved c)
      \<and> list_all (\<lambda>e. is_image (fst e) \<or> clipping (snd e) = []) (painted c))"

section \<open>Example values\<close>

definition ex_master :: RankTier where
  "ex_master = \<lparr>tier_name = ''Master'', tier_color = ''#E0B0FF'', minXp = Fin 5000\<rparr>"

definition ex_pro :: RankTier where
  "ex_pro = \<lparr>tier_name = ''Pro'', tier_color = ''#5865F2'', minXp = Fin 1000\<rparr>"

definition ex_beginner :: RankTier where
  "ex_beginner = \<lparr>tier_name = ''Beginner'', tier_color = ''#FFFFFF'', minXp = Fin 0\<rparr>"

text \<open>A store with the caller's array at reference 1, and a new builder.\<close>

definition ex_store :: store where
  "ex_store = (\<lambda>r. [])(1 := [ex_beginner, ex_master, ex_pro])"

definition ex_builder :: LeaderboardBuilder where
  "ex_builder = snd (new_LeaderboardBuilder 0 ex_store)"

definition ex_alice :: LeaderboardData where
  "ex_alice = \<lparr>nickname = ''Alice'', avatarUrl = ''https://example.com/alice.png'',
                level = Fin 15, xp = Fin 2500, neededXp = Fin 3000, rank = None\<rparr>"

definition ex_bob :: LeaderboardData where
  "ex_bob = \<lparr>nickname = ''Bob'', avatarUrl = ''https://example.com/bob.png'',
              level = Fin 14, xp = Fin 3500, neededXp = Fin 3000, rank = None\<rparr>"

definition ex_carol :: LeaderboardData where
  "ex_carol = \<lparr>nickname = ''Carol'', avatarUrl = ''https://example.com/carol.png'',
                level = Fin 9, xp = Fin 500, neededXp = Fin 0, rank = None\<rparr>"

definition ex_dave :: LeaderboardData where
  "ex_dave = \<lparr>nickname = ''Dave'', avatarUrl = ''https://example.com/dave.png'',
               level = Fin 3, xp = Fin (- 5), neededXp = Fin 100, rank = None\<rparr>"

definition ex_eve :: LeaderboardData where
  "ex_eve = \<lparr>nickname = ''Eve'', avatarUrl = ''https://example.com/eve.png'',
              level = Fin 1, xp = Fin 0, neededXp = Fin 100, rank = None\<rparr>"

definition ex_users :: "LeaderboardData list" where
  "ex_users = [ex_alice, ex_bob, ex_carol, ex_dave, ex_eve]"

text \<open>An environment in which the second call of \<open>loadImage\<close> fails and the others succeed.\<close>

definition ex_env :: env where
  "ex_env =
     \<lparr>loadImage = (\<lambda>i url. if i = 1 then Inl (Error ''404'') else Inr (Image url)),
      formatNumber = (\<lambda>r. ''?'')\<rparr>"

text \<open>The builder after \<open>setRankTiers\<close> on the caller's array.\<close>

definition ex_ranked :: "store \<times> LeaderboardBuilder" where
  "ex_ranked = setRankTiers 1 (ex_store, ex_builder)"

definition ex_limited :: LeaderboardBuilder where
  "ex_limited = setLimit (Fin (- 2)) (setUsers ex_users ex_builder)"

definition ex_red :: LeaderboardBuilder where
  "ex_red = setBackground (BgObject \<lparr>bg_type = ''linear-left-right'', colors = [''#ff0000''],
                                     baseColor = [], spots = []\<rparr>) ex_builder"

definition ex_plaid :: LeaderboardBuilder where
  "ex_plaid = setBackground (BgObject \<lparr>bg_type = ''plaid'', colors = [''#5865F2'', ''#0D0E12''],
                                       baseColor = [], spots = []\<rparr>) ex_builder"

definition ex_board :: LeaderboardBuilder where
  "ex_board = ex_builder\<lparr>users := ex_users, limit := Some (Fin 2),
                header := \<lparr>title = ''Top'', subtitle = Some ''This week''\<rparr>\<rparr>"

definition ex_all :: LeaderboardBuilder where
  "ex_all = setUsers ex_users ex_builder"

definition ex_aurora :: LeaderboardBuilder where
  "ex_aurora = setBackground (BgObject \<lparr>bg_type = ''aurora'', colors = [], baseColor = ''#0D0E12'',
       spots = [\<lparr>spot_color = ''#5865f2'', spot_x = Fin 0, spot_y = Fin 0, spot_radius = Fin 500\<rparr>,
                \<lparr>spot_color = ''#be4eea'', spot_x = Fin 900, spot_y = Fin 800,
                 spot_radius = Fin 600\<rparr>]\<rparr>) ex_board"

definition ex_bare :: LeaderboardBuilder where
  "ex_bare = setBackground (BgObject \<lparr>bg_type = ''aurora'', colors = [], baseColor = ''#0D0E12'',
       spots = []\<rparr>) ex_board"

definition ex_frank :: LeaderboardData where
  "ex_frank = \<lparr>nickname = ''Frank'', avatarUrl = ''https://example.com/frank.png'',
                level = Fin 7, xp = Fin 1500, neededXp = Fin 2000, rank = None\<rparr>"

definition ex_pro_store :: store where
  "ex_pro_store = (\<lambda>r. [])(0 := [ex_pro])"

text \<open>
  A participant whose XP is the smallest positive double, \<open>5e-324\<close>, and a board of two
  rows with the same avatar URL.
\<close>

definition ex_tiny :: LeaderboardData where
  "ex_tiny = \<lparr>nickname = ''Tiny'', avatarUrl = ''https://example.com/tiny.png'',
               level = Fin 1, xp = Fin (pow2 (- 1074)), neededXp = Fin 4, rank = None\<rparr>"

definition ex_small :: LeaderboardBuilder where
  "ex_small = setUsers [ex_tiny] ex_builder"

definition ex_pair :: LeaderboardBuilder where
  "ex_pair = setUsers [ex_alice, ex_alice] ex_builder"

text \<open>
  A library that takes the hexadecimal colours: \<open>#\<close> and 3, 4, 6 or 8 hexadecimal
  digits. And an aurora whose second spot has the colour \<open>#fff\<close>.
\<close>

definition hex_color :: "string \<Rightarrow> bool" where
  "hex_color c =
     (case c of
        [] \<Rightarrow> False
      | h # ds \<Rightarrow> h = CHR ''#'' \<and> length ds \<in> {3, 4, 6, 8}
                  \<and> list_all (\<lambda>d. d \<in> set ''0123456789abcdefABCDEF'') ds)"

definition ex_rejects :: color_check where
  "ex_rejects c = (if hex_color c then None else Some (Error ''Invalid color''))"

definition ex_snow_spots :: BackgroundObject where
  "ex_snow_spots = \<lparr>bg_type = ''aurora'', colors = [], baseColor = ''#0D0E12'',
       spots = [\<lparr>spot_color = ''#5865f2'', spot_x = Fin 0, spot_y = Fin 0, spot_radius = Fin 500\<rparr>,
                \<lparr>spot_color = ''#fff'', spot_x = Fin 450, spot_y = Fin 100, spot_radius = Fin 300\<rparr>,
                \<lparr>spot_color = ''#be4eea'', spot_x = Fin 900, spot_y = Fin 800,
                 spot_radius = Fin 600\<rparr>]\<rparr>"

definition ex_snow :: LeaderboardBuilder where
  "ex_snow = setBackground (BgObject ex_snow_spots) ex_board"

section \<open>Rounding\<close>

lemma pow2_powi: "pow2 e = 2 powi e"
  by (simp add: pow2_def power_int_def field_simps)

lemma pow2_pos [simp]: "0 < pow2 e"
  by (simp add: pow2_def)

lemma pow2_nonneg [simp]: "0 \<le> pow2 e"
  using pow2_pos [of e] by linarith

lemma pow2_neq0 [simp]: "pow2 e \<noteq> 0"
  using pow2_pos [of e] by linarith

lemma pow2_not_le0 [simp]: "\<not> pow2 e \<le> 0"
  using pow2_pos [of e] by linarith

lemma pow2_add: "pow2 (a + b) = pow2 a * pow2 b"
  by (simp add: pow2_powi power_int_add)

lemma pow2_mono: "a \<le> b \<Longrightarrow> pow2 a \<le> pow2 b"
  by (simp add: pow2_powi power_int_increasing)

lemma pow2_strict_mono: "a < b \<Longrightarrow> pow2 a < pow2 b"
  by (simp add: pow2_powi power_int_strict_increasing)

lemma pow2_le_iff: "pow2 a \<le> pow2 b \<longleftrightarrow> a \<le> b"
  using pow2_mono pow2_strict_mono by (metis linorder_not_less)

lemma pow2_less_iff: "pow2 a < pow2 b \<longleftrightarrow> a < b"
  using pow2_mono pow2_strict_mono by (metis linorder_not_less)

lemma exponent_le:
  assumes "0 < r"
  shows "pow2 (exponent r) \<le> r"
proof (cases "1 \<le> r")
  case True
  then have pos: "0 < \<lfloor>r\<rfloor>" by simp
  have "bitlen \<lfloor>r\<rfloor> \<ge> 1" using pos by (simp add: bitlen_alt_def) 
  then have "pow2 (bitlen \<lfloor>r\<rfloor> - 1) = of_int (2 ^ nat (bitlen \<lfloor>r\<rfloor> - 1))"
    by (simp add: pow2_def)
  also have "\<dots> \<le> of_int \<lfloor>r\<rfloor>"
    using bitlen_bounds [OF pos] by (metis of_int_le_iff)
  also have "\<dots> \<le> r" by simp
  finally show ?thesis using True by (simp add: exponent_def)
next
  case False
  let ?n = "\<lceil>1 / r\<rceil> - 1"
  let ?k = "bitlen ?n"
  have r1: "1 < 1 / r" using False assms by simp
  then have pos: "0 < ?n" by linarith
  have k0: "0 \<le> ?k" by (rule bitlen_nonneg)
  have "?n < 2 ^ nat ?k" using bitlen_bounds [OF pos] by simp
  then have "\<lceil>1 / r\<rceil> \<le> 2 ^ nat ?k" by simp
  then have "1 / r \<le> of_int (2 ^ nat ?k)"
    by (meson ceiling_le_iff)
  then have "1 / r \<le> 2 ^ nat ?k" by simp
  then have "1 \<le> 2 ^ nat ?k * r"
    using assms by (simp add: field_simps)
  then have "1 / 2 ^ nat ?k \<le> r"
    by (simp add: field_simps)
  moreover have "pow2 (- ?k) = 1 / 2 ^ nat ?k"
    using k0 by (auto simp: pow2_def)
  ultimately show ?thesis using False by (simp add: exponent_def)
qed

lemma exponent_gt:
  assumes "0 < r"
  shows "r < pow2 (exponent r + 1)"
proof (cases "1 \<le> r")
  case True
  then have pos: "0 < \<lfloor>r\<rfloor>" by simp
  have b1: "bitlen \<lfloor>r\<rfloor> \<ge> 1" using pos by (simp add: bitlen_alt_def)
  have "\<lfloor>r\<rfloor> < 2 ^ nat (bitlen \<lfloor>r\<rfloor>)" using bitlen_bounds [OF pos] by simp
  then have "r < of_int (2 ^ nat (bitlen \<lfloor>r\<rfloor>))"
    by (meson floor_less_iff)
  then show ?thesis using True b1 by (simp add: exponent_def pow2_def)
next
  case False
  let ?n = "\<lceil>1 / r\<rceil> - 1"
  let ?k = "bitlen ?n"
  have r1: "1 < 1 / r" using False assms by simp
  then have pos: "0 < ?n" by linarith
  have k1: "1 \<le> ?k" using pos by (simp add: bitlen_alt_def)
  have "2 ^ nat (?k - 1) \<le> ?n" using bitlen_bounds [OF pos] by simp
  then have "of_int (2 ^ nat (?k - 1)) < 1 / r"
    by (smt (verit) less_ceiling_iff)
  then have "2 ^ nat (?k - 1) < 1 / r" by simp
  then have "r * 2 ^ nat (?k - 1) < 1"
    using assms by (simp add: field_simps)
  then have "r < 1 / 2 ^ nat (?k - 1)"
    by (simp add: field_simps)
  moreover have "pow2 (- ?k + 1) = 1 / 2 ^ nat (?k - 1)"
    using k1 by (auto simp: pow2_def)
  ultimately show ?thesis using False by (simp add: exponent_def)
qed


lemma round_half_even_nonneg: "0 \<le> x \<Longrightarrow> 0 \<le> round_half_even x"
  by (auto simp: round_half_even_def Let_def)

lemma round_half_even_ge: "of_int n \<le> x \<Longrightarrow> n \<le> round_half_even x"
  by (auto simp: round_half_even_def Let_def le_floor_iff) linarith+

lemma round_half_even_le: "x \<le> of_int n \<Longrightarrow> round_half_even x \<le> n"
proof -
  assume a: "x \<le> of_int n"
  then have f: "\<lfloor>x\<rfloor> \<le> n" by (simp add: floor_le_iff)
  show ?thesis
  proof (cases "\<lfloor>x\<rfloor> = n")
    case True
    then have "x - of_int \<lfloor>x\<rfloor> \<le> 0" using a by simp
    then show ?thesis using True by (auto simp: round_half_even_def Let_def)
  next
    case False
    then have "\<lfloor>x\<rfloor> + 1 \<le> n" using f by simp
    then show ?thesis by (auto simp: round_half_even_def Let_def)
  qed
qed

lemma round_half_even_of_int [simp]: "round_half_even (of_int n) = n"
  by (simp add: round_half_even_def)

lemma round_half_even_small: "0 \<le> x \<Longrightarrow> x \<le> 1 / 2 \<Longrightarrow> round_half_even x = 0"
proof -
  assume a: "0 \<le> x" "x \<le> 1 / 2"
  then have "\<lfloor>x\<rfloor> = 0" by (simp add: floor_eq_iff)
  then show ?thesis using a by (auto simp: round_half_even_def Let_def)
qed

lemma round_magnitude_nonneg: "0 < a \<Longrightarrow> 0 \<le> round_magnitude a"
  by (simp add: round_magnitude_def Let_def round_half_even_nonneg)

text \<open>A result that is not zero is at least the smallest positive double.\<close>

lemma round_magnitude_range:
  assumes "0 < a"
  shows "round_magnitude a = 0 \<or> pow2 (- 1074) \<le> round_magnitude a"
proof -
  let ?q = "pow2 (max (exponent a) (- 1022) - 52)"
  let ?m = "round_half_even (a / ?q)"
  have m: "0 \<le> ?m" using assms by (simp add: round_half_even_nonneg)
  have q: "pow2 (- 1074) \<le> ?q" by (rule pow2_mono) simp
  show ?thesis
  proof (cases "?m = 0")
    case True
    then show ?thesis by (simp add: round_magnitude_def Let_def)
  next
    case False
    then have "1 \<le> ?m" using m by linarith
    then have "(1::rat) \<le> of_int ?m" by simp
    then have "1 * ?q \<le> of_int ?m * ?q"
      by (intro mult_right_mono) simp_all
    then have "?q \<le> of_int ?m * ?q"
      by simp
    moreover have "round_magnitude a = of_int ?m * ?q"
      by (simp add: round_magnitude_def Let_def)
    ultimately show ?thesis using q by linarith
  qed
qed

lemma round_magnitude_pos:
  assumes "pow2 (- 1074) \<le> a"
  shows "pow2 (- 1074) \<le> round_magnitude a"
proof -
  have a: "0 < a" using assms pow2_pos [of "- 1074"] by linarith
  let ?e = "max (exponent a) (- 1022)"
  let ?q = "pow2 (?e - 52)"
  have "?q \<le> a"
  proof (cases "exponent a \<le> - 1022")
    case True
    then have "?e = - 1022" by simp
    then show ?thesis using assms by simp
  next
    case False
    then have "?e = exponent a" by simp
    moreover have "pow2 (exponent a - 52) \<le> pow2 (exponent a)" by (rule pow2_mono) simp
    ultimately show ?thesis using exponent_le [OF a] by simp
  qed
  then have "1 \<le> a / ?q" by (simp add: field_simps)
  then have "1 \<le> round_half_even (a / ?q)"
    using round_half_even_ge [of 1 "a / ?q"] by simp
  then have "round_magnitude a \<noteq> 0"
    by (simp add: round_magnitude_def Let_def)
  then show ?thesis using round_magnitude_range [OF a] by simp
qed

lemma round_magnitude_underflow:
  assumes "0 < a" "a \<le> pow2 (- 1075)"
  shows "round_magnitude a = 0"
proof -
  have "pow2 (exponent a) \<le> pow2 (- 1075)"
    using exponent_le [OF assms(1)] assms(2) by linarith
  then have "exponent a \<le> - 1075" by (simp add: pow2_le_iff)
  then have e: "max (exponent a) (- 1022) - 52 = - 1074" by simp
  have "pow2 (- 1075) = pow2 (- 1074) * (1 / 2)"
    using pow2_add [of "- 1074" "- 1"] by (simp add: pow2_def)
  then have "a / pow2 (- 1074) \<le> 1 / 2"
    using assms(2) by (simp add: field_simps)
  moreover have "0 \<le> a / pow2 (- 1074)" using assms(1) by simp
  ultimately have "round_half_even (a / pow2 (- 1074)) = 0"
    by (rule round_half_even_small [rotated])
  then show ?thesis by (simp add: round_magnitude_def e)
qed

lemma js_round_not_NaN [simp]: "js_round r \<noteq> NaN"
  by (simp add: js_round_def)

lemma js_round_zero [simp]: "js_round 0 = Fin 0"
  by (simp add: js_round_def)

lemma js_round_pos: "pow2 (- 1074) \<le> r \<Longrightarrow> Fin 0 < js_round r"
proof -
  assume a: "pow2 (- 1074) \<le> r"
  then have r: "0 < r" using pow2_pos [of "- 1074"] by linarith
  then have "pow2 (- 1074) \<le> round_magnitude \<bar>r\<bar>"
    using a by (simp add: round_magnitude_pos)
  then have "0 < round_magnitude \<bar>r\<bar>"
    using pow2_pos [of "- 1074"] by linarith
  then show ?thesis using r by (simp add: js_round_def)
qed

lemma js_round_neg: "r \<le> - pow2 (- 1074) \<Longrightarrow> js_round r < Fin 0"
proof -
  assume a: "r \<le> - pow2 (- 1074)"
  then have r: "r < 0" using pow2_pos [of "- 1074"] by linarith
  then have "pow2 (- 1074) \<le> round_magnitude \<bar>r\<bar>"
    using a by (intro round_magnitude_pos) simp
  then have "0 < round_magnitude \<bar>r\<bar>"
    using pow2_pos [of "- 1074"] by linarith
  then show ?thesis using r by (simp add: js_round_def)
qed

lemma js_round_not_pos: "r \<le> 0 \<Longrightarrow> \<not> Fin 0 < js_round r"
proof -
  assume a: "r \<le> 0"
  show ?thesis
  proof (cases "r = 0")
    case True
    then show ?thesis by simp
  next
    case False
    then have "0 \<le> round_magnitude \<bar>r\<bar>"
      by (intro round_magnitude_nonneg) simp
    then show ?thesis using a False by (simp add: js_round_def)
  qed
qed

lemma js_round_not_neg: "0 \<le> r \<Longrightarrow> \<not> js_round r < Fin 0"
proof -
  assume a: "0 \<le> r"
  show ?thesis
  proof (cases "r = 0")
    case True
    then show ?thesis by simp
  next
    case False
    then have "0 \<le> round_magnitude \<bar>r\<bar>"
      by (intro round_magnitude_nonneg) simp
    then show ?thesis using a False by (simp add: js_round_def)
  qed
qed

text \<open>Underflow: a quotient of at most \<open>2^(-1075)\<close>, half the smallest positive double, is 0.\<close>

lemma js_round_underflow: "0 < r \<Longrightarrow> r \<le> pow2 (- 1075) \<Longrightarrow> js_round r = Fin 0"
proof -
  assume a: "0 < r" "r \<le> pow2 (- 1075)"
  then have "round_magnitude r = 0"
    by (intro round_magnitude_underflow)
  then show ?thesis using a(1) by (simp add: js_round_def)
qed

lemma js_round_range: "js_round r = Fin v \<Longrightarrow> 0 < v \<Longrightarrow> pow2 (- 1074) \<le> v"
proof -
  assume a: "js_round r = Fin v" "0 < v"
  then have r: "0 < r"
    using js_round_not_pos [of r] by (cases "0 < r") auto
  then have v: "v = round_magnitude \<bar>r\<bar>"
    using a(1) by (simp add: js_round_def split: if_splits)
  have "0 < \<bar>r\<bar>" using r by simp
  then show ?thesis
    using round_magnitude_range [of "\<bar>r\<bar>"] a(2) v by auto
qed

text \<open>Rounding does not pass an integer below \<open>2^53\<close>, and leaves one where it is.\<close>

lemma round_magnitude_int:
  assumes "0 < r" "r < pow2 53"
  shows "\<exists>k. 0 < k \<and> round_magnitude r = of_int (round_half_even (r * of_int k)) / of_int k"
proof -
  let ?e = "max (exponent r) (- 1022) - 52"
  let ?q = "pow2 ?e"
  let ?k = "(2::int) ^ nat (- ?e)"
  have "pow2 (exponent r) < pow2 53"
    using exponent_le [OF assms(1)] assms(2) by linarith
  then have "exponent r < 53" by (simp add: pow2_less_iff)
  then have e: "?e \<le> 0" by simp
  then have "pow2 (- ?e) = of_int ?k"
    by (simp add: pow2_def)
  moreover have "pow2 (- ?e) * ?q = 1"
    using pow2_add [of "- ?e" ?e] by (simp add: pow2_def)
  ultimately have q: "?q = 1 / of_int ?k"
    by (simp add: field_simps)
  have "round_magnitude r = of_int (round_half_even (r * of_int ?k)) / of_int ?k"
    unfolding round_magnitude_def Let_def q by simp
  moreover have "0 < ?k" by simp
  ultimately show ?thesis by blast
qed

lemma round_magnitude_le_int:
  assumes "0 < r" "r \<le> of_int n" "r < pow2 53"
  shows "round_magnitude r \<le> of_int n"
proof -
  obtain k where k: "0 < k" "round_magnitude r = of_int (round_half_even (r * of_int k)) / of_int k"
    using round_magnitude_int [OF assms(1,3)] by blast
  have "r * of_int k \<le> of_int (n * k)"
    using assms(2) k(1) by (simp add: mult_right_mono)
  then have "round_half_even (r * of_int k) \<le> n * k"
    by (rule round_half_even_le)
  then have "(of_int (round_half_even (r * of_int k)) :: rat) \<le> of_int (n * k)"
    by (simp only: of_int_le_iff)
  then have "(of_int (round_half_even (r * of_int k)) :: rat) / of_int k \<le> of_int (n * k) / of_int k"
    using k(1) by (intro divide_right_mono) simp_all
  then show ?thesis using k by simp
qed

lemma round_magnitude_of_int:
  assumes "0 < n" "of_int n < pow2 53"
  shows "round_magnitude (of_int n) = of_int n"
proof -
  have "(0::rat) < of_int n" using assms(1) by simp
  then obtain k where k: "0 < k"
    "round_magnitude (of_int n) = of_int (round_half_even (of_int n * of_int k)) / of_int k"
    using round_magnitude_int [OF _ assms(2)] by blast
  have "round_half_even (of_int n * of_int k) = n * k"
    using round_half_even_of_int [of "n * k"] by simp
  then show ?thesis using k by simp
qed

lemma pow2_53_1024: "pow2 53 < pow2 1024"
  by (rule pow2_strict_mono) simp

lemma js_round_le_int:
  assumes "0 < r" "r \<le> of_int n" "r < pow2 53"
  shows "js_round r \<le> Fin (of_int n)"
proof -
  have m: "round_magnitude r \<le> of_int n"
    using assms by (rule round_magnitude_le_int)
  have "pow2 53 = of_int (2 ^ 53)" by (simp add: pow2_def)
  then have "round_magnitude r \<le> pow2 53"
    using round_magnitude_le_int [OF assms(1) _ assms(3), of "2 ^ 53"] assms(3) by simp
  then have "\<not> pow2 1024 \<le> round_magnitude r"
    using pow2_53_1024 by linarith
  then have "js_round r = Fin (round_magnitude r)"
    using assms(1) by (simp add: js_round_def)
  then show ?thesis using m by (auto simp: less_eq_jsnum_def)
qed

lemma js_round_of_int:
  assumes "0 < n" "of_int n < pow2 53"
  shows "js_round (of_int n) = Fin (of_int n)"
proof -
  have "round_magnitude (of_int n) = of_int n"
    using assms by (rule round_magnitude_of_int)
  moreover have "\<not> pow2 1024 \<le> (of_int n :: rat)"
    using assms(2) pow2_53_1024 by linarith
  ultimately show ?thesis using assms(1) by (simp add: js_round_def)
qed

lemma js_round_one [simp]: "js_round 1 = Fin 1"
  using js_round_of_int [of 1] by (simp add: pow2_def)

lemma round_half_even_near: "2 * \<bar>x - of_int n\<bar> < 1 \<Longrightarrow> round_half_even x = n"
proof -
  assume a: "2 * \<bar>x - of_int n\<bar> < 1"
  consider "of_int n \<le> x" | "x < of_int n" by linarith
  then show ?thesis
  proof cases
    case 1
    then have "\<lfloor>x\<rfloor> = n" using a by (intro floor_unique) (auto simp: abs_if split: if_splits)
    then show ?thesis using a 1 by (auto simp: round_half_even_def Let_def abs_if split: if_splits)
  next
    case 2
    then have "\<lfloor>x\<rfloor> = n - 1" using a by (intro floor_unique) (auto simp: abs_if split: if_splits)
    then show ?thesis using a 2 by (auto simp: round_half_even_def Let_def abs_if split: if_splits)
  qed
qed

lemma exponent_eq:
  assumes "pow2 e \<le> r" "r < pow2 (e + 1)"
  shows "exponent r = e"
proof -
  have r: "0 < r" using assms(1) pow2_pos [of e] by linarith
  have "pow2 (exponent r) < pow2 (e + 1)"
    using exponent_le [OF r] assms(2) by linarith
  then have "exponent r < e + 1" by (simp add: pow2_less_iff)
  moreover have "pow2 e < pow2 (exponent r + 1)"
    using exponent_gt [OF r] assms(1) by linarith
  then have "e < exponent r + 1" by (simp add: pow2_less_iff)
  ultimately show ?thesis by simp
qed

text \<open>How a rounding is checked: the exponent, and the multiple that is nearer than half a step.\<close>

lemma js_round_eq:
  assumes "pow2 e \<le> r" "r < pow2 (e + 1)" "- 1022 \<le> e" "e \<le> 1022"
    and "2 * \<bar>r / pow2 (e - 52) - of_int m\<bar> < 1"
  shows "js_round r = Fin (of_int m * pow2 (e - 52))"
proof -
  have r: "0 < r" using assms(1) pow2_pos [of e] by linarith
  have e: "max (exponent r) (- 1022) - 52 = e - 52"
    using exponent_eq [OF assms(1,2)] assms(3) by simp
  have m: "round_magnitude r = of_int m * pow2 (e - 52)"
    using round_half_even_near [OF assms(5)] by (simp add: round_magnitude_def e)
  have "of_int m - r / pow2 (e - 52) < 1"
    using assms(5) by (simp add: abs_if split: if_splits)
  then have "of_int m < r / pow2 (e - 52) + 1" by simp
  then have "of_int m * pow2 (e - 52) < (r / pow2 (e - 52) + 1) * pow2 (e - 52)"
    by (intro mult_strict_right_mono) simp_all
  moreover have "(r / pow2 (e - 52) + 1) * pow2 (e - 52) = r + pow2 (e - 52)"
    by (simp add: distrib_right)
  ultimately have "of_int m * pow2 (e - 52) < r + pow2 (e - 52)"
    by simp
  moreover have "pow2 (e - 52) \<le> pow2 1023" "pow2 (e + 1) \<le> pow2 1023"
    using assms(4) by (auto intro: pow2_mono)
  moreover have "pow2 1023 + pow2 1023 = pow2 1024"
    using pow2_add [of 1023 1] by (simp add: pow2_def)
  ultimately have "\<not> pow2 1024 \<le> round_magnitude r"
    using assms(2) m by linarith
  then show ?thesis using r m by (simp add: js_round_def)
qed

lemma round_half_even_tie:
  "x = of_int n + 1 / 2 \<Longrightarrow> round_half_even x = (if even n then n else n + 1)"
proof -
  assume x: "x = of_int n + 1 / 2"
  then have "\<lfloor>x\<rfloor> = n" by (intro floor_unique) simp_all
  then show ?thesis using x by (simp add: round_half_even_def)
qed

text \<open>
  Rounding at work: \<open>1 / 10\<close> is the double \<open>0.1\<close>; \<open>2^53 + 1\<close> lies halfway between two
  doubles and goes to the even one, \<open>2^53\<close>; the greatest double is \<open>(2^53 - 1) * 2^971\<close>, and
  half a step above it rounds to infinity.
\<close>

lemma js_round_examples:
  "js_round (1 / 10) = Fin (3602879701896397 / 36028797018963968)"
  "js_round 9007199254740993 = Fin 9007199254740992"
  "js_round (pow2 971 * 9007199254740991) = Fin (pow2 971 * 9007199254740991)"
  "js_round (pow2 971 * (9007199254740991 + 1 / 2)) = PInf"
proof -
  show "js_round (1 / 10) = Fin (3602879701896397 / 36028797018963968)"
    using js_round_eq [of "- 4" "1 / 10" 7205759403792794] by (simp add: pow2_def)
next
  have e: "exponent 9007199254740993 = 53"
    by (rule exponent_eq) (simp_all add: pow2_def)
  have "round_half_even (9007199254740993 / 2) = 4503599627370496"
    using round_half_even_tie [of "9007199254740993 / 2" 4503599627370496] by simp
  then have "round_magnitude 9007199254740993 = 9007199254740992"
    by (simp add: round_magnitude_def e pow2_def)
  moreover have "pow2 53 < pow2 1024" by (rule pow2_53_1024)
  then have "\<not> pow2 1024 \<le> (9007199254740992 :: rat)" by (simp add: pow2_def [of 53])
  ultimately show "js_round 9007199254740993 = Fin 9007199254740992"
    by (simp add: js_round_def)
next
  have p: "pow2 1024 = pow2 971 * 9007199254740992" "pow2 1023 = pow2 971 * 4503599627370496"
    using pow2_add [of 971 53] pow2_add [of 971 52]
    by (simp_all add: pow2_def [of 53] pow2_def [of 52])
  let ?r = "pow2 971 * 9007199254740991"
  have e: "exponent ?r = 1023"
    by (rule exponent_eq) (simp_all add: p)
  have "?r / pow2 971 = of_int 9007199254740991"
    by simp
  then have "round_half_even (?r / pow2 971) = 9007199254740991"
    by (simp only: round_half_even_of_int)
  then have "round_magnitude ?r = ?r"
    by (simp add: round_magnitude_def e)
  then show "js_round ?r = Fin ?r"
    by (simp add: js_round_def p)
next
  have p: "pow2 1024 = pow2 971 * 9007199254740992" "pow2 1023 = pow2 971 * 4503599627370496"
    using pow2_add [of 971 53] pow2_add [of 971 52]
    by (simp_all add: pow2_def [of 53] pow2_def [of 52])
  let ?r = "pow2 971 * (9007199254740991 + 1 / 2)"
  have e: "exponent ?r = 1023"
    by (rule exponent_eq) (simp_all add: p)
  have "?r / pow2 971 = of_int 9007199254740991 + 1 / 2"
    by simp
  then have h: "round_half_even (?r / pow2 971) = 9007199254740992"
    using round_half_even_tie [of "?r / pow2 971" 9007199254740991] by simp
  have "round_magnitude ?r = of_int (round_half_even (?r / pow2 971)) * pow2 971"
    unfolding round_magnitude_def Let_def e by simp
  then have "round_magnitude ?r = pow2 1024"
    unfolding h by (simp add: p)
  moreover have "0 < ?r" by simp
  ultimately show "js_round ?r = PInf"
    unfolding js_round_def by (simp only: abs_of_pos) simp
qed

subsection \<open>Integers\<close>

lemma is_integer_iff: "is_integer r \<longleftrightarrow> r \<in> \<int>"
  by (metis is_integer_def Ints_of_int Ints_cases floor_of_int)

lemma is_integer_simps [simp]:
  "is_integer 0" "is_integer 1" "is_integer (numeral k)" "is_integer (of_nat n)"
  "is_integer (of_int i)"
  by (simp_all add: is_integer_iff)

lemma is_integer_closed [simp]:
  "is_integer a \<Longrightarrow> is_integer (- a)"
  "is_integer a \<Longrightarrow> is_integer b \<Longrightarrow> is_integer (a + b)"
  "is_integer a \<Longrightarrow> is_integer b \<Longrightarrow> is_integer (a - b)"
  "is_integer a \<Longrightarrow> is_integer b \<Longrightarrow> is_integer (a * b)"
  by (simp_all add: is_integer_iff)

lemma not_is_integer: "of_int n < r \<Longrightarrow> r < of_int n + 1 \<Longrightarrow> \<not> is_integer r"
proof -
  assume "of_int n < r" "r < of_int n + 1"
  then have "\<lfloor>r\<rfloor> = n" by (intro floor_unique) simp_all
  then show ?thesis using \<open>of_int n < r\<close> by (simp add: is_integer_def)
qed

lemma round_integer [simp]:
  "is_integer r \<Longrightarrow> round_sum r = Fin r"
  "is_integer r \<Longrightarrow> round_product r = Fin r"
  by (simp_all add: round_sum_def round_product_def)

lemma round_sum_pos: "(Fin 0 < round_sum r) = (0 < r)"
proof (cases "is_integer r \<or> \<bar>r\<bar> < pow2 (- 1022)")
  case True
  then show ?thesis by (simp add: round_sum_def)
next
  case False
  then have big: "pow2 (- 1022) \<le> \<bar>r\<bar>" by simp
  have "pow2 (- 1074) \<le> pow2 (- 1022)" by (rule pow2_mono) simp
  then have "pow2 (- 1074) \<le> \<bar>r\<bar>" using big by linarith
  then show ?thesis
    using False js_round_pos [of r] js_round_not_pos [of r]
    by (cases "0 < r") (auto simp: round_sum_def)
qed

section \<open>The effect of each block of statements\<close>

lemmas ctx_defs = set_fillStyle_def set_strokeStyle_def set_globalAlpha_def set_font_def
  set_textAlign_def set_lineWidth_def set_shadowColor_def set_shadowBlur_def emit_def
  fillRect_def fillText_def drawImage_def fill_def stroke_def beginPath_def segment_def
  clip_def save_def restore_def console_error_def moveTo_def lineTo_def quadraticCurveTo_def
  arc_def closePath_def

lemma run_Nil [simp]: "run [] c = c" by (simp add: run_def)
lemma run_Cons [simp]: "run (f # fs) c = run fs (f c)" by (simp add: run_def)
lemma run_append [simp]: "run (fs @ gs) c = run gs (run fs c)" by (simp add: run_def)

lemma roundRect_eq: "roundRect x y w h r c = c\<lparr>currentPath := rounded_rect x y w h r\<rparr>"
  by (simp add: roundRect_def rounded_rect_def ctx_defs)

lemma under_simps [simp]: "under a [] = []" "under a (p # ps) = (p, a) # under a ps"
  "under a (ps @ qs) = under a ps @ under a qs"
  by (simp_all add: under_def)

lemma paints_drawn: "paints c = map fst (drawn c)"
  by (simp add: paints_def drawn_def)

lemma map_fst_under [simp]: "map fst (under a ps) = ps"
  by (simp add: under_def comp_def)

lemma drawn_fresh [simp]: "drawn fresh = []" "globalAlpha (dstate fresh) = Fin 1"
  by (simp_all add: drawn_def fresh_def createCanvas_def)

lemma drawn_layers: "drawn c = map (\<lambda>l. (fst l, snd (snd l))) (layers c)"
  by (simp add: drawn_def layers_def)

lemma layers_createCanvas [simp]: "layers (createCanvas w h out) = []"
  "globalAlpha (dstate (createCanvas w h out)) = Fin 1"
  by (simp_all add: layers_def createCanvas_def)

lemma layers_basic [simp]:
  "layers (set_fillStyle v c) = layers c"
  "layers (set_globalAlpha a c) = layers c"
  "layers (fillRect x y w h c)
     = layers c @ [(FillRect x y w h, fillStyle (dstate c), globalAlpha (dstate c))]"
  "fillStyle (dstate (set_fillStyle v c)) = v"
  "globalAlpha (dstate (set_fillStyle v c)) = globalAlpha (dstate c)"
  "globalAlpha (dstate (set_globalAlpha a c)) = a"
  "fillStyle (dstate (fillRect x y w h c)) = fillStyle (dstate c)"
  "globalAlpha (dstate (fillRect x y w h c)) = globalAlpha (dstate c)"
  by (simp_all add: layers_def ctx_defs)

lemma build_card_drawn:
  "drawn (build_card y c) = drawn c @ under (globalAlpha (dstate c))
     [FillPath (rounded_rect (Fin 30) y (width - Fin 60) (Fin 90) (Fin 15)),
      StrokePath (rounded_rect (Fin 30) y (width - Fin 60) (Fin 90) (Fin 15))]"
  by (simp add: build_card_def roundRect_eq drawn_def ctx_defs)

lemma build_podium_drawn:
  "drawn (build_podium b position y c) = drawn c @ under (globalAlpha (dstate c))
     (case podiumColor (podium b) position of None \<Rightarrow> []
      | Some color \<Rightarrow> [StrokePath (rounded_rect (Fin 30) y (width - Fin 60) (Fin 90) (Fin 15))])"
  by (simp add: build_podium_def roundRect_eq drawn_def ctx_defs split: option.splits)

lemma build_position_drawn:
  "drawn (build_position env b position y c) = drawn c @ under (globalAlpha (dstate c))
     [FillText (Number_toString (formatNumber env) (num position)) (Fin 80) (y + Fin 58)]"
  by (simp add: build_position_def drawn_def ctx_defs)

lemma build_avatar_drawn:
  "drawn (build_avatar env i p y c) = drawn c @ under (globalAlpha (dstate c))
     (case loadImage env i (avatarUrl p) of Inl e \<Rightarrow> []
      | Inr img \<Rightarrow> [DrawImage img (Fin 140) (y + Fin 15) (Fin 60) (Fin 60)])"
  by (simp add: build_avatar_def try_avatar_def drawn_def ctx_defs split: sum.splits list.splits)

lemma build_name_drawn:
  "drawn (build_name env b p y c) = drawn c @ under (globalAlpha (dstate c))
     [FillText (nickname p) (Fin 225) (y + Fin 40),
      FillText (''Level '' @ Number_toString (formatNumber env) (level p)) (Fin 225) (y + Fin 65)]"
  by (simp add: build_name_def drawn_def ctx_defs)

lemma build_xp_bar_drawn:
  "drawn (build_xp_bar env b p y c) = drawn c @ under (globalAlpha (dstate c))
     ([FillPath (rounded_rect (Fin 450) (y + Fin 45) (barWidth b) (Fin 10) (Fin 5))]
     @ (if progress p > Fin 0
        then [FillPath (rounded_rect (Fin 450) (y + Fin 45)
                 (barWidth b * Math_min (progress p) (Fin 1)) (Fin 10) (Fin 5))]
        else [])
     @ [FillText (xp_text env p) (Fin 450 + barWidth b) (y + Fin 70)])"
  by (simp add: build_xp_bar_def roundRect_eq drawn_def ctx_defs)

lemma build_rank_drawn:
  "drawn (build_rank s b p y c) = drawn c @ under (globalAlpha (dstate c))
     (case getRankForXp s b (xp p) of None \<Rightarrow> []
      | Some tier \<Rightarrow> if rankVisible b then [FillText (tier_name tier) (width - Fin 50) (y + Fin 58)] else [])"
  by (simp add: build_rank_def drawn_def ctx_defs split: option.splits)

lemma block_alpha [simp]:
  "globalAlpha (dstate (build_card y c)) = globalAlpha (dstate c)"
  "globalAlpha (dstate (build_podium b position y c)) = globalAlpha (dstate c)"
  "globalAlpha (dstate (build_position env b position y c)) = globalAlpha (dstate c)"
  "globalAlpha (dstate (build_avatar env i p y c)) = globalAlpha (dstate c)"
  "globalAlpha (dstate (build_name env b p y c)) = globalAlpha (dstate c)"
  "globalAlpha (dstate (build_xp_bar env b p y c)) = globalAlpha (dstate c)"
  "globalAlpha (dstate (build_rank s b p y c)) = globalAlpha (dstate c)"
  by (simp_all add: build_card_def build_podium_def build_position_def build_avatar_def
      try_avatar_def build_name_def build_xp_bar_def build_rank_def roundRect_eq ctx_defs
      split: option.splits sum.splits)

lemma block_width [simp]:
  "canvas_width (build_card y c) = canvas_width c"
  "canvas_width (build_podium b position y c) = canvas_width c"
  "canvas_width (build_position env b position y c) = canvas_width c"
  "canvas_width (build_avatar env i p y c) = canvas_width c"
  "canvas_width (build_name env b p y c) = canvas_width c"
  "canvas_width (build_xp_bar env b p y c) = canvas_width c"
  "canvas_width (build_rank s b p y c) = canvas_width c"
  by (simp_all add: build_card_def build_podium_def build_position_def build_avatar_def
      try_avatar_def build_name_def build_xp_bar_def build_rank_def roundRect_eq ctx_defs
      split: option.splits sum.splits list.splits)

lemma block_height [simp]:
  "canvas_height (build_card y c) = canvas_height c"
  "canvas_height (build_podium b position y c) = canvas_height c"
  "canvas_height (build_position env b position y c) = canvas_height c"
  "canvas_height (build_avatar env i p y c) = canvas_height c"
  "canvas_height (build_name env b p y c) = canvas_height c"
  "canvas_height (build_xp_bar env b p y c) = canvas_height c"
  "canvas_height (build_rank s b p y c) = canvas_height c"
  by (simp_all add: build_card_def build_podium_def build_position_def build_avatar_def
      try_avatar_def build_name_def build_xp_bar_def build_rank_def roundRect_eq ctx_defs
      split: option.splits sum.splits list.splits)

lemma block_console [simp]:
  "console (build_card y c) = console c"
  "console (build_podium b position y c) = console c"
  "console (build_position env b position y c) = console c"
  "console (build_name env b p y c) = console c"
  "console (build_xp_bar env b p y c) = console c"
  "console (build_rank s b p y c) = console c"
  by (simp_all add: build_card_def build_podium_def build_position_def
      build_name_def build_xp_bar_def build_rank_def roundRect_eq ctx_defs
      split: option.splits)

lemma build_avatar_console:
  "console (build_avatar env i p y c) = console c @
     (case loadImage env i (avatarUrl p) of Inl e \<Rightarrow> [(''Could not load avatar'', e)] | Inr img \<Rightarrow> [])"
  by (simp add: build_avatar_def try_avatar_def ctx_defs split: sum.splits list.splits)

lemmas block_drawn = build_card_drawn build_podium_drawn build_position_drawn
  build_avatar_drawn build_name_drawn build_xp_bar_drawn build_rank_drawn

lemma row_paints_eq:
  "row_paints env s b i p =
     [FillPath (rounded_rect (Fin 30) (row_y b i) (width - Fin 60) (Fin 90) (Fin 15)),
      StrokePath (rounded_rect (Fin 30) (row_y b i) (width - Fin 60) (Fin 90) (Fin 15))]
     @ (case podiumColor (podium b) (i + 1) of None \<Rightarrow> []
        | Some color \<Rightarrow> [StrokePath (rounded_rect (Fin 30) (row_y b i) (width - Fin 60) (Fin 90) (Fin 15))])
     @ [FillText (Number_toString (formatNumber env) (num (i + 1))) (Fin 80) (row_y b i + Fin 58)]
     @ (case loadImage env i (avatarUrl p) of Inl e \<Rightarrow> []
        | Inr img \<Rightarrow> [DrawImage img (Fin 140) (row_y b i + Fin 15) (Fin 60) (Fin 60)])
     @ [FillText (nickname p) (Fin 225) (row_y b i + Fin 40),
        FillText (''Level '' @ Number_toString (formatNumber env) (level p)) (Fin 225) (row_y b i + Fin 65)]
     @ [FillPath (rounded_rect (Fin 450) (row_y b i + Fin 45) (barWidth b) (Fin 10) (Fin 5))]
     @ (if progress p > Fin 0
        then [FillPath (rounded_rect (Fin 450) (row_y b i + Fin 45)
                 (barWidth b * Math_min (progress p) (Fin 1)) (Fin 10) (Fin 5))]
        else [])
     @ [FillText (xp_text env p) (Fin 450 + barWidth b) (row_y b i + Fin 70)]
     @ (case getRankForXp s b (xp p) of None \<Rightarrow> []
        | Some tier \<Rightarrow> if rankVisible b then [FillText (tier_name tier) (width - Fin 50) (row_y b i + Fin 58)] else [])"
  by (simp add: row_paints_def paints_drawn build_row_def Let_def block_drawn)

lemma build_row_drawn:
  "drawn (build_row env s b i p c) = drawn c @ under (globalAlpha (dstate c)) (row_paints env s b i p)"
  by (simp add: row_paints_def paints_drawn build_row_def Let_def block_drawn)

lemma build_row_frame [simp]:
  "globalAlpha (dstate (build_row env s b i p c)) = globalAlpha (dstate c)"
  "canvas_width (build_row env s b i p c) = canvas_width c"
  "canvas_height (build_row env s b i p c) = canvas_height c"
  by (simp_all add: build_row_def Let_def)

lemma build_row_console:
  "console (build_row env s b i p c) = console c @
     (case loadImage env i (avatarUrl p) of Inl e \<Rightarrow> [(''Could not load avatar'', e)] | Inr img \<Rightarrow> [])"
  by (simp add: build_row_def Let_def build_avatar_console)

lemma build_rows_frame [simp]:
  "globalAlpha (dstate (build_rows env s b i ps c)) = globalAlpha (dstate c)"
  "canvas_width (build_rows env s b i ps c) = canvas_width c"
  "canvas_height (build_rows env s b i ps c) = canvas_height c"
  by (induction ps arbitrary: i c) simp_all

lemma build_rows_drawn:
  "drawn (build_rows env s b i ps c) =
     drawn c @ under (globalAlpha (dstate c))
       (concat (map (\<lambda>(j, p). row_paints env s b j p) (enumerate i ps)))"
  by (induction ps arbitrary: i c) (simp_all add: build_row_drawn)

lemma build_rows_console:
  "console (build_rows env s b i ps c) = console c @
     concat (map (\<lambda>(j, p). case loadImage env j (avatarUrl p) of
                        Inl e \<Rightarrow> [(''Could not load avatar'', e)] | Inr img \<Rightarrow> [])
               (enumerate i ps))"
  by (induction ps arbitrary: i c) (simp_all add: build_row_console)

lemma grows_run: "(\<And>f. f \<in> set fs \<Longrightarrow> grows f) \<Longrightarrow> grows (run fs)"
proof (induction fs)
  case Nil
  show ?case by (simp add: grows_def)
next
  case (Cons f fs)
  have f: "grows f" and fs: "grows (run fs)"
    using Cons by simp_all
  show ?case
    unfolding grows_def
  proof
    fix c
    obtain r where r: "painted (f c) = painted c @ r"
      using f by (auto simp: grows_def)
    obtain r' where "painted (run fs (f c)) = painted (f c) @ r'"
      using fs by (auto simp: grows_def)
    with r show "\<exists>q. painted (run (f # fs) c) = painted c @ q"
      by simp
  qed
qed

lemma block_grows:
  "grows (build_card y)"
  "grows (build_podium b position y)"
  "grows (build_position env b position y)"
  "grows (build_avatar env i p y)"
  "grows (build_name env b p y)"
  "grows (build_xp_bar env b p y)"
  "grows (build_rank s b p y)"
  "grows (build_header b)"
  by (simp_all add: grows_def build_card_def build_podium_def build_position_def
      build_avatar_def try_avatar_def build_name_def build_xp_bar_def build_rank_def
      build_header_def roundRect_eq ctx_defs
      split: option.splits sum.splits)

lemma build_row_grows: "grows (build_row env s b i p)"
  unfolding build_row_def Let_def
  by (rule grows_run) (auto simp: block_grows)

lemma build_rows_grows: "\<exists>r. painted (build_rows env s b i ps c) = painted c @ r"
proof (induction ps arbitrary: i c)
  case Nil
  show ?case by simp
next
  case (Cons p ps)
  obtain r where r: "painted (build_row env s b i p c) = painted c @ r"
    using build_row_grows [of env s b i p] unfolding grows_def by blast
  obtain r' where "painted (build_rows env s b (Suc i) ps (build_row env s b i p c))
      = painted (build_row env s b i p c) @ r'"
    using Cons.IH [of "Suc i" "build_row env s b i p c"] by blast
  with r show ?case by simp
qed

lemma build_header_frame [simp]:
  "globalAlpha (dstate (build_header b c)) = globalAlpha (dstate c)"
  "canvas_width (build_header b c) = canvas_width c"
  "canvas_height (build_header b c) = canvas_height c"
  "console (build_header b c) = console c"
  by (simp_all add: build_header_def ctx_defs split: option.splits)

lemma build_header_drawn:
  "drawn (build_header b c) = drawn c @ under (globalAlpha (dstate c))
     (FillText (title (header b)) (width / Fin 2) (Fin 85)
      # (case subtitle (header b) of None \<Rightarrow> []
         | Some t \<Rightarrow> if truthy_str t then [FillText t (width / Fin 2) (Fin 115)] else []))"
  by (simp add: build_header_def drawn_def ctx_defs split: option.splits)

lemma aurora_spot_eq:
  "aurora_spot w h spot c =
     c\<lparr>dstate := (dstate c)\<lparr>fillStyle := Gradient (spot_gradient spot)\<rparr>,
       painted := painted c @ [(FillRect (Fin 0) (Fin 0) w h,
                    (dstate c)\<lparr>fillStyle := Gradient (spot_gradient spot)\<rparr>)]\<rparr>"
  by (simp add: aurora_spot_def spot_gradient_def ctx_defs createRadialGradient_def addColorStop_def)

lemma aurora_spots_frame [simp]:
  "globalAlpha (dstate (run (map (aurora_spot w h) sp) c)) = globalAlpha (dstate c)"
  "canvas_width (run (map (aurora_spot w h) sp) c) = canvas_width c"
  "canvas_height (run (map (aurora_spot w h) sp) c) = canvas_height c"
  "console (run (map (aurora_spot w h) sp) c) = console c"
  by (induction sp arbitrary: c) (simp_all add: aurora_spot_eq)

lemma aurora_spots_layers:
  "layers (run (map (aurora_spot w h) sp) c) = layers c @
     map (\<lambda>spot. (FillRect (Fin 0) (Fin 0) w h, Gradient (spot_gradient spot), globalAlpha (dstate c))) sp"
  by (induction sp arbitrary: c) (simp_all add: aurora_spot_eq layers_def)

lemma build_background_frame [simp]:
  "canvas_width (build_background bg w h c) = canvas_width c"
  "canvas_height (build_background bg w h c) = canvas_height c"
  "console (build_background bg w h c) = console c"
  by (simp_all add: build_background_def ctx_defs split: BackgroundOptions.splits)

section \<open>The whole render\<close>

lemma build_state_size:
  "canvas_width (build_state env s b out) = width"
  "canvas_height (build_state env s b out) = height b"
  by (simp_all add: build_state_def createCanvas_def)

lemma build_console:
  "console (build_state env s b out) = out @
     concat (map (\<lambda>(i, p). case loadImage env i (avatarUrl p) of
                        Inl e \<Rightarrow> [(''Could not load avatar'', e)] | Inr img \<Rightarrow> [])
               (enumerate 0 (usersToRender b)))"
  by (simp add: build_state_def build_rows_console createCanvas_def)

lemma build_paints:
  "paints (build_state env s b out) =
     paints (build_header b (build_background (background b) width (height b)
               (createCanvas width (height b) out)))
     @ concat (map (\<lambda>(i, p). row_paints env s b i p) (enumerate 0 (usersToRender b)))"
  by (simp add: build_state_def paints_drawn build_rows_drawn)

lemma build_layers_grow:
  "\<exists>r. layers (build_state env s b out) =
     layers (build_background (background b) width (height b)
               (createCanvas width (height b) out)) @ r"
proof -
  let ?c = "build_background (background b) width (height b) (createCanvas width (height b) out)"
  obtain r where r: "painted (build_header b ?c) = painted ?c @ r"
    using block_grows(8) [of b] unfolding grows_def by blast
  obtain r' where "painted (build_rows env s b 0 (usersToRender b) (build_header b ?c))
      = painted (build_header b ?c) @ r'"
    using build_rows_grows by blast
  with r show ?thesis
    by (simp add: build_state_def layers_def)
qed

lemma build_drawn_after_background:
  "drawn (build_state env s b out)
     = drawn (build_background (background b) width (height b) (createCanvas width (height b) out))
       @ under (globalAlpha (dstate (build_background (background b) width (height b)
                  (createCanvas width (height b) out))))
           ((FillText (title (header b)) (width / Fin 2) (Fin 85)
             # (case subtitle (header b) of None \<Rightarrow> []
                | Some t \<Rightarrow> if truthy_str t then [FillText t (width / Fin 2) (Fin 115)] else []))
            @ concat (map (\<lambda>(j, p). row_paints env s b j p) (enumerate 0 (usersToRender b))))"
  by (simp add: build_state_def build_rows_drawn build_header_drawn)

lemma concat_map_enumerate_split:
  "i < length ps \<Longrightarrow>
   \<exists>pre post. concat (map f (enumerate n ps)) = pre @ f (n + i, ps ! i) @ post"
proof -
  assume i: "i < length ps"
  let ?es = "enumerate n ps"
  have "?es = take i ?es @ ?es ! i # drop (Suc i) ?es"
    using i by (simp add: id_take_nth_drop)
  moreover have "?es ! i = (n + i, ps ! i)"
    using i by (simp add: nth_enumerate_eq)
  ultimately have "concat (map f ?es)
      = concat (map f (take i ?es)) @ f (n + i, ps ! i) @ concat (map f (drop (Suc i) ?es))"
    by (metis concat.simps(2) concat_append list.simps(9) map_append)
  then show ?thesis by blast
qed

lemma build_paints_row:
  assumes "i < length (usersToRender b)"
  shows "\<exists>pre post. paints (build_state env s b out)
           = pre @ row_paints env s b i (usersToRender b ! i) @ post"
proof -
  obtain pre post where
    "concat (map (\<lambda>(j, p). row_paints env s b j p) (enumerate 0 (usersToRender b)))
       = pre @ (\<lambda>(j, p). row_paints env s b j p) (0 + i, usersToRender b ! i) @ post"
    using concat_map_enumerate_split [OF assms] by blast
  then have "paints (build_state env s b out)
      = (paints (build_header b (build_background (background b) width (height b)
                  (createCanvas width (height b) out))) @ pre)
        @ row_paints env s b i (usersToRender b ! i) @ post"
    by (simp add: build_paints)
  then show ?thesis by blast
qed

section \<open>The order of numbers\<close>

lemma js_less_not_le: "(x::jsnum) < y \<Longrightarrow> \<not> y \<le> x"
  by (cases x; cases y) (auto simp: less_eq_jsnum_def)

lemma js_not_less_le: "x \<noteq> NaN \<Longrightarrow> y \<noteq> NaN \<Longrightarrow> \<not> (x::jsnum) < y \<Longrightarrow> y \<le> x"
  by (cases x; cases y) (auto simp: less_eq_jsnum_def)

lemma js_le_trans: "(x::jsnum) \<le> y \<Longrightarrow> y \<le> z \<Longrightarrow> x \<le> z"
  by (cases x; cases y; cases z) (auto simp: less_eq_jsnum_def)

lemma js_le_refl: "x \<noteq> NaN \<Longrightarrow> (x::jsnum) \<le> x"
  by (simp add: less_eq_jsnum_def)

lemma js_sub_pos: "x \<noteq> NaN \<Longrightarrow> y \<noteq> NaN \<Longrightarrow> (y - x > Fin 0) = ((x::jsnum) < y)"
  by (cases x; cases y) (auto simp: minus_jsnum_def round_sum_pos)

section \<open>The limit and the rows to render\<close>

lemma relative_index_zero [simp]: "relative_index len (Fin 0) = 0"
  by (simp add: relative_index_def ToIntegerOrInfinity_def)

lemma slice_from_zero: "slice xs (Fin 0) e = take (relative_index (length xs) e) xs"
  by (simp add: slice_def)

lemma relative_index_pos: "0 < r \<Longrightarrow> relative_index len (Fin r) = min (nat \<lfloor>r\<rfloor>) len"
  by (auto simp: relative_index_def ToIntegerOrInfinity_def)

lemma relative_index_PInf [simp]: "relative_index len PInf = len"
  by (simp add: relative_index_def ToIntegerOrInfinity_def)

lemma usersToRender_prefix: "prefix (usersToRender b) (users b)"
  by (simp add: usersToRender_def slice_from_zero take_is_prefix split: option.splits)

section \<open>The example values\<close>

lemma ex_builder_eq: "ex_builder =
  \<lparr>users = [], limit = None, background = BgString ''#0D0E12'',
       header = \<lparr>title = ''Leaderboard'', subtitle = None\<rparr>,
       podium = \<lparr>podium_colors = None\<rparr>, rankVisible = True, rankTiers = 0,
       xpBarColors = \<lparr>primary = ''#5865F2'', secondary = ''#A458F2''\<rparr>,
       fontStyles = \<lparr>headerTitle = None, headerSubtitle = None, userNickname = None,
                     userLevel = None, userPosition = None, xpText = None,
                     rankText = None\<rparr>\<rparr>"
  by (simp add: ex_builder_def new_LeaderboardBuilder_def)

lemma ex_ranked_eq: "ex_ranked =
   (ex_store(1 := [ex_master, ex_pro, ex_beginner]), ex_builder\<lparr>rankTiers := 1\<rparr>)"
  by (simp add: ex_ranked_def setRankTiers_def Array_sort_def ex_store_def ex_master_def ex_pro_def ex_beginner_def minus_jsnum_def)

lemma ex_board_rows: "usersToRender ex_board = [ex_alice, ex_bob]"
  by (simp add: ex_board_def usersToRender_def truthy_num_def slice_from_zero
      relative_index_pos ex_users_def)

lemma ex_board_fields:
  "rankVisible ex_board" "headerHeight ex_board = Fin 150" "formatNumber ex_env = (\<lambda>r. ''?'')"
  "row_y ex_board 0 = Fin 150" "row_y ex_board (Suc 0) = Fin 250"
  by (simp_all add: ex_board_def ex_builder_eq headerHeight_def has_subtitle_def truthy_str_def
      ex_env_def row_y_def num_def)

lemma ex_all_rows: "usersToRender ex_all = ex_users"
  by (simp add: ex_all_def setUsers_def usersToRender_def ex_builder_eq)

lemma ex_all_fields:
  "rankVisible ex_all" "barWidth ex_all = Fin 200" "formatNumber ex_env = (\<lambda>r. ''?'')"
  "row_y ex_all 0 = Fin 120" "row_y ex_all 2 = Fin 320" "row_y ex_all 3 = Fin 420"
  by (simp_all add: ex_all_def setUsers_def ex_builder_eq headerHeight_def has_subtitle_def
      ex_env_def row_y_def num_def barWidth_def)

lemma ex_numbers:
  "Number_toString f (Fin 3500) = ''3500''" "Number_toString f (Fin 3000) = ''3000''"
  "Number_toString f (Fin 2500) = ''2500''"
  by (simp_all add: Number_toString_def digits.simps)

lemma ex_numbers_more:
  "Number_toString f (Fin (- 5)) = ''-5''" "Number_toString f (Fin 100) = ''100''"
  "Number_toString f (Fin 500) = ''500''" "Number_toString f (Fin 0) = ''0''"
  by (simp_all add: Number_toString_def digits.simps)

section \<open>Rank resolution\<close>

text \<open>
  C1. \<open>getRankForXp\<close> returns none when the builder has no tiers; it returns a tier exactly
  when that tier is the first of the builder's tier array whose \<open>minXp\<close> is at most the
  XP; and it returns none when the \<open>minXp\<close> of every tier exceeds the XP. It is a total
  function with an optional result: there is no input on which it fails. The property
  holds for every tier array, so in particular for one ordered descending by \<open>minXp\<close>.
\<close>

theorem C1_getRankForXp:
  "(s (rankTiers b) = [] \<longrightarrow> getRankForXp s b v = None)
   \<and> (\<forall>t. getRankForXp s b v = Some t \<longleftrightarrow>
          (\<exists>i<length (s (rankTiers b)).
             s (rankTiers b) ! i = t \<and> minXp t \<le> v
             \<and> (\<forall>j<i. \<not> minXp (s (rankTiers b) ! j) \<le> v)))
   \<and> ((\<forall>t\<in>set (s (rankTiers b)). v < minXp t) \<longrightarrow> getRankForXp s b v = None)"
proof (intro conjI allI impI)
  assume "s (rankTiers b) = []"
  then show "getRankForXp s b v = None"
    by (simp add: getRankForXp_def)
next
  fix t
  show "getRankForXp s b v = Some t \<longleftrightarrow>
          (\<exists>i<length (s (rankTiers b)).
             s (rankTiers b) ! i = t \<and> minXp t \<le> v
             \<and> (\<forall>j<i. \<not> minXp (s (rankTiers b) ! j) \<le> v))"
    by (auto simp: getRankForXp_def find_Some_iff)
next
  assume "\<forall>t\<in>set (s (rankTiers b)). v < minXp t"
  then show "getRankForXp s b v = None"
    by (auto simp: getRankForXp_def find_None_iff dest: js_less_not_le)
qed

theorem C1_witness:
  "fst ex_ranked (rankTiers (snd ex_ranked)) = [ex_master, ex_pro, ex_beginner]
   \<and> minXp ex_pro \<le> Fin 1500 \<and> \<not> minXp ex_master \<le> Fin 1500
   \<and> getRankForXp (fst ex_ranked) (snd ex_ranked) (Fin 1500) = Some ex_pro
   \<and> Fin (- 1) < minXp ex_master \<and> Fin (- 1) < minXp ex_pro \<and> Fin (- 1) < minXp ex_beginner
   \<and> getRankForXp (fst ex_ranked) (snd ex_ranked) (Fin (- 1)) = None
   \<and> fst ex_ranked (rankTiers ex_builder) = []
   \<and> getRankForXp (fst ex_ranked) ex_builder (Fin 1500) = None"
proof -
  let ?s = "fst ex_ranked" and ?b = "snd ex_ranked"
  have tiers: "?s (rankTiers ?b) = [ex_master, ex_pro, ex_beginner]"
    by (simp add: ex_ranked_eq)
  have vals: "minXp ex_pro \<le> Fin 1500" "\<not> minXp ex_master \<le> Fin 1500"
    "Fin (- 1) < minXp ex_master" "Fin (- 1) < minXp ex_pro" "Fin (- 1) < minXp ex_beginner"
    by (simp_all add: ex_master_def ex_pro_def ex_beginner_def less_eq_jsnum_def)
  have "\<exists>i<length (?s (rankTiers ?b)). ?s (rankTiers ?b) ! i = ex_pro \<and> minXp ex_pro \<le> Fin 1500
          \<and> (\<forall>j<i. \<not> minXp (?s (rankTiers ?b) ! j) \<le> Fin 1500)"
    by (rule exI [of _ 1]) (simp add: tiers vals)
  then have found: "getRankForXp ?s ?b (Fin 1500) = Some ex_pro"
    using C1_getRankForXp [of ?s ?b "Fin 1500"] by blast
  have "\<forall>t\<in>set (?s (rankTiers ?b)). Fin (- 1) < minXp t"
    by (simp add: tiers vals)
  then have below: "getRankForXp ?s ?b (Fin (- 1)) = None"
    using C1_getRankForXp [of ?s ?b "Fin (- 1)"] by blast
  have empty: "?s (rankTiers ex_builder) = []"
    by (simp add: ex_ranked_eq ex_builder_def new_LeaderboardBuilder_def ex_store_def)
  then have "getRankForXp ?s ex_builder (Fin 1500) = None"
    using C1_getRankForXp [of ?s ex_builder "Fin 1500"] by blast
  with tiers vals found below empty show ?thesis by simp
qed

text \<open>
  X1. When the builder's tier array is descending by \<open>minXp\<close> and no \<open>minXp\<close> is \<open>NaN\<close>,
  as it is after \<open>setRankTiers\<close>, the tier \<open>getRankForXp\<close> returns qualifies for the XP
  and no qualifying tier has a greater \<open>minXp\<close>.
\<close>

theorem X1_highest_qualifying_tier:
  "descending (s (rankTiers b)) \<and> (\<forall>t\<in>set (s (rankTiers b)). minXp t \<noteq> NaN)
   \<and> getRankForXp s b v = Some t \<longrightarrow>
   t \<in> set (s (rankTiers b)) \<and> minXp t \<le> v
   \<and> (\<forall>u\<in>set (s (rankTiers b)). minXp u \<le> v \<longrightarrow> minXp u \<le> minXp t)"
proof (intro impI)
  let ?ts = "s (rankTiers b)"
  assume a: "descending ?ts \<and> (\<forall>t\<in>set ?ts. minXp t \<noteq> NaN) \<and> getRankForXp s b v = Some t"
  then have "find (\<lambda>tier. minXp tier \<le> v) ?ts = Some t"
    by (simp add: getRankForXp_def split: if_splits)
  then obtain i where i: "i < length ?ts" "?ts ! i = t" "minXp t \<le> v"
    and first: "\<forall>j<i. \<not> minXp (?ts ! j) \<le> v"
    by (auto simp: find_Some_iff)
  have mem: "t \<in> set ?ts"
    using i by auto
  have "\<forall>u\<in>set ?ts. minXp u \<le> v \<longrightarrow> minXp u \<le> minXp t"
  proof (intro ballI impI)
    fix u
    assume u: "u \<in> set ?ts" and q: "minXp u \<le> v"
    then obtain j where j: "j < length ?ts" "?ts ! j = u"
      by (auto simp: in_set_conv_nth)
    have "\<not> j < i"
      using first j q by auto
    then consider "j = i" | "i < j" by linarith
    then show "minXp u \<le> minXp t"
    proof cases
      case 1
      then show ?thesis
        using i j a mem by (auto intro: js_le_refl)
    next
      case 2
      then show ?thesis
        using a i j by (auto simp: descending_def sorted_wrt_iff_nth_less)
    qed
  qed
  with mem i show "t \<in> set ?ts \<and> minXp t \<le> v
      \<and> (\<forall>u\<in>set ?ts. minXp u \<le> v \<longrightarrow> minXp u \<le> minXp t)"
    by simp
qed

text \<open>X1 at the sorted example tiers and the XP 1500.\<close>

theorem X1_witness:
  "descending (fst ex_ranked (rankTiers (snd ex_ranked)))
   \<and> minXp ex_master \<noteq> NaN \<and> minXp ex_pro \<noteq> NaN \<and> minXp ex_beginner \<noteq> NaN
   \<and> getRankForXp (fst ex_ranked) (snd ex_ranked) (Fin 1500) = Some ex_pro
   \<and> minXp ex_pro \<le> Fin 1500 \<and> minXp ex_beginner \<le> Fin 1500
   \<and> minXp ex_beginner \<le> minXp ex_pro"
proof -
  have tiers: "fst ex_ranked (rankTiers (snd ex_ranked)) = [ex_master, ex_pro, ex_beginner]"
    by (simp add: ex_ranked_eq)
  have vals: "minXp ex_master \<noteq> NaN" "minXp ex_pro \<noteq> NaN" "minXp ex_beginner \<noteq> NaN"
    "minXp ex_beginner \<le> Fin 1500" "minXp ex_pro \<le> Fin 1500"
    "minXp ex_pro \<le> minXp ex_master" "minXp ex_beginner \<le> minXp ex_master"
    by (simp_all add: ex_master_def ex_pro_def ex_beginner_def less_eq_jsnum_def)
  have found: "getRankForXp (fst ex_ranked) (snd ex_ranked) (Fin 1500) = Some ex_pro"
    by (simp add: getRankForXp_def tiers) (simp add: ex_master_def ex_pro_def less_eq_jsnum_def)
  have desc: "descending (fst ex_ranked (rankTiers (snd ex_ranked)))"
    unfolding tiers
    by (simp add: descending_def) (simp add: ex_master_def ex_pro_def ex_beginner_def less_eq_jsnum_def)
  have "minXp ex_beginner \<le> minXp ex_pro"
    using X1_highest_qualifying_tier [of "fst ex_ranked" "snd ex_ranked" "Fin 1500" ex_pro]
      desc found vals by (simp add: tiers)
  with desc vals found show ?thesis by simp
qed

section \<open>The size of the image\<close>

text \<open>
  C2. For every participant list and header, the buffer \<open>build\<close> returns is 900 wide and
  as high as the header, 100 for each row and 20 more, where the rows are those of
  \<open>usersToRender\<close>; and the header is 150 high exactly when the subtitle is present and
  not empty, and 120 otherwise.
\<close>

theorem C2_build_dimensions:
  "png_width (fst (build env s b out)) = Fin 900
   \<and> png_height (fst (build env s b out))
       = headerHeight b + num (length (usersToRender b)) * Fin 100 + Fin 20
   \<and> (headerHeight b = Fin 150 \<longleftrightarrow> (\<exists>t. subtitle (header b) = Some t \<and> t \<noteq> []))
   \<and> (headerHeight b = Fin 120 \<longleftrightarrow> \<not> (\<exists>t. subtitle (header b) = Some t \<and> t \<noteq> []))
   \<and> png_height (fst (build env s b out))
       = Fin (of_nat ((if \<exists>t. subtitle (header b) = Some t \<and> t \<noteq> [] then 150 else 120)
                      + length (usersToRender b) * 100 + 20))"
  by (auto simp: build_def toBuffer_def build_state_size width_def height_def headerHeight_def
      has_subtitle_def truthy_str_def num_def split: option.splits)

text \<open>C2 at the board of two rows with a subtitle, and at the new builder, which has none.\<close>

theorem C2_witness:
  "png_width (fst (build ex_env ex_store ex_board [])) = Fin 900
   \<and> png_height (fst (build ex_env ex_store ex_board [])) = Fin 370
   \<and> length (usersToRender ex_board) = 2
   \<and> subtitle (header ex_board) = Some ''This week''
   \<and> headerHeight ex_board = Fin 150
   \<and> headerHeight ex_builder = Fin 120 \<and> subtitle (header ex_builder) = None"
proof -
  have n: "usersToRender ex_board = [ex_alice, ex_bob]"
    by (simp add: ex_board_def usersToRender_def truthy_num_def slice_from_zero
        relative_index_pos ex_users_def)
  have hh: "headerHeight ex_board = Fin 150"
    using C2_build_dimensions [of ex_env ex_store ex_board "[]"]
    by (simp add: ex_board_def)
  have "headerHeight ex_builder = Fin 120"
    using C2_build_dimensions [of ex_env ex_store ex_builder "[]"]
    by (simp add: ex_builder_eq)
  then show ?thesis
    using C2_build_dimensions [of ex_env ex_store ex_board "[]"] n hh
    by (simp add: num_def) (simp add: ex_board_def ex_builder_eq)
qed

section \<open>The limit\<close>

text \<open>
  C3 as stated fails for a negative limit: it is truthy, so it is handed to \<open>slice\<close>,
  which counts a negative end from the end of the array. With the limit \<open>-2\<close> and five
  users the rows are the first three, not all five.
\<close>

theorem C3_limit_counterexample:
  "limit ex_limited = Some (Fin (- 2)) \<and> \<not> Fin (- 2) > Fin 0
   \<and> users ex_limited = [ex_alice, ex_bob, ex_carol, ex_dave, ex_eve]
   \<and> usersToRender ex_limited = [ex_alice, ex_bob, ex_carol]
   \<and> usersToRender ex_limited \<noteq> users ex_limited"
  by (simp add: ex_limited_def setLimit_def setUsers_def usersToRender_def truthy_num_def
      slice_from_zero relative_index_def ToIntegerOrInfinity_def ex_users_def)

text \<open>
  C3, amended. When the limit is unset or zero (or \<open>NaN\<close>), \<open>build\<close> renders the full
  sequence; when it is set and positive, the first \<open>limit\<close> participants (the integer
  part of the limit, and all of them when there are fewer or the limit is infinite); in
  every case the participants rendered are a
  prefix of the sequence, in its order, and the rows drawn are their rows, one after the
  other in that order, after the background and the header.
\<close>

theorem C3_limit:
  "(limit b = None \<or> limit b = Some (Fin 0) \<or> limit b = Some NaN \<longrightarrow> usersToRender b = users b)
   \<and> (\<forall>r. limit b = Some (Fin r) \<and> 0 < r \<longrightarrow> usersToRender b = take (nat \<lfloor>r\<rfloor>) (users b))
   \<and> (limit b = Some PInf \<longrightarrow> usersToRender b = users b)
   \<and> prefix (usersToRender b) (users b)
   \<and> paints (build_state env s b out) =
       paints (build_header b (build_background (background b) width (height b)
                 (createCanvas width (height b) out)))
       @ concat (map (\<lambda>(i, p). row_paints env s b i p) (enumerate 0 (usersToRender b)))"
proof (intro conjI allI impI)
  assume "limit b = None \<or> limit b = Some (Fin 0) \<or> limit b = Some NaN"
  then show "usersToRender b = users b"
    by (auto simp: usersToRender_def truthy_num_def)
next
  fix r
  assume "limit b = Some (Fin r) \<and> 0 < r"
  then show "usersToRender b = take (nat \<lfloor>r\<rfloor>) (users b)"
    by (simp add: usersToRender_def truthy_num_def slice_from_zero relative_index_pos min_def)
next
  assume "limit b = Some PInf"
  then show "usersToRender b = users b"
    by (simp add: usersToRender_def truthy_num_def slice_from_zero)
next
  show "prefix (usersToRender b) (users b)"
    by (rule usersToRender_prefix)
next
  show "paints (build_state env s b out) =
       paints (build_header b (build_background (background b) width (height b)
                 (createCanvas width (height b) out)))
       @ concat (map (\<lambda>(i, p). row_paints env s b i p) (enumerate 0 (usersToRender b)))"
    by (rule build_paints)
qed

text \<open>C3 at the limit 2, unset and 0 on the five users, and at the limit \<open>-2\<close>.\<close>

theorem C3_limit_witness:
  "limit ex_board = Some (Fin 2)
   \<and> usersToRender ex_board = [ex_alice, ex_bob]
   \<and> limit ex_builder = None
   \<and> usersToRender (setUsers ex_users ex_builder) = ex_users
   \<and> usersToRender (setLimit (Fin 0) (setUsers ex_users ex_builder)) = ex_users
   \<and> prefix (usersToRender ex_limited) (users ex_limited)
   \<and> paints (build_state ex_env ex_store ex_board []) =
       paints (build_header ex_board (build_background (background ex_board) width
                 (height ex_board) (createCanvas width (height ex_board) [])))
       @ row_paints ex_env ex_store ex_board 0 ex_alice
       @ row_paints ex_env ex_store ex_board 1 ex_bob"
proof -
  have a: "usersToRender ex_board = [ex_alice, ex_bob]"
    using C3_limit [of ex_board ex_env ex_store "[]"]
    by (simp add: ex_board_def ex_users_def)
  have b: "usersToRender (setUsers ex_users ex_builder) = ex_users"
    using C3_limit [of "setUsers ex_users ex_builder" ex_env ex_store "[]"]
    by (simp add: setUsers_def ex_builder_eq)
  have c: "usersToRender (setLimit (Fin 0) (setUsers ex_users ex_builder)) = ex_users"
    using C3_limit [of "setLimit (Fin 0) (setUsers ex_users ex_builder)" ex_env ex_store "[]"]
    by (simp add: setUsers_def setLimit_def)
  show ?thesis
    using C3_limit [of ex_board ex_env ex_store "[]"] C3_limit [of ex_limited ex_env ex_store "[]"]
      a b c
    by (simp add: ex_board_def ex_builder_eq)
qed

section \<open>The gradient background\<close>

lemma add_stops_single: "add_stops [c] g = g\<lparr>stops := stops g @ [(NaN, c)]\<rparr>"
  by (simp add: add_stops_def addColorStop_def num_def minus_jsnum_def)

lemma add_stops_two: "add_stops [c, d] g = g\<lparr>stops := stops g @ [(Fin 0, c), (Fin 1, d)]\<rparr>"
  by (simp add: add_stops_def addColorStop_def num_def minus_jsnum_def)

lemma gradient_for_stops [simp]: "stops (gradient_for t w h) = []"
  by (simp add: gradient_for_def createLinearGradient_def createRadialGradient_def)

lemma gradient_for_unknown:
  "t \<notin> set GradientType \<Longrightarrow> gradient_for t w h = createLinearGradient (Fin 0) (Fin 0) w h"
  by (simp add: gradient_for_def GradientType_def)

lemma gradient_background_layers:
  "bg_type ob \<noteq> ''aurora'' \<Longrightarrow>
   layers (build_background (BgObject ob) w h c) = layers c @
     [(FillRect (Fin 0) (Fin 0) w h,
       Gradient (add_stops (colors ob) (gradient_for (bg_type ob) w h)),
       globalAlpha (dstate c))]"
  by (simp add: build_background_def layers_def ctx_defs)

lemma background_irrelevant [simp]:
  "usersToRender (b\<lparr>background := bg\<rparr>) = usersToRender b"
  "headerHeight (b\<lparr>background := bg\<rparr>) = headerHeight b"
  "barWidth (b\<lparr>background := bg\<rparr>) = barWidth b"
  "xpGradient (b\<lparr>background := bg\<rparr>) = xpGradient b"
  "getRankForXp s (b\<lparr>background := bg\<rparr>) = getRankForXp s b"
  "build_header (b\<lparr>background := bg\<rparr>) = build_header b"
  by (simp_all add: usersToRender_def headerHeight_def has_subtitle_def barWidth_def
      xpGradient_def getRankForXp_def build_header_def fun_eq_iff split: option.splits)

lemma background_irrelevant_derived [simp]:
  "height (b\<lparr>background := bg\<rparr>) = height b"
  "row_y (b\<lparr>background := bg\<rparr>) = row_y b"
  "build_podium (b\<lparr>background := bg\<rparr>) = build_podium b"
  "build_position env (b\<lparr>background := bg\<rparr>) = build_position env b"
  "build_name env (b\<lparr>background := bg\<rparr>) = build_name env b"
  "build_xp_bar env (b\<lparr>background := bg\<rparr>) = build_xp_bar env b"
  "build_rank s (b\<lparr>background := bg\<rparr>) = build_rank s b"
  by (simp_all add: height_def row_y_def build_podium_def build_position_def build_name_def
      build_xp_bar_def build_rank_def fun_eq_iff split: option.splits)

lemma build_row_background:
  "build_row env s (b\<lparr>background := bg\<rparr>) i p = build_row env s b i p"
  by (simp add: build_row_def)

lemma build_rows_background:
  "build_rows env s (b\<lparr>background := bg\<rparr>) i ps c = build_rows env s b i ps c"
  by (induction ps arbitrary: i c) (simp_all add: build_row_background)

lemma build_state_background:
  "build_background bg width (height b) = build_background (background b) width (height b)
   \<Longrightarrow> build_state env s (b\<lparr>background := bg\<rparr>) out = build_state env s b out"
  by (simp add: build_state_def build_rows_background)

text \<open>
  C4 does not hold of the code: the offset of a colour stop is \<open>index / (count - 1)\<close>
  with no guard, so for a gradient of one colour it is \<open>0 / 0\<close>, which is \<open>NaN\<close>. The
  fill style the background is painted with is a gradient whose only stop has the offset
  \<open>NaN\<close>, not a stop inside \<open>[0, 1]\<close> and not a solid colour.
\<close>

theorem C4_single_colour_offset:
  "background b = BgObject ob \<and> bg_type ob \<noteq> ''aurora'' \<and> colors ob = [c] \<longrightarrow>
   take 1 (layers (build_state env s b out)) =
     [(FillRect (Fin 0) (Fin 0) width (height b),
       Gradient ((gradient_for (bg_type ob) width (height b))\<lparr>stops := [(NaN, c)]\<rparr>),
       Fin 1)]"
proof
  assume a: "background b = BgObject ob \<and> bg_type ob \<noteq> ''aurora'' \<and> colors ob = [c]"
  obtain r where "layers (build_state env s b out) =
     layers (build_background (background b) width (height b)
               (createCanvas width (height b) out)) @ r"
    using build_layers_grow by blast
  with a show "take 1 (layers (build_state env s b out)) =
     [(FillRect (Fin 0) (Fin 0) width (height b),
       Gradient ((gradient_for (bg_type ob) width (height b))\<lparr>stops := [(NaN, c)]\<rparr>),
       Fin 1)]"
    by (simp add: gradient_background_layers add_stops_single)
qed

text \<open>The background of \<open>{type: 'linear-left-right', colors: ['#ff0000']}\<close>.\<close>

theorem C4_single_colour_witness:
  "take 1 (layers (build_state ex_env ex_store ex_red [])) =
     [(FillRect (Fin 0) (Fin 0) (Fin 900) (Fin 140),
       Gradient \<lparr>geom = Linear (Fin 0) (Fin 0) (Fin 900) (Fin 0), stops = [(NaN, ''#ff0000'')]\<rparr>,
       Fin 1)]"
  using C4_single_colour_offset [of ex_red "\<lparr>bg_type = ''linear-left-right'', colors = [''#ff0000''],
                                     baseColor = [], spots = []\<rparr>" "''#ff0000''" ex_env ex_store "[]"]
  by (simp add: ex_red_def setBackground_def ex_builder_eq width_def height_def headerHeight_def
      has_subtitle_def usersToRender_def gradient_for_def createLinearGradient_def num_def)

text \<open>
  C8. For every gradient background (an object background that is not an aurora) whose
  type is none of the seven of \<open>GradientType\<close>, the gradient is the linear one from
  \<open>(0, 0)\<close> to \<open>(width, height)\<close>, the geometry of \<open>'linear-top-left-bottom-right'\<close>: the
  background is filled with it, and the whole result of \<open>build\<close> is the one that type
  gives.
\<close>

theorem C8_unknown_gradient_type:
  "background b = BgObject ob \<and> bg_type ob \<noteq> ''aurora'' \<and> bg_type ob \<notin> set GradientType \<longrightarrow>
   gradient_for (bg_type ob) width (height b)
     = createLinearGradient (Fin 0) (Fin 0) width (height b)
   \<and> gradient_for (bg_type ob) width (height b)
     = gradient_for ''linear-top-left-bottom-right'' width (height b)
   \<and> take 1 (layers (build_state env s b out)) =
       [(FillRect (Fin 0) (Fin 0) width (height b),
         Gradient (add_stops (colors ob)
                     (createLinearGradient (Fin 0) (Fin 0) width (height b))),
         Fin 1)]
   \<and> build env s b out
     = build env s (b\<lparr>background := BgObject (ob\<lparr>bg_type := ''linear-top-left-bottom-right''\<rparr>)\<rparr>) out"
proof (intro impI conjI)
  assume a: "background b = BgObject ob \<and> bg_type ob \<noteq> ''aurora'' \<and> bg_type ob \<notin> set GradientType"
  then show g: "gradient_for (bg_type ob) width (height b)
     = createLinearGradient (Fin 0) (Fin 0) width (height b)"
    by (simp add: gradient_for_unknown)
  show g': "gradient_for (bg_type ob) width (height b)
     = gradient_for ''linear-top-left-bottom-right'' width (height b)"
    by (simp add: g) (simp add: gradient_for_def)
  obtain r where "layers (build_state env s b out) =
     layers (build_background (background b) width (height b)
               (createCanvas width (height b) out)) @ r"
    using build_layers_grow by blast
  with a show "take 1 (layers (build_state env s b out)) =
       [(FillRect (Fin 0) (Fin 0) width (height b),
         Gradient (add_stops (colors ob)
                     (createLinearGradient (Fin 0) (Fin 0) width (height b))),
         Fin 1)]"
    by (simp add: gradient_background_layers g)
  have "build_background (BgObject (ob\<lparr>bg_type := ''linear-top-left-bottom-right''\<rparr>)) width (height b)
      = build_background (background b) width (height b)"
    using a by (simp add: build_background_def g')
  then show "build env s b out
     = build env s (b\<lparr>background := BgObject (ob\<lparr>bg_type := ''linear-top-left-bottom-right''\<rparr>)\<rparr>) out"
    by (simp add: build_def build_state_background)
qed

text \<open>C8 at the type \<open>'plaid'\<close>.\<close>

theorem C8_witness:
  "background ex_plaid = BgObject \<lparr>bg_type = ''plaid'', colors = [''#5865F2'', ''#0D0E12''],
                                       baseColor = [], spots = []\<rparr>
   \<and> ''plaid'' \<noteq> ''aurora'' \<and> ''plaid'' \<notin> set GradientType
   \<and> take 1 (layers (build_state ex_env ex_store ex_plaid [])) =
       [(FillRect (Fin 0) (Fin 0) (Fin 900) (Fin 140),
         Gradient \<lparr>geom = Linear (Fin 0) (Fin 0) (Fin 900) (Fin 140),
                   stops = [(Fin 0, ''#5865F2''), (Fin 1, ''#0D0E12'')]\<rparr>,
         Fin 1)]
   \<and> build ex_env ex_store ex_plaid []
     = build ex_env ex_store (setBackground (BgObject \<lparr>bg_type = ''linear-top-left-bottom-right'',
          colors = [''#5865F2'', ''#0D0E12''], baseColor = [], spots = []\<rparr>) ex_builder) []"
  using C8_unknown_gradient_type [of ex_plaid "\<lparr>bg_type = ''plaid'', colors = [''#5865F2'', ''#0D0E12''],
                                       baseColor = [], spots = []\<rparr>" ex_env ex_store "[]"]
  by (simp add: ex_plaid_def setBackground_def ex_builder_eq GradientType_def width_def height_def
      headerHeight_def has_subtitle_def usersToRender_def add_stops_two createLinearGradient_def
      num_def)

section \<open>The XP bar\<close>

lemma row_paints_xp:
  "row_paints env s b i p =
     paints (run [build_card (row_y b i), build_podium b (i + 1) (row_y b i),
                  build_position env b (i + 1) (row_y b i), build_avatar env i p (row_y b i),
                  build_name env b p (row_y b i)] fresh)
     @ ([FillPath (rounded_rect (Fin 450) (row_y b i + Fin 45) (barWidth b) (Fin 10) (Fin 5))]
        @ (if progress p > Fin 0
           then [FillPath (rounded_rect (Fin 450) (row_y b i + Fin 45)
                    (barWidth b * Math_min (progress p) (Fin 1)) (Fin 10) (Fin 5))]
           else [])
        @ [FillText (xp_text env p) (Fin 450 + barWidth b) (row_y b i + Fin 70)])
     @ paints (build_rank s b p (row_y b i) fresh)"
  by (simp add: row_paints_def paints_drawn build_row_def Let_def block_drawn)

lemma build_paints_xp:
  assumes "i < length (usersToRender b)"
  shows "\<exists>pre post. paints (build_state env s b out)
     = pre
       @ ([FillPath (rounded_rect (Fin 450) (row_y b i + Fin 45) (barWidth b) (Fin 10) (Fin 5))]
          @ (if progress (usersToRender b ! i) > Fin 0
             then [FillPath (rounded_rect (Fin 450) (row_y b i + Fin 45)
                      (barWidth b * Math_min (progress (usersToRender b ! i)) (Fin 1))
                      (Fin 10) (Fin 5))]
             else [])
          @ [FillText (xp_text env (usersToRender b ! i)) (Fin 450 + barWidth b)
               (row_y b i + Fin 70)])
       @ post"
proof -
  obtain pre post where "paints (build_state env s b out)
           = pre @ row_paints env s b i (usersToRender b ! i) @ post"
    using build_paints_row [OF assms] by blast
  then have "paints (build_state env s b out)
     = (pre @ paints (run [build_card (row_y b i), build_podium b (i + 1) (row_y b i),
                  build_position env b (i + 1) (row_y b i),
                  build_avatar env i (usersToRender b ! i) (row_y b i),
                  build_name env b (usersToRender b ! i) (row_y b i)] fresh))
       @ ([FillPath (rounded_rect (Fin 450) (row_y b i + Fin 45) (barWidth b) (Fin 10) (Fin 5))]
          @ (if progress (usersToRender b ! i) > Fin 0
             then [FillPath (rounded_rect (Fin 450) (row_y b i + Fin 45)
                      (barWidth b * Math_min (progress (usersToRender b ! i)) (Fin 1))
                      (Fin 10) (Fin 5))]
             else [])
          @ [FillText (xp_text env (usersToRender b ! i)) (Fin 450 + barWidth b)
               (row_y b i + Fin 70)])
       @ (paints (build_rank s b (usersToRender b ! i) (row_y b i) fresh) @ post)"
    by (simp only: row_paints_xp append_assoc)
  then show ?thesis by blast
qed

text \<open>A quotient that is greater than 0 is at least the smallest positive double.\<close>

lemma divide_pos_range:
  "x / y > Fin 0 \<Longrightarrow> x / y = PInf \<or> (\<exists>v. x / y = Fin v \<and> pow2 (- 1074) \<le> v)"
proof (cases "x / y")
  case (Fin v)
  assume pos: "x / y > Fin 0"
  then have v: "0 < v" using Fin by simp
  have "pow2 (- 1074) \<le> v"
  proof (cases x; cases y)
    fix a b
    assume "x = Fin a" "y = Fin b"
    then have "js_round (a / b) = Fin v"
      using Fin v by (auto split: if_splits)
    then show ?thesis using v by (rule js_round_range)
  qed (use Fin v in \<open>auto split: if_splits\<close>)
  then show ?thesis using Fin by simp
qed auto

lemma progress_range:
  "progress p > Fin 0 \<Longrightarrow> progress p = PInf \<or> (\<exists>v. progress p = Fin v \<and> pow2 (- 1074) \<le> v)"
  using divide_pos_range [of "xp p" "neededXp p"] by (auto simp: progress_def split: if_splits)

lemma round_product_pos: "pow2 (- 1074) \<le> r \<Longrightarrow> Fin 0 < round_product r"
proof -
  assume a: "pow2 (- 1074) \<le> r"
  then have "0 < r" using pow2_pos [of "- 1074"] by linarith
  then show ?thesis using a by (simp add: round_product_def js_round_pos)
qed

lemma round_product_not_pos: "r \<le> 0 \<Longrightarrow> \<not> Fin 0 < round_product r"
  by (simp add: round_product_def js_round_not_pos)

lemma barWidth_cases: "barWidth b = Fin 200 \<or> barWidth b = Fin 350"
  by (simp add: barWidth_def)

lemma pow2_small: "pow2 (- 1074) \<le> 1"
  using pow2_mono [of "- 1074" 0] by (simp add: pow2_def)

lemma Math_min_Fin: "Math_min (Fin a) (Fin b) = Fin (min a b)"
  by (auto simp: Math_min_def less_eq_jsnum_def min_def)

lemma Math_min_PInf: "Math_min PInf (Fin b) = Fin b"
  by (simp add: Math_min_def less_eq_jsnum_def)

lemma fill_width_pos_range:
  assumes "x = PInf \<or> (\<exists>v. x = Fin v \<and> pow2 (- 1074) \<le> v)"
  shows "barWidth b * Math_min x (Fin 1) > Fin 0"
proof -
  obtain w where w: "barWidth b = Fin w" "1 \<le> w"
    using barWidth_cases [of b] by auto
  obtain t where t: "Math_min x (Fin 1) = Fin t" "pow2 (- 1074) \<le> t"
    using assms pow2_small by (auto simp: Math_min_Fin Math_min_PInf min_def)
  have "0 < t" using t(2) pow2_pos [of "- 1074"] by linarith
  then have "1 * t \<le> w * t" using w(2) by (intro mult_right_mono) simp_all
  then have "pow2 (- 1074) \<le> w * t" using t(2) by simp
  then show ?thesis by (simp add: w t round_product_pos)
qed

lemma fill_width_pos:
  "progress p > Fin 0 \<Longrightarrow> barWidth b * Math_min (progress p) (Fin 1) > Fin 0"
  using progress_range [of p] by (intro fill_width_pos_range) simp

lemma round_product_le_int:
  assumes "0 < r" "r \<le> of_int n" "r < pow2 53"
  shows "round_product r \<le> Fin (of_int n)"
proof (cases "is_integer r")
  case True
  then show ?thesis using assms(2) by (auto simp: less_eq_jsnum_def)
next
  case False
  then show ?thesis using js_round_le_int [OF assms] by (simp add: round_product_def)
qed

lemma fill_width_le:
  "x > Fin 0 \<Longrightarrow> barWidth b * Math_min x (Fin 1) \<le> barWidth b"
proof -
  assume x: "x > Fin 0"
  obtain n :: int where n: "barWidth b = Fin (of_int n)" "0 < n" "of_int n < pow2 53"
  proof -
    have "barWidth b = Fin (of_int 200) \<or> barWidth b = Fin (of_int 350)"
      using barWidth_cases [of b] by simp
    moreover have "of_int 200 < pow2 53" "of_int 350 < pow2 53"
      by (simp_all add: pow2_def)
    ultimately show ?thesis using that by fastforce
  qed
  obtain t where t: "Math_min x (Fin 1) = Fin t" "0 < t" "t \<le> 1"
    using x by (cases x) (auto simp: Math_min_Fin Math_min_PInf min_def)
  have r: "0 < of_int n * t" "of_int n * t \<le> of_int n"
    using n(2) t(2,3) by (simp_all add: mult_left_le)
  then have "of_int n * t < pow2 53" using n(3) by linarith
  then have "round_product (of_int n * t) \<le> Fin (of_int n)"
    using r by (intro round_product_le_int)
  then show ?thesis by (simp add: n t)
qed

lemma fill_width_nonpos:
  "\<not> x > Fin 0 \<Longrightarrow> \<not> barWidth b * Math_min x (Fin 1) > Fin 0"
proof -
  assume x: "\<not> x > Fin 0"
  obtain w where w: "barWidth b = Fin w" "0 < w"
    using barWidth_cases [of b] by auto
  show ?thesis
  proof (cases x)
    case (Fin v)
    then have "v \<le> 0" using x by simp
    then have "Math_min x (Fin 1) = Fin v" "w * v \<le> 0"
      using Fin w(2) by (auto simp: Math_min_def less_eq_jsnum_def mult_le_0_iff)
    then show ?thesis by (simp add: w round_product_not_pos)
  next
    case PInf
    then show ?thesis using x by simp
  next
    case NInf
    then show ?thesis using w by (simp add: Math_min_def less_eq_jsnum_def js_sign_times_def)
  next
    case NaN
    then show ?thesis by (simp add: Math_min_def w)
  qed
qed

lemma progress_negative_xp: "xp p < Fin 0 \<Longrightarrow> \<not> progress p > Fin 0"
proof (cases "xp p"; cases "neededXp p")
  fix a b
  assume "xp p < Fin 0" "xp p = Fin a" "neededXp p = Fin b"
  then show ?thesis
    using js_round_not_pos [of "a / b"]
    by (auto simp: progress_def divide_le_0_iff)
qed (auto simp: progress_def)

lemma progress_no_needed: "\<not> neededXp p > Fin 0 \<Longrightarrow> progress p = Fin 0"
  by (simp add: progress_def)

text \<open>
  The doubles of the examples: \<open>2500 / 3000\<close> is \<open>0.8333333333333334\<close> and 200 times that
  is \<open>166.66666666666669\<close>; \<open>3500 / 3000\<close> is \<open>1.1666666666666667\<close>; and the smallest
  positive double divided by 4 is 0.
\<close>

lemma ex_ratio_alice: "Fin 2500 / Fin 3000 = Fin (7505999378950827 / 9007199254740992)"
  using js_round_eq [of "- 1" "5 / 6" 7505999378950827] by (simp add: pow2_def)

lemma ex_width_alice:
  "Fin 200 * Fin (7505999378950827 / 9007199254740992) = Fin (2932031007402667 / 17592186044416)"
  using js_round_eq [of 7 "200 * (7505999378950827 / 9007199254740992)" 5864062014805334]
    not_is_integer [of 166 "200 * (7505999378950827 / 9007199254740992)"]
  by (simp add: round_product_def pow2_def)

lemma ex_ratio_bob: "Fin 3500 / Fin 3000 = Fin (5254199565265579 / 4503599627370496)"
  using js_round_eq [of 0 "7 / 6" 5254199565265579] by (simp add: pow2_def)

lemma pow2_quarter: "pow2 (- 1074) / 4 = pow2 (- 1076)"
  using pow2_add [of "- 1076" 2] by (simp add: pow2_def [of 2])

lemma ex_ratio_tiny: "Fin (pow2 (- 1074)) / Fin 4 = Fin 0"
proof -
  have "pow2 (- 1076) \<le> pow2 (- 1075)" by (rule pow2_mono) simp
  then have "js_round (pow2 (- 1074) / 4) = Fin 0"
    by (intro js_round_underflow) (simp_all add: pow2_quarter)
  then show ?thesis by simp
qed

lemma ex_tiny_text: "Number_toString f (Fin (pow2 (- 1074))) = f (pow2 (- 1074))"
proof -
  have "pow2 (- 1074) < pow2 0" by (rule pow2_strict_mono) simp
  then have "pow2 (- 1074) < 1" by (simp add: pow2_def)
  then have "\<lfloor>pow2 (- 1074)\<rfloor> = 0" by (intro floor_unique) simp_all
  then show ?thesis by (simp add: Number_toString_def)
qed

lemma ex_small_rows: "usersToRender ex_small = [ex_tiny]"
  by (simp add: ex_small_def setUsers_def usersToRender_def ex_builder_eq)

lemma ex_small_fields:
  "rankVisible ex_small" "barWidth ex_small = Fin 200" "row_y ex_small 0 = Fin 120"
  by (simp_all add: ex_small_def setUsers_def ex_builder_eq headerHeight_def has_subtitle_def
      row_y_def num_def barWidth_def)


text \<open>
  C5. For every rendered row, the bar is 200 wide when the rank column is visible and
  350 when it is hidden; after the track, the fill is drawn with the width
  \<open>barWidth * min(xp / neededXp, 1)\<close>, quotient and product being the doubles the machine
  computes, which is never more than the track's, when \<open>neededXp > 0\<close> and that quotient
  is greater than 0 (when the quotient is not greater than 0 the formula gives no
  positive width, and no fill is drawn); when \<open>neededXp\<close> is not positive the ratio is
  taken as 0 and the fill is skipped; and the text drawn next is always \<open>xp / neededXp\<close>
  with the two numbers as they are, whatever their ratio. The fill is the path of a
  rounded rectangle from 450 to 450 plus that width.
\<close>

theorem C5_xp_bar:
  "i < length (usersToRender b) \<longrightarrow>
   (\<exists>pre post bw p y.
      p = usersToRender b ! i \<and> y = row_y b i
      \<and> bw = (if rankVisible b then Fin 200 else Fin 350)
      \<and> paints (build_state env s b out)
          = pre
            @ [FillPath (rounded_rect (Fin 450) (y + Fin 45) bw (Fin 10) (Fin 5))]
            @ (if neededXp p > Fin 0 \<and> xp p / neededXp p > Fin 0
               then [FillPath (rounded_rect (Fin 450) (y + Fin 45)
                        (bw * Math_min (xp p / neededXp p) (Fin 1)) (Fin 10) (Fin 5))]
               else [])
            @ [FillText (Number_toString (formatNumber env) (xp p) @ '' / ''
                          @ Number_toString (formatNumber env) (neededXp p))
                 (Fin 450 + bw) (y + Fin 70)]
            @ post
      \<and> (neededXp p > Fin 0 \<and> xp p / neededXp p > Fin 0
            \<longrightarrow> bw * Math_min (xp p / neededXp p) (Fin 1) \<le> bw)
      \<and> (\<not> xp p / neededXp p > Fin 0
            \<longrightarrow> \<not> bw * Math_min (xp p / neededXp p) (Fin 1) > Fin 0)
      \<and> (\<not> neededXp p > Fin 0 \<longrightarrow> progress p = Fin 0))"
proof
  assume i: "i < length (usersToRender b)"
  let ?p = "usersToRender b ! i"
  have cond: "(progress ?p > Fin 0) = (neededXp ?p > Fin 0 \<and> xp ?p / neededXp ?p > Fin 0)"
    by (simp add: progress_def)
  obtain pre post where "paints (build_state env s b out)
     = pre
       @ ([FillPath (rounded_rect (Fin 450) (row_y b i + Fin 45) (barWidth b) (Fin 10) (Fin 5))]
          @ (if progress ?p > Fin 0
             then [FillPath (rounded_rect (Fin 450) (row_y b i + Fin 45)
                      (barWidth b * Math_min (progress ?p) (Fin 1)) (Fin 10) (Fin 5))]
             else [])
          @ [FillText (xp_text env ?p) (Fin 450 + barWidth b) (row_y b i + Fin 70)])
       @ post"
    using build_paints_xp [OF i] by blast
  then have "paints (build_state env s b out)
          = pre
            @ [FillPath (rounded_rect (Fin 450) (row_y b i + Fin 45) (barWidth b) (Fin 10) (Fin 5))]
            @ (if neededXp ?p > Fin 0 \<and> xp ?p / neededXp ?p > Fin 0
               then [FillPath (rounded_rect (Fin 450) (row_y b i + Fin 45)
                        (barWidth b * Math_min (xp ?p / neededXp ?p) (Fin 1)) (Fin 10) (Fin 5))]
               else [])
            @ [FillText (Number_toString (formatNumber env) (xp ?p) @ '' / ''
                          @ Number_toString (formatNumber env) (neededXp ?p))
                 (Fin 450 + barWidth b) (row_y b i + Fin 70)]
            @ post"
    by (simp add: cond xp_text_def) (simp add: progress_def)
  moreover have "neededXp ?p > Fin 0 \<and> xp ?p / neededXp ?p > Fin 0
            \<longrightarrow> barWidth b * Math_min (xp ?p / neededXp ?p) (Fin 1) \<le> barWidth b"
    by (simp add: fill_width_le)
  moreover have "\<not> xp ?p / neededXp ?p > Fin 0
            \<longrightarrow> \<not> barWidth b * Math_min (xp ?p / neededXp ?p) (Fin 1) > Fin 0"
    by (simp add: fill_width_nonpos)
  moreover have "\<not> neededXp ?p > Fin 0 \<longrightarrow> progress ?p = Fin 0"
    by (simp add: progress_def)
  moreover have "barWidth b = (if rankVisible b then Fin 200 else Fin 350)"
    by (simp add: barWidth_def)
  ultimately show "\<exists>pre post bw p y.
      p = usersToRender b ! i \<and> y = row_y b i
      \<and> bw = (if rankVisible b then Fin 200 else Fin 350)
      \<and> paints (build_state env s b out)
          = pre
            @ [FillPath (rounded_rect (Fin 450) (y + Fin 45) bw (Fin 10) (Fin 5))]
            @ (if neededXp p > Fin 0 \<and> xp p / neededXp p > Fin 0
               then [FillPath (rounded_rect (Fin 450) (y + Fin 45)
                        (bw * Math_min (xp p / neededXp p) (Fin 1)) (Fin 10) (Fin 5))]
               else [])
            @ [FillText (Number_toString (formatNumber env) (xp p) @ '' / ''
                          @ Number_toString (formatNumber env) (neededXp p))
                 (Fin 450 + bw) (y + Fin 70)]
            @ post
      \<and> (neededXp p > Fin 0 \<and> xp p / neededXp p > Fin 0
            \<longrightarrow> bw * Math_min (xp p / neededXp p) (Fin 1) \<le> bw)
      \<and> (\<not> xp p / neededXp p > Fin 0
            \<longrightarrow> \<not> bw * Math_min (xp p / neededXp p) (Fin 1) > Fin 0)
      \<and> (\<not> neededXp p > Fin 0 \<longrightarrow> progress p = Fin 0)"
    by (metis (no_types, lifting))
qed

text \<open>
  C5 at the board of two rows: Bob's 3500 of 3000 fills the whole bar of 200 and the text
  is \<open>3500 / 3000\<close>; Alice's 2500 of 3000 is the double \<open>0.8333333333333334\<close> and her
  fill is \<open>166.66666666666669\<close> wide. And at a participant with the XP \<open>5e-324\<close> of 4:
  the quotient is 0, and the track is followed by the text.
\<close>

theorem C5_witness:
  "1 < length (usersToRender ex_board) \<and> usersToRender ex_board ! 1 = ex_bob
   \<and> xp ex_bob = Fin 3500 \<and> neededXp ex_bob = Fin 3000 \<and> rankVisible ex_board
   \<and> xp ex_bob / neededXp ex_bob = Fin (5254199565265579 / 4503599627370496)
   \<and> (\<exists>pre post. paints (build_state ex_env ex_store ex_board [])
         = pre
           @ [FillPath (rounded_rect (Fin 450) (Fin 295) (Fin 200) (Fin 10) (Fin 5)),
              FillPath (rounded_rect (Fin 450) (Fin 295) (Fin 200) (Fin 10) (Fin 5)),
              FillText ''3500 / 3000'' (Fin 650) (Fin 320)]
           @ post)
   \<and> usersToRender ex_board ! 0 = ex_alice
   \<and> xp ex_alice / neededXp ex_alice = Fin (7505999378950827 / 9007199254740992)
   \<and> (\<exists>pre post. paints (build_state ex_env ex_store ex_board [])
         = pre
           @ [FillPath (rounded_rect (Fin 450) (Fin 195) (Fin 200) (Fin 10) (Fin 5)),
              FillPath (rounded_rect (Fin 450) (Fin 195)
                          (Fin (2932031007402667 / 17592186044416)) (Fin 10) (Fin 5)),
              FillText ''2500 / 3000'' (Fin 650) (Fin 220)]
           @ post)
   \<and> usersToRender ex_small = [ex_tiny]
   \<and> xp ex_tiny / neededXp ex_tiny = Fin 0
   \<and> (\<exists>pre post. paints (build_state ex_env ex_store ex_small [])
         = pre
           @ [FillPath (rounded_rect (Fin 450) (Fin 165) (Fin 200) (Fin 10) (Fin 5)),
              FillText ''? / 4'' (Fin 650) (Fin 190)]
           @ post)"
proof -
  have ratios: "xp ex_bob / neededXp ex_bob = Fin (5254199565265579 / 4503599627370496)"
    "xp ex_alice / neededXp ex_alice = Fin (7505999378950827 / 9007199254740992)"
    "xp ex_tiny / neededXp ex_tiny = Fin 0"
    by (simp_all only: ex_bob_def ex_alice_def ex_tiny_def LeaderboardData.simps
        ex_ratio_bob ex_ratio_alice ex_ratio_tiny)
  have needed: "neededXp ex_bob > Fin 0" "neededXp ex_alice > Fin 0" "neededXp ex_tiny > Fin 0"
    by (simp_all add: ex_bob_def ex_alice_def ex_tiny_def)
  have widths: "Fin 200 * Math_min (Fin (5254199565265579 / 4503599627370496)) (Fin 1) = Fin 200"
    "Fin 200 * Math_min (Fin (7505999378950827 / 9007199254740992)) (Fin 1)
       = Fin (2932031007402667 / 17592186044416)"
    using ex_width_alice by (simp_all add: Math_min_Fin)
  have texts: "Number_toString (\<lambda>r. ''?'') (xp ex_bob) = ''3500''"
    "Number_toString (\<lambda>r. ''?'') (neededXp ex_bob) = ''3000''"
    "Number_toString (\<lambda>r. ''?'') (xp ex_alice) = ''2500''"
    "Number_toString (\<lambda>r. ''?'') (neededXp ex_alice) = ''3000''"
    "Number_toString (\<lambda>r. ''?'') (xp ex_tiny) = ''?''"
    "Number_toString (\<lambda>r. ''?'') (neededXp ex_tiny) = ''4''"
    by (simp_all add: ex_bob_def ex_alice_def ex_tiny_def ex_numbers ex_tiny_text)
       (simp add: Number_toString_def digits.simps)
  have bob: "\<exists>pre post. paints (build_state ex_env ex_store ex_board [])
         = pre
           @ [FillPath (rounded_rect (Fin 450) (Fin 295) (Fin 200) (Fin 10) (Fin 5)),
              FillPath (rounded_rect (Fin 450) (Fin 295) (Fin 200) (Fin 10) (Fin 5)),
              FillText ''3500 / 3000'' (Fin 650) (Fin 320)]
           @ post"
    using C5_xp_bar [of 1 ex_board ex_env ex_store "[]"]
    by (simp add: ex_board_rows ex_board_fields ratios needed widths texts)
  have alice: "\<exists>pre post. paints (build_state ex_env ex_store ex_board [])
         = pre
           @ [FillPath (rounded_rect (Fin 450) (Fin 195) (Fin 200) (Fin 10) (Fin 5)),
              FillPath (rounded_rect (Fin 450) (Fin 195)
                          (Fin (2932031007402667 / 17592186044416)) (Fin 10) (Fin 5)),
              FillText ''2500 / 3000'' (Fin 650) (Fin 220)]
           @ post"
    using C5_xp_bar [of 0 ex_board ex_env ex_store "[]"]
    by (simp add: ex_board_rows ex_board_fields ratios needed widths texts)
  have tiny: "\<exists>pre post. paints (build_state ex_env ex_store ex_small [])
         = pre
           @ [FillPath (rounded_rect (Fin 450) (Fin 165) (Fin 200) (Fin 10) (Fin 5)),
              FillText ''? / 4'' (Fin 650) (Fin 190)]
           @ post"
    using C5_xp_bar [of 0 ex_small ex_env ex_store "[]"]
    by (simp add: ex_small_rows ex_small_fields ex_board_fields ratios needed texts)
  have "xp ex_bob = Fin 3500" "neededXp ex_bob = Fin 3000"
    by (simp_all add: ex_bob_def)
  then show ?thesis
    using bob alice tiny ratios
    by (simp add: ex_board_rows ex_board_fields ex_small_rows)
qed

text \<open>
  C10. For every rendered row, after the track the fill is drawn if and only if the
  ratio computed, a double, is greater than 0: what the statements of the XP bar paint is
  the track, the fill and the text when it is, and the track and the text when it is
  not. The ratio is not greater than 0 when the XP is negative and when \<open>neededXp\<close> is
  not positive. Where the fill is drawn its width, the product the machine computes, is
  greater than 0.
\<close>

theorem C10_fill_iff_progress:
  "i < length (usersToRender b) \<longrightarrow>
   (\<exists>pre post p y track fill_bar text.
      p = usersToRender b ! i \<and> y = row_y b i
      \<and> track = FillPath (rounded_rect (Fin 450) (y + Fin 45) (barWidth b) (Fin 10) (Fin 5))
      \<and> fill_bar = FillPath (rounded_rect (Fin 450) (y + Fin 45)
                      (barWidth b * Math_min (progress p) (Fin 1)) (Fin 10) (Fin 5))
      \<and> text = FillText (xp_text env p) (Fin 450 + barWidth b) (y + Fin 70)
      \<and> (\<forall>c. paints (build_xp_bar env b p y c)
                = paints c @ (if progress p > Fin 0 then [track, fill_bar, text]
                              else [track, text]))
      \<and> paints (build_state env s b out)
          = pre @ (if progress p > Fin 0 then [track, fill_bar, text] else [track, text]) @ post
      \<and> (progress p > Fin 0 \<longrightarrow> barWidth b * Math_min (progress p) (Fin 1) > Fin 0)
      \<and> (xp p < Fin 0 \<longrightarrow> \<not> progress p > Fin 0)
      \<and> (\<not> neededXp p > Fin 0 \<longrightarrow> \<not> progress p > Fin 0))"
proof
  assume i: "i < length (usersToRender b)"
  let ?p = "usersToRender b ! i"
  let ?track = "FillPath (rounded_rect (Fin 450) (row_y b i + Fin 45) (barWidth b) (Fin 10) (Fin 5))"
  let ?fill = "FillPath (rounded_rect (Fin 450) (row_y b i + Fin 45)
                      (barWidth b * Math_min (progress ?p) (Fin 1)) (Fin 10) (Fin 5))"
  let ?text = "FillText (xp_text env ?p) (Fin 450 + barWidth b) (row_y b i + Fin 70)"
  obtain pre post where "paints (build_state env s b out)
     = pre @ ([?track] @ (if progress ?p > Fin 0 then [?fill] else []) @ [?text]) @ post"
    using build_paints_xp [OF i] by blast
  then have "paints (build_state env s b out)
     = pre @ (if progress ?p > Fin 0 then [?track, ?fill, ?text] else [?track, ?text]) @ post"
    by simp
  moreover have "\<forall>c. paints (build_xp_bar env b ?p (row_y b i) c)
                = paints c @ (if progress ?p > Fin 0 then [?track, ?fill, ?text]
                              else [?track, ?text])"
    by (simp add: paints_drawn build_xp_bar_drawn)
  moreover have "progress ?p > Fin 0 \<longrightarrow> barWidth b * Math_min (progress ?p) (Fin 1) > Fin 0"
    by (simp add: fill_width_pos)
  moreover have "xp ?p < Fin 0 \<longrightarrow> \<not> progress ?p > Fin 0"
    by (simp add: progress_negative_xp)
  moreover have "\<not> neededXp ?p > Fin 0 \<longrightarrow> \<not> progress ?p > Fin 0"
    by (simp add: progress_def)
  ultimately show "\<exists>pre post p y track fill_bar text.
      p = usersToRender b ! i \<and> y = row_y b i
      \<and> track = FillPath (rounded_rect (Fin 450) (y + Fin 45) (barWidth b) (Fin 10) (Fin 5))
      \<and> fill_bar = FillPath (rounded_rect (Fin 450) (y + Fin 45)
                      (barWidth b * Math_min (progress p) (Fin 1)) (Fin 10) (Fin 5))
      \<and> text = FillText (xp_text env p) (Fin 450 + barWidth b) (y + Fin 70)
      \<and> (\<forall>c. paints (build_xp_bar env b p y c)
                = paints c @ (if progress p > Fin 0 then [track, fill_bar, text]
                              else [track, text]))
      \<and> paints (build_state env s b out)
          = pre @ (if progress p > Fin 0 then [track, fill_bar, text] else [track, text]) @ post
      \<and> (progress p > Fin 0 \<longrightarrow> barWidth b * Math_min (progress p) (Fin 1) > Fin 0)
      \<and> (xp p < Fin 0 \<longrightarrow> \<not> progress p > Fin 0)
      \<and> (\<not> neededXp p > Fin 0 \<longrightarrow> \<not> progress p > Fin 0)"
    by (metis (no_types, lifting))
qed

text \<open>
  C10 at the five users: Dave's XP is negative and Carol's \<open>neededXp\<close> is 0, so their
  tracks are followed by the text; Alice's fill is drawn, \<open>166.66666666666669\<close> wide. And
  at the XP \<open>5e-324\<close> of 4: both numbers are positive, their quotient is 0 in doubles,
  and no fill is drawn.
\<close>

theorem C10_witness:
  "3 < length (usersToRender ex_all) \<and> usersToRender ex_all ! 3 = ex_dave
   \<and> xp ex_dave < Fin 0 \<and> \<not> progress ex_dave > Fin 0
   \<and> (\<exists>pre post. paints (build_state ex_env ex_store ex_all [])
         = pre
           @ [FillPath (rounded_rect (Fin 450) (Fin 465) (Fin 200) (Fin 10) (Fin 5)),
              FillText ''-5 / 100'' (Fin 650) (Fin 490)]
           @ post)
   \<and> usersToRender ex_all ! 2 = ex_carol \<and> \<not> neededXp ex_carol > Fin 0
   \<and> (\<exists>pre post. paints (build_state ex_env ex_store ex_all [])
         = pre
           @ [FillPath (rounded_rect (Fin 450) (Fin 365) (Fin 200) (Fin 10) (Fin 5)),
              FillText ''500 / 0'' (Fin 650) (Fin 390)]
           @ post)
   \<and> usersToRender ex_all ! 0 = ex_alice
   \<and> progress ex_alice = Fin (7505999378950827 / 9007199254740992)
   \<and> Fin 200 * Math_min (progress ex_alice) (Fin 1) = Fin (2932031007402667 / 17592186044416)
   \<and> Fin 200 * Math_min (progress ex_alice) (Fin 1) > Fin 0
   \<and> (\<exists>pre post. paints (build_state ex_env ex_store ex_all [])
         = pre
           @ [FillPath (rounded_rect (Fin 450) (Fin 165) (Fin 200) (Fin 10) (Fin 5)),
              FillPath (rounded_rect (Fin 450) (Fin 165)
                          (Fin (2932031007402667 / 17592186044416)) (Fin 10) (Fin 5)),
              FillText ''2500 / 3000'' (Fin 650) (Fin 190)]
           @ post)
   \<and> usersToRender ex_small ! 0 = ex_tiny
   \<and> Fin 0 < xp ex_tiny \<and> Fin 0 < neededXp ex_tiny \<and> progress ex_tiny = Fin 0
   \<and> (\<exists>pre post. paints (build_state ex_env ex_store ex_small [])
         = pre
           @ [FillPath (rounded_rect (Fin 450) (Fin 165) (Fin 200) (Fin 10) (Fin 5)),
              FillText ''? / 4'' (Fin 650) (Fin 190)]
           @ post)"
proof -
  have alice: "progress ex_alice = Fin (7505999378950827 / 9007199254740992)"
    using ex_ratio_alice by (simp add: progress_def ex_alice_def)
  have tiny: "Fin 0 < xp ex_tiny" "Fin 0 < neededXp ex_tiny" "progress ex_tiny = Fin 0"
    using ex_ratio_tiny by (simp_all add: progress_def ex_tiny_def)
  have vals: "xp ex_dave < Fin 0" "\<not> neededXp ex_carol > Fin 0" "progress ex_carol = Fin 0"
    by (simp_all add: ex_dave_def ex_carol_def progress_def)
  have dave: "\<not> progress ex_dave > Fin 0"
    using vals(1) by (rule progress_negative_xp)
  have width: "Fin 200 * Math_min (progress ex_alice) (Fin 1)
       = Fin (2932031007402667 / 17592186044416)"
    using ex_width_alice by (simp add: alice Math_min_Fin)
  have texts: "xp_text ex_env ex_dave = ''-5 / 100''" "xp_text ex_env ex_carol = ''500 / 0''"
    "xp_text ex_env ex_alice = ''2500 / 3000''" "xp_text ex_env ex_tiny = ''? / 4''"
    by (simp_all add: xp_text_def ex_dave_def ex_carol_def ex_alice_def ex_tiny_def ex_numbers
        ex_numbers_more ex_tiny_text ex_env_def)
       (simp add: Number_toString_def digits.simps)
  have r3: "\<exists>pre post. paints (build_state ex_env ex_store ex_all [])
         = pre
           @ [FillPath (rounded_rect (Fin 450) (Fin 465) (Fin 200) (Fin 10) (Fin 5)),
              FillText ''-5 / 100'' (Fin 650) (Fin 490)]
           @ post"
    using C10_fill_iff_progress [of 3 ex_all ex_env ex_store "[]"]
    by (simp add: ex_all_rows ex_all_fields ex_users_def vals dave texts)
  have r2: "\<exists>pre post. paints (build_state ex_env ex_store ex_all [])
         = pre
           @ [FillPath (rounded_rect (Fin 450) (Fin 365) (Fin 200) (Fin 10) (Fin 5)),
              FillText ''500 / 0'' (Fin 650) (Fin 390)]
           @ post"
    using C10_fill_iff_progress [of 2 ex_all ex_env ex_store "[]"]
    by (simp add: ex_all_rows ex_all_fields ex_users_def vals texts)
  have r0: "(\<exists>pre post. paints (build_state ex_env ex_store ex_all [])
         = pre
           @ [FillPath (rounded_rect (Fin 450) (Fin 165) (Fin 200) (Fin 10) (Fin 5)),
              FillPath (rounded_rect (Fin 450) (Fin 165)
                          (Fin (2932031007402667 / 17592186044416)) (Fin 10) (Fin 5)),
              FillText ''2500 / 3000'' (Fin 650) (Fin 190)]
           @ post)
        \<and> Fin 200 * Math_min (progress ex_alice) (Fin 1) > Fin 0"
    using C10_fill_iff_progress [of 0 ex_all ex_env ex_store "[]"] width
    by (simp add: ex_all_rows ex_all_fields ex_users_def alice texts)
  have r_tiny: "\<exists>pre post. paints (build_state ex_env ex_store ex_small [])
         = pre
           @ [FillPath (rounded_rect (Fin 450) (Fin 165) (Fin 200) (Fin 10) (Fin 5)),
              FillText ''? / 4'' (Fin 650) (Fin 190)]
           @ post"
    using C10_fill_iff_progress [of 0 ex_small ex_env ex_store "[]"]
    by (simp add: ex_small_rows ex_small_fields tiny texts)
  show ?thesis
    using r3 r2 r0 r_tiny vals dave alice width tiny
    by (simp add: ex_all_rows ex_users_def ex_small_rows)
qed

section \<open>Avatars that do not load\<close>

lemma without_images_simps [simp]:
  "without_images [] = []"
  "without_images (xs @ ys) = without_images xs @ without_images ys"
  "without_images ((p, d) # xs) = (if is_image p then without_images xs else (p, d) # without_images xs)"
  by (simp_all add: without_images_def)

lemma is_image_simps [simp]:
  "is_image (DrawImage img x y w h)" "\<not> is_image (FillRect x y w h)" "\<not> is_image (FillPath ps)"
  "\<not> is_image (StrokePath ps)" "\<not> is_image (FillText t x y)"
  by (simp_all add: is_image_def)

lemma alike_refl [simp]: "alike c c"
  by (simp add: alike_def)

lemma alike_blocks:
  assumes "alike c c'"
  shows "alike (build_card y c) (build_card y c')"
    and "alike (build_podium b position y c) (build_podium b position y c')"
    and "alike (build_position (env\<lparr>loadImage := l\<rparr>) b position y c) (build_position env b position y c')"
    and "alike (build_name (env\<lparr>loadImage := l\<rparr>) b p y c) (build_name env b p y c')"
    and "alike (build_xp_bar (env\<lparr>loadImage := l\<rparr>) b p y c) (build_xp_bar env b p y c')"
    and "alike (build_rank s b p y c) (build_rank s b p y c')"
  using assms
  by (simp_all add: alike_def build_card_def build_podium_def build_position_def build_name_def
      build_xp_bar_def build_rank_def xp_text_def roundRect_eq ctx_defs split: option.splits)

lemma alike_avatar:
  assumes "alike c c'"
  shows "alike (build_avatar env i p y c) (build_avatar env' i p y c')"
  using assms
  by (simp add: alike_def build_avatar_def try_avatar_def ctx_defs split: sum.splits)

lemma alike_row:
  assumes "alike c c'"
  shows "alike (build_row (env\<lparr>loadImage := l\<rparr>) s b i p c) (build_row env s b i p c')"
  unfolding build_row_def Let_def run_Cons run_Nil
  by (intro alike_blocks alike_avatar assms)

lemma alike_rows:
  "alike c c' \<Longrightarrow> alike (build_rows (env\<lparr>loadImage := l\<rparr>) s b i ps c) (build_rows env s b i ps c')"
  by (induction ps arbitrary: i c c') (simp_all add: alike_row)

lemma alike_build:
  "alike (build_state (env\<lparr>loadImage := l\<rparr>) s b out) (build_state env s b out)"
  by (simp add: build_state_def alike_rows)

lemma unclipped_blocks:
  assumes "unclipped c"
  shows "unclipped (build_card y c)"
    and "unclipped (build_podium b position y c)"
    and "unclipped (build_position env b position y c)"
    and "unclipped (build_avatar env i p y c)"
    and "unclipped (build_name env b p y c)"
    and "unclipped (build_xp_bar env b p y c)"
    and "unclipped (build_rank s b p y c)"
    and "unclipped (build_header b c)"
  using assms
  by (simp_all add: unclipped_def build_card_def build_podium_def build_position_def build_name_def
      build_avatar_def try_avatar_def build_header_def
      build_xp_bar_def build_rank_def roundRect_eq ctx_defs split: option.splits sum.splits)

lemma unclipped_row: "unclipped c \<Longrightarrow> unclipped (build_row env s b i p c)"
  unfolding build_row_def Let_def run_Cons run_Nil
  by (intro unclipped_blocks)

lemma unclipped_rows: "unclipped c \<Longrightarrow> unclipped (build_rows env s b i ps c)"
  by (induction ps arbitrary: i c) (simp_all add: unclipped_row)

lemma unclipped_spots: "unclipped c \<Longrightarrow> unclipped (run (map (aurora_spot w h) sp) c)"
  by (induction sp arbitrary: c) (simp_all add: aurora_spot_eq unclipped_def)

lemma unclipped_background: "unclipped c \<Longrightarrow> unclipped (build_background bg w h c)"
proof (cases bg)
  case (BgString color)
  assume "unclipped c"
  then show ?thesis using BgString by (simp add: build_background_def unclipped_def ctx_defs)
next
  case (BgObject ob)
  assume c: "unclipped c"
  show ?thesis
  proof (cases "bg_type ob = ''aurora''")
    case True
    have "unclipped (run [set_fillStyle (Color (baseColor ob)), fillRect (Fin 0) (Fin 0) w h,
                  set_globalAlpha (Fin (4 / 10))] c)"
      using c by (simp add: unclipped_def ctx_defs)
    then have "unclipped (run (map (aurora_spot w h) (spots ob))
        (run [set_fillStyle (Color (baseColor ob)), fillRect (Fin 0) (Fin 0) w h,
                  set_globalAlpha (Fin (4 / 10))] c))"
      by (rule unclipped_spots)
    then show ?thesis using BgObject True by (simp add: build_background_def unclipped_def ctx_defs)
  next
    case False
    then show ?thesis using BgObject c by (simp add: build_background_def unclipped_def ctx_defs)
  qed
qed

lemma unclipped_build: "unclipped (build_state env s b out)"
proof -
  have "unclipped (createCanvas width (height b) out)"
    by (simp add: unclipped_def createCanvas_def)
  then show ?thesis
    unfolding build_state_def
    by (intro unclipped_rows unclipped_blocks unclipped_background)
qed

lemma block_saved [simp]:
  "saved (build_card y c) = saved c"
  "saved (build_podium b position y c) = saved c"
  "saved (build_position env b position y c) = saved c"
  "saved (build_avatar env i p y c) = saved c"
  "saved (build_name env b p y c) = saved c"
  "saved (build_xp_bar env b p y c) = saved c"
  "saved (build_rank s b p y c) = saved c"
  "saved (build_header b c) = saved c"
  by (simp_all add: build_card_def build_podium_def build_position_def build_avatar_def
      try_avatar_def build_name_def build_xp_bar_def build_rank_def build_header_def roundRect_eq
      ctx_defs split: option.splits sum.splits)

lemma build_row_saved [simp]: "saved (build_row env s b i p c) = saved c"
  by (simp add: build_row_def Let_def)

lemma build_rows_saved [simp]: "saved (build_rows env s b i ps c) = saved c"
  by (induction ps arbitrary: i c) simp_all

lemma aurora_spots_saved [simp]: "saved (run (map (aurora_spot w h) sp) c) = saved c"
  by (induction sp arbitrary: c) (simp_all add: aurora_spot_eq)

lemma build_background_saved [simp]: "saved (build_background bg w h c) = saved c"
  by (simp add: build_background_def ctx_defs split: BackgroundOptions.splits)

lemma build_state_saved: "saved (build_state env s b out) = []"
  by (simp add: build_state_def createCanvas_def)

text \<open>
  C6. Whatever calls of \<open>loadImage\<close> fail, \<open>build\<close> returns its buffer: the rejection is
  a value of the \<open>try\<close>, and the \<open>catch\<close> turns it into a line of the console. The
  buffer has the size computed from the full number of rows. The console receives one
  line for each row whose call failed, in the order of the rows, and nothing else. The
  content of the buffer is the background and the header and then the rows, in order,
  and the paint operations of a row are the same for every outcome of the calls, except
  that the image of the row's own avatar is among them exactly when its call succeeded:
  a row whose avatar failed is drawn without it, nickname and all the rest included.
  Apart from the images the content is the same, paint operation by paint operation and
  each with the same drawing state, as when every avatar loads; nothing but the images
  is painted under a clip, and when \<open>build\<close> ends no clip is in force and nothing is
  left on the stack of \<open>save\<close>.
\<close>

theorem C6_avatar_failure:
  "png_width (fst (build env s b out)) = Fin 900
   \<and> png_height (fst (build env s b out))
       = headerHeight b + num (length (usersToRender b)) * Fin 100 + Fin 20
   \<and> snd (build env s b out)
       = out @ concat (map (\<lambda>(i, p). case loadImage env i (avatarUrl p) of
                                       Inl e \<Rightarrow> [(''Could not load avatar'', e)]
                                     | Inr img \<Rightarrow> []) (enumerate 0 (usersToRender b)))
   \<and> map fst (png_content (fst (build env s b out)))
       = paints (build_header b (build_background (background b) width (height b)
                   (createCanvas width (height b) out)))
         @ concat (map (\<lambda>(i, p). row_paints env s b i p) (enumerate 0 (usersToRender b)))
   \<and> (\<forall>i p. \<exists>pre post.
         (\<forall>l. row_paints (env\<lparr>loadImage := l\<rparr>) s b i p
                = pre
                  @ (case l i (avatarUrl p) of
                       Inl e \<Rightarrow> []
                     | Inr img \<Rightarrow> [DrawImage img (Fin 140) (row_y b i + Fin 15) (Fin 60) (Fin 60)])
                  @ post)
         \<and> FillText (nickname p) (Fin 225) (row_y b i + Fin 40) \<in> set post)
   \<and> (\<forall>l. without_images (png_content (fst (build (env\<lparr>loadImage := l\<rparr>) s b out)))
            = without_images (png_content (fst (build env s b out))))
   \<and> (\<forall>e\<in>set (png_content (fst (build env s b out))).
         \<not> is_image (fst e) \<longrightarrow> clipping (snd e) = [])
   \<and> clipping (dstate (build_state env s b out)) = []
   \<and> saved (build_state env s b out) = []"
proof (intro conjI allI ballI impI)
  show "png_width (fst (build env s b out)) = Fin 900"
    by (simp add: build_def toBuffer_def build_state_size width_def)
  show "png_height (fst (build env s b out))
       = headerHeight b + num (length (usersToRender b)) * Fin 100 + Fin 20"
    by (simp add: build_def toBuffer_def build_state_size height_def)
  show "snd (build env s b out)
       = out @ concat (map (\<lambda>(i, p). case loadImage env i (avatarUrl p) of
                                       Inl e \<Rightarrow> [(''Could not load avatar'', e)]
                                     | Inr img \<Rightarrow> []) (enumerate 0 (usersToRender b)))"
    by (simp add: build_def build_console)
  show "map fst (png_content (fst (build env s b out)))
       = paints (build_header b (build_background (background b) width (height b)
                   (createCanvas width (height b) out)))
         @ concat (map (\<lambda>(i, p). row_paints env s b i p) (enumerate 0 (usersToRender b)))"
    using build_paints [of env s b out] by (simp add: build_def toBuffer_def paints_def)
  show "clipping (dstate (build_state env s b out)) = []"
    using unclipped_build [of env s b out] by (simp add: unclipped_def)
  show "saved (build_state env s b out) = []"
    by (rule build_state_saved)
next
  fix l
  show "without_images (png_content (fst (build (env\<lparr>loadImage := l\<rparr>) s b out)))
            = without_images (png_content (fst (build env s b out)))"
    using alike_build [of l env s b out] by (simp add: build_def toBuffer_def alike_def)
next
  fix e
  assume "e \<in> set (png_content (fst (build env s b out)))" "\<not> is_image (fst e)"
  then show "clipping (snd e) = []"
    using unclipped_build [of env s b out]
    by (auto simp: unclipped_def build_def toBuffer_def list_all_iff)
next
  fix i p
  let ?pre = "[FillPath (rounded_rect (Fin 30) (row_y b i) (width - Fin 60) (Fin 90) (Fin 15)),
      StrokePath (rounded_rect (Fin 30) (row_y b i) (width - Fin 60) (Fin 90) (Fin 15))]
     @ (case podiumColor (podium b) (i + 1) of None \<Rightarrow> []
        | Some color \<Rightarrow> [StrokePath (rounded_rect (Fin 30) (row_y b i) (width - Fin 60) (Fin 90) (Fin 15))])
     @ [FillText (Number_toString (formatNumber env) (num (i + 1))) (Fin 80) (row_y b i + Fin 58)]"
  let ?post = "[FillText (nickname p) (Fin 225) (row_y b i + Fin 40),
        FillText (''Level '' @ Number_toString (formatNumber env) (level p)) (Fin 225) (row_y b i + Fin 65)]
     @ [FillPath (rounded_rect (Fin 450) (row_y b i + Fin 45) (barWidth b) (Fin 10) (Fin 5))]
     @ (if progress p > Fin 0
        then [FillPath (rounded_rect (Fin 450) (row_y b i + Fin 45)
                 (barWidth b * Math_min (progress p) (Fin 1)) (Fin 10) (Fin 5))]
        else [])
     @ [FillText (xp_text env p) (Fin 450 + barWidth b) (row_y b i + Fin 70)]
     @ (case getRankForXp s b (xp p) of None \<Rightarrow> []
        | Some tier \<Rightarrow> if rankVisible b then [FillText (tier_name tier) (width - Fin 50) (row_y b i + Fin 58)] else [])"
  have "\<forall>l. row_paints (env\<lparr>loadImage := l\<rparr>) s b i p
                = ?pre
                  @ (case l i (avatarUrl p) of
                       Inl e \<Rightarrow> []
                     | Inr img \<Rightarrow> [DrawImage img (Fin 140) (row_y b i + Fin 15) (Fin 60) (Fin 60)])
                  @ ?post"
    by (simp add: row_paints_eq xp_text_def)
  moreover have "FillText (nickname p) (Fin 225) (row_y b i + Fin 40) \<in> set ?post"
    by simp
  ultimately show "\<exists>pre post.
         (\<forall>l. row_paints (env\<lparr>loadImage := l\<rparr>) s b i p
                = pre
                  @ (case l i (avatarUrl p) of
                       Inl e \<Rightarrow> []
                     | Inr img \<Rightarrow> [DrawImage img (Fin 140) (row_y b i + Fin 15) (Fin 60) (Fin 60)])
                  @ post)
         \<and> FillText (nickname p) (Fin 225) (row_y b i + Fin 40) \<in> set post"
    by blast
qed

lemma ex_pair_rows: "usersToRender ex_pair = [ex_alice, ex_alice]"
  by (simp add: ex_pair_def setUsers_def usersToRender_def ex_builder_eq)

text \<open>
  C6 at the board of two rows, where the call for Bob's avatar fails and the one for
  Alice's succeeds, and at a board of two rows with the same URL, where the second call
  fails: one line on the console.
\<close>

theorem C6_witness:
  "usersToRender ex_board = [ex_alice, ex_bob]
   \<and> loadImage ex_env 1 (avatarUrl ex_bob) = Inl (Error ''404'')
   \<and> loadImage ex_env 0 (avatarUrl ex_alice) = Inr (Image ''https://example.com/alice.png'')
   \<and> png_width (fst (build ex_env ex_store ex_board [])) = Fin 900
   \<and> png_height (fst (build ex_env ex_store ex_board [])) = Fin 370
   \<and> snd (build ex_env ex_store ex_board []) = [(''Could not load avatar'', Error ''404'')]
   \<and> (\<exists>pre post.
         row_paints ex_env ex_store ex_board 1 ex_bob = pre @ post
         \<and> row_paints (ex_env\<lparr>loadImage := \<lambda>i u. Inr (Image u)\<rparr>) ex_store ex_board 1 ex_bob
             = pre @ [DrawImage (Image ''https://example.com/bob.png'') (Fin 140) (Fin 265)
                        (Fin 60) (Fin 60)] @ post
         \<and> FillText ''Bob'' (Fin 225) (Fin 290) \<in> set post)
   \<and> (\<exists>pre post.
         row_paints ex_env ex_store ex_board 0 ex_alice
           = pre @ [DrawImage (Image ''https://example.com/alice.png'') (Fin 140) (Fin 165)
                      (Fin 60) (Fin 60)] @ post)
   \<and> without_images (png_content (fst (build (ex_env\<lparr>loadImage := \<lambda>i u. Inr (Image u)\<rparr>)
                                              ex_store ex_board [])))
       = without_images (png_content (fst (build ex_env ex_store ex_board [])))
   \<and> (\<exists>e\<in>set (png_content (fst (build ex_env ex_store ex_board []))).
         fst e = FillText ''Bob'' (Fin 225) (Fin 290) \<and> clipping (snd e) = [])
   \<and> usersToRender ex_pair = [ex_alice, ex_alice]
   \<and> snd (build ex_env ex_store ex_pair []) = [(''Could not load avatar'', Error ''404'')]"
proof -
  note C6 = C6_avatar_failure [of ex_env ex_store ex_board "[]"]
  have urls: "avatarUrl ex_bob = ''https://example.com/bob.png''"
    "avatarUrl ex_alice = ''https://example.com/alice.png''" "nickname ex_bob = ''Bob''"
    by (simp_all add: ex_bob_def ex_alice_def)
  have loads: "loadImage ex_env (Suc 0) u = Inl (Error ''404'')"
    "loadImage ex_env 0 u = Inr (Image u)"
    "ex_env\<lparr>loadImage := loadImage ex_env\<rparr> = ex_env"
    for u
    by (simp_all add: ex_env_def)
  obtain pre post where bob:
    "\<forall>l. row_paints (ex_env\<lparr>loadImage := l\<rparr>) ex_store ex_board (Suc 0) ex_bob
           = pre
             @ (case l (Suc 0) (avatarUrl ex_bob) of
                  Inl e \<Rightarrow> []
                | Inr img \<Rightarrow>
                    [DrawImage img (Fin 140) (row_y ex_board (Suc 0) + Fin 15) (Fin 60) (Fin 60)])
             @ post"
    "FillText (nickname ex_bob) (Fin 225) (row_y ex_board (Suc 0) + Fin 40) \<in> set post"
    using C6 by blast
  have b1: "row_paints ex_env ex_store ex_board (Suc 0) ex_bob = pre @ post"
    using bob(1) [rule_format, of "loadImage ex_env"] by (simp add: urls loads)
  have b2: "row_paints (ex_env\<lparr>loadImage := \<lambda>i u. Inr (Image u)\<rparr>) ex_store ex_board (Suc 0) ex_bob
             = pre @ [DrawImage (Image ''https://example.com/bob.png'') (Fin 140) (Fin 265)
                        (Fin 60) (Fin 60)] @ post"
    using bob(1) [rule_format, of "\<lambda>i u. Inr (Image u)"] by (simp add: urls ex_board_fields)
  have b3: "FillText ''Bob'' (Fin 225) (Fin 290) \<in> set post"
    using bob(2) by (simp add: urls ex_board_fields)
  obtain pre' post' where alice:
    "\<forall>l. row_paints (ex_env\<lparr>loadImage := l\<rparr>) ex_store ex_board 0 ex_alice
           = pre'
             @ (case l 0 (avatarUrl ex_alice) of
                  Inl e \<Rightarrow> []
                | Inr img \<Rightarrow> [DrawImage img (Fin 140) (row_y ex_board 0 + Fin 15) (Fin 60) (Fin 60)])
             @ post'"
    using C6 by blast
  have a1: "row_paints ex_env ex_store ex_board 0 ex_alice
           = pre' @ [DrawImage (Image ''https://example.com/alice.png'') (Fin 140) (Fin 165)
                      (Fin 60) (Fin 60)] @ post'"
    using alice [rule_format, of "loadImage ex_env"] by (simp add: urls loads ex_board_fields)
  have sizes: "png_width (fst (build ex_env ex_store ex_board [])) = Fin 900"
    "png_height (fst (build ex_env ex_store ex_board [])) = Fin 370"
    "snd (build ex_env ex_store ex_board []) = [(''Could not load avatar'', Error ''404'')]"
    using C6 by (simp_all add: ex_board_rows urls loads num_def ex_board_fields)
  have same: "without_images (png_content (fst (build (ex_env\<lparr>loadImage := \<lambda>i u. Inr (Image u)\<rparr>)
                                              ex_store ex_board [])))
       = without_images (png_content (fst (build ex_env ex_store ex_board [])))"
    using C6 by blast
  have "FillText ''Bob'' (Fin 225) (Fin 290)
      \<in> set (map fst (png_content (fst (build ex_env ex_store ex_board []))))"
    using C6 b1 b3 by (simp add: ex_board_rows)
  then obtain e where e: "e \<in> set (png_content (fst (build ex_env ex_store ex_board [])))"
    "fst e = FillText ''Bob'' (Fin 225) (Fin 290)"
    by auto
  then have "clipping (snd e) = []"
    using C6 by (simp add: is_image_def)
  with e have clip: "\<exists>e\<in>set (png_content (fst (build ex_env ex_store ex_board []))).
         fst e = FillText ''Bob'' (Fin 225) (Fin 290) \<and> clipping (snd e) = []"
    by blast
  have pair: "snd (build ex_env ex_store ex_pair []) = [(''Could not load avatar'', Error ''404'')]"
    using C6_avatar_failure [of ex_env ex_store ex_pair "[]"]
    by (simp add: ex_pair_rows loads)
  show ?thesis
    using b1 b2 b3 a1 sizes same clip pair
    by (simp add: ex_board_rows ex_pair_rows urls loads) blast
qed

section \<open>The aurora background\<close>

lemma aurora_background:
  "bg_type ob = ''aurora'' \<Longrightarrow>
   layers (build_background (BgObject ob) w h c)
     = layers c
       @ (FillRect (Fin 0) (Fin 0) w h, Color (baseColor ob), globalAlpha (dstate c))
       # map (\<lambda>spot. (FillRect (Fin 0) (Fin 0) w h, Gradient (spot_gradient spot), Fin (4 / 10)))
           (spots ob)"
  "bg_type ob = ''aurora'' \<Longrightarrow> globalAlpha (dstate (build_background (BgObject ob) w h c)) = Fin 1"
  by (simp_all add: build_background_def aurora_spots_layers)

lemma rest_under:
  assumes "layers c' = layers c @ r" "drawn c' = drawn c @ under a ps"
  shows "\<forall>l\<in>set r. snd (snd l) = a"
proof -
  have "map (\<lambda>l. (fst l, snd (snd l))) r = under a ps"
    using assms by (simp add: drawn_layers)
  then have "map (\<lambda>l. snd (snd l)) r = map snd (under a ps)"
    by (metis (mono_tags, lifting) list.map_comp comp_def snd_conv map_eq_conv)
  then have "set (map (\<lambda>l. snd (snd l)) r) \<subseteq> {a}"
    by (auto simp: under_def)
  then show ?thesis by auto
qed

lemma aurora_spot_checked_ok:
  "rejects (spot_color spot @ ''00'') = None \<Longrightarrow>
   aurora_spot_checked rejects w h spot c = Inr (aurora_spot w h spot c)"
  by (simp add: aurora_spot_checked_def addColorStop_checked_def aurora_spot_def)

lemma aurora_spot_checked_throw:
  "rejects (spot_color spot @ ''00'') = Some e \<Longrightarrow>
   aurora_spot_checked rejects w h spot c = Inl e"
  by (simp add: aurora_spot_checked_def addColorStop_checked_def)

lemma aurora_spots_checked_throw:
  "(\<forall>sp\<in>set pre. rejects (spot_color sp @ ''00'') = None) \<Longrightarrow>
   rejects (spot_color spot @ ''00'') = Some e \<Longrightarrow>
   aurora_spots_checked rejects w h (pre @ spot # post) c
     = Inl (e, run (map (aurora_spot w h) pre) c)"
  by (induction pre arbitrary: c)
     (simp_all add: aurora_spot_checked_ok aurora_spot_checked_throw)

lemma aurora_spots_checked_ok:
  "(\<forall>sp\<in>set sps. rejects (spot_color sp @ ''00'') = None) \<Longrightarrow>
   aurora_spots_checked rejects w h sps c = Inr (run (map (aurora_spot w h) sps) c)"
  by (induction sps arbitrary: c) (simp_all add: aurora_spot_checked_ok)

lemma aurora_checked_ok:
  "bg_type ob = ''aurora'' \<Longrightarrow> (\<forall>sp\<in>set (spots ob). rejects (spot_color sp @ ''00'') = None) \<Longrightarrow>
   aurora_checked rejects ob w h c = Inr (build_background (BgObject ob) w h c)"
  by (simp add: aurora_checked_def aurora_spots_checked_ok build_background_def)

lemma aurora_checked_throw:
  assumes "spots ob = pre @ spot # post"
    and "\<forall>sp\<in>set pre. rejects (spot_color sp @ ''00'') = None"
    and "rejects (spot_color spot @ ''00'') = Some e"
  shows "\<exists>c'. aurora_checked rejects ob w h c = Inl (e, c')
     \<and> globalAlpha (dstate c') = Fin (4 / 10)
     \<and> layers c' = layers c
         @ (FillRect (Fin 0) (Fin 0) w h, Color (baseColor ob), globalAlpha (dstate c))
         # map (\<lambda>sp. (FillRect (Fin 0) (Fin 0) w h, Gradient (spot_gradient sp), Fin (4 / 10))) pre"
proof -
  let ?c0 = "run [set_fillStyle (Color (baseColor ob)), fillRect (Fin 0) (Fin 0) w h,
                   set_globalAlpha (Fin (4 / 10))] c"
  let ?c' = "run (map (aurora_spot w h) pre) ?c0"
  have "aurora_checked rejects ob w h c = Inl (e, ?c')"
    using assms by (simp add: aurora_checked_def aurora_spots_checked_throw)
  moreover have "globalAlpha (dstate ?c') = Fin (4 / 10)"
    by simp
  moreover have "layers ?c' = layers c
         @ (FillRect (Fin 0) (Fin 0) w h, Color (baseColor ob), globalAlpha (dstate c))
         # map (\<lambda>sp. (FillRect (Fin 0) (Fin 0) w h, Gradient (spot_gradient sp), Fin (4 / 10))) pre"
    by (simp add: aurora_spots_layers)
  ultimately show ?thesis by blast
qed

lemma build_checked_ok:
  assumes "background b = BgObject ob" "bg_type ob = ''aurora''"
    and "\<forall>sp\<in>set (spots ob). rejects (spot_color sp @ ''00'') = None"
  shows "build_checked rejects env s b out = Inr (build env s b out)"
  using assms by (simp add: build_checked_def aurora_checked_ok build_def build_state_def)

lemma aurora_opacity:
  assumes a: "background b = BgObject ob \<and> bg_type ob = ''aurora''"
  shows "(\<exists>rest.
      layers (build_state env s b out)
        = (FillRect (Fin 0) (Fin 0) width (height b), Color (baseColor ob), Fin 1)
          # map (\<lambda>spot. (FillRect (Fin 0) (Fin 0) width (height b),
                          Gradient (spot_gradient spot), Fin (4 / 10))) (spots ob)
          @ rest
      \<and> (\<forall>l\<in>set rest. snd (snd l) = Fin 1))
   \<and> globalAlpha (dstate (build_state env s b out)) = Fin 1"
proof -
  let ?bg = "build_background (background b) width (height b) (createCanvas width (height b) out)"
  have bg: "layers ?bg
      = (FillRect (Fin 0) (Fin 0) width (height b), Color (baseColor ob), Fin 1)
          # map (\<lambda>spot. (FillRect (Fin 0) (Fin 0) width (height b),
                          Gradient (spot_gradient spot), Fin (4 / 10))) (spots ob)"
    and alpha: "globalAlpha (dstate ?bg) = Fin 1"
    using a by (simp_all add: aurora_background)
  obtain rest where rest: "layers (build_state env s b out) = layers ?bg @ rest"
    using build_layers_grow by blast
  have "\<forall>l\<in>set rest. snd (snd l) = Fin 1"
    using rest build_drawn_after_background [of env s b out] unfolding alpha
    by (rule rest_under)
  moreover have "globalAlpha (dstate (build_state env s b out)) = Fin 1"
    using alpha by (simp add: build_state_def)
  ultimately show ?thesis
    using rest bg by auto
qed

text \<open>
  C7 does not hold of the code for every aurora. The second stop of a spot has the
  colour \<open>spot.color + '00'\<close>, which is a colour only when \<open>spot.color\<close> is written with
  six hexadecimal digits. At the first spot for which the library rejects that string,
  \<open>addColorStop\<close> throws and nothing catches it: \<open>build\<close> is rejected with that error,
  the opacity of the context is 0.4, what has been painted is the base fill and the
  spots before, and neither that spot nor anything after it is painted. When the library
  accepts the string for every spot (and when there are no spots), \<open>build\<close> resolves, the
  base fill is painted at the opacity 1, each spot in order at the opacity 0.4, and
  everything after at the opacity 1, which is the opacity when \<open>build\<close> ends.
\<close>

theorem C7_aurora_stop_throws:
  "background b = BgObject ob \<and> bg_type ob = ''aurora'' \<longrightarrow>
   (\<forall>pre spot post e.
      spots ob = pre @ spot # post
      \<and> (\<forall>sp\<in>set pre. rejects (spot_color sp @ ''00'') = None)
      \<and> rejects (spot_color spot @ ''00'') = Some e \<longrightarrow>
      (\<exists>c. build_checked rejects env s b out = Inl (e, c)
           \<and> globalAlpha (dstate c) = Fin (4 / 10)
           \<and> layers c
               = (FillRect (Fin 0) (Fin 0) width (height b), Color (baseColor ob), Fin 1)
                 # map (\<lambda>sp. (FillRect (Fin 0) (Fin 0) width (height b),
                               Gradient (spot_gradient sp), Fin (4 / 10))) pre))
   \<and> ((\<forall>sp\<in>set (spots ob). rejects (spot_color sp @ ''00'') = None) \<longrightarrow>
        build_checked rejects env s b out = Inr (build env s b out)
        \<and> (\<exists>rest.
              layers (build_state env s b out)
                = (FillRect (Fin 0) (Fin 0) width (height b), Color (baseColor ob), Fin 1)
                  # map (\<lambda>spot. (FillRect (Fin 0) (Fin 0) width (height b),
                                  Gradient (spot_gradient spot), Fin (4 / 10))) (spots ob)
                  @ rest
              \<and> (\<forall>l\<in>set rest. snd (snd l) = Fin 1))
        \<and> globalAlpha (dstate (build_state env s b out)) = Fin 1)"
proof (intro impI conjI allI)
  fix pre spot post e
  assume a: "background b = BgObject ob \<and> bg_type ob = ''aurora''"
    and t: "spots ob = pre @ spot # post
      \<and> (\<forall>sp\<in>set pre. rejects (spot_color sp @ ''00'') = None)
      \<and> rejects (spot_color spot @ ''00'') = Some e"
  obtain c where "aurora_checked rejects ob width (height b) (createCanvas width (height b) out)
        = Inl (e, c)"
    "globalAlpha (dstate c) = Fin (4 / 10)"
    "layers c = layers (createCanvas width (height b) out)
         @ (FillRect (Fin 0) (Fin 0) width (height b), Color (baseColor ob),
            globalAlpha (dstate (createCanvas width (height b) out)))
         # map (\<lambda>sp. (FillRect (Fin 0) (Fin 0) width (height b), Gradient (spot_gradient sp),
                       Fin (4 / 10))) pre"
    using aurora_checked_throw [of ob pre spot post rejects e width "height b"
        "createCanvas width (height b) out"] t by blast
  then show "\<exists>c. build_checked rejects env s b out = Inl (e, c)
           \<and> globalAlpha (dstate c) = Fin (4 / 10)
           \<and> layers c
               = (FillRect (Fin 0) (Fin 0) width (height b), Color (baseColor ob), Fin 1)
                 # map (\<lambda>sp. (FillRect (Fin 0) (Fin 0) width (height b),
                               Gradient (spot_gradient sp), Fin (4 / 10))) pre"
    using a by (simp add: build_checked_def)
next
  assume a: "background b = BgObject ob \<and> bg_type ob = ''aurora''"
    and ok: "\<forall>sp\<in>set (spots ob). rejects (spot_color sp @ ''00'') = None"
  show "build_checked rejects env s b out = Inr (build env s b out)"
    using a ok by (simp add: build_checked_ok)
  show "\<exists>rest.
              layers (build_state env s b out)
                = (FillRect (Fin 0) (Fin 0) width (height b), Color (baseColor ob), Fin 1)
                  # map (\<lambda>spot. (FillRect (Fin 0) (Fin 0) width (height b),
                                  Gradient (spot_gradient spot), Fin (4 / 10))) (spots ob)
                  @ rest
              \<and> (\<forall>l\<in>set rest. snd (snd l) = Fin 1)"
    using aurora_opacity [OF a] by blast
  show "globalAlpha (dstate (build_state env s b out)) = Fin 1"
    using aurora_opacity [OF a] by blast
qed

lemma ex_rejects_simps:
  "ex_rejects ''#fff'' = None" "ex_rejects ''#fff00'' = Some (Error ''Invalid color'')"
  "ex_rejects ''#5865f200'' = None" "ex_rejects ''#be4eea00'' = None"
  by (simp_all add: ex_rejects_def hex_color_def)

text \<open>
  C7 at an aurora whose second spot has the colour \<open>#fff\<close>, with a library that takes
  the hexadecimal colours: \<open>#fff00\<close> is rejected, after the base fill and the first spot
  are painted. And at an aurora of two spots of six digits, and at one without spots.
\<close>

theorem C7_witness:
  "ex_rejects ''#fff'' = None \<and> ex_rejects ''#fff00'' = Some (Error ''Invalid color'')
   \<and> background ex_snow = BgObject ex_snow_spots \<and> bg_type ex_snow_spots = ''aurora''
   \<and> map spot_color (spots ex_snow_spots) = [''#5865f2'', ''#fff'', ''#be4eea'']
   \<and> (\<exists>c. build_checked ex_rejects ex_env ex_store ex_snow [] = Inl (Error ''Invalid color'', c)
          \<and> globalAlpha (dstate c) = Fin (4 / 10)
          \<and> layers c
              = [(FillRect (Fin 0) (Fin 0) (Fin 900) (Fin 370), Color ''#0D0E12'', Fin 1),
                 (FillRect (Fin 0) (Fin 0) (Fin 900) (Fin 370),
                  Gradient \<lparr>geom = Radial (Fin 0) (Fin 0) (Fin 0) (Fin 0) (Fin 0) (Fin 500),
                            stops = [(Fin 0, ''#5865f2''), (Fin 1, ''#5865f200'')]\<rparr>,
                  Fin (4 / 10))])
   \<and> build_checked ex_rejects ex_env ex_store ex_aurora []
       = Inr (build ex_env ex_store ex_aurora [])
   \<and> globalAlpha (dstate (build_state ex_env ex_store ex_aurora [])) = Fin 1
   \<and> build_checked ex_rejects ex_env ex_store ex_bare [] = Inr (build ex_env ex_store ex_bare [])
   \<and> (\<exists>rest.
      layers (build_state ex_env ex_store ex_bare [])
        = (FillRect (Fin 0) (Fin 0) (Fin 900) (Fin 370), Color ''#0D0E12'', Fin 1) # rest
      \<and> (\<forall>l\<in>set rest. snd (snd l) = Fin 1))
   \<and> globalAlpha (dstate (build_state ex_env ex_store ex_bare [])) = Fin 1"
proof -
  have h: "height ex_bare = Fin 370" "height ex_aurora = Fin 370" "height ex_snow = Fin 370"
    "width = Fin 900"
    by (simp_all add: height_def ex_bare_def ex_aurora_def ex_snow_def setBackground_def
        ex_board_rows ex_board_fields num_def width_def)
  have bg: "background ex_snow = BgObject ex_snow_spots" "bg_type ex_snow_spots = ''aurora''"
    "map spot_color (spots ex_snow_spots) = [''#5865f2'', ''#fff'', ''#be4eea'']"
    "baseColor ex_snow_spots = ''#0D0E12''"
    by (simp_all add: ex_snow_def setBackground_def ex_snow_spots_def)
  have snow: "\<exists>c. build_checked ex_rejects ex_env ex_store ex_snow [] = Inl (Error ''Invalid color'', c)
          \<and> globalAlpha (dstate c) = Fin (4 / 10)
          \<and> layers c
              = [(FillRect (Fin 0) (Fin 0) (Fin 900) (Fin 370), Color ''#0D0E12'', Fin 1),
                 (FillRect (Fin 0) (Fin 0) (Fin 900) (Fin 370),
                  Gradient \<lparr>geom = Radial (Fin 0) (Fin 0) (Fin 0) (Fin 0) (Fin 0) (Fin 500),
                            stops = [(Fin 0, ''#5865f2''), (Fin 1, ''#5865f200'')]\<rparr>,
                  Fin (4 / 10))]"
    using C7_aurora_stop_throws [of ex_snow ex_snow_spots ex_rejects ex_env ex_store "[]",
        THEN mp, THEN conjunct1, rule_format,
        of "[\<lparr>spot_color = ''#5865f2'', spot_x = Fin 0, spot_y = Fin 0, spot_radius = Fin 500\<rparr>]"
           "\<lparr>spot_color = ''#fff'', spot_x = Fin 450, spot_y = Fin 100, spot_radius = Fin 300\<rparr>"
           "[\<lparr>spot_color = ''#be4eea'', spot_x = Fin 900, spot_y = Fin 800,
                 spot_radius = Fin 600\<rparr>]"
           "Error ''Invalid color''"]
    by (simp add: bg h ex_rejects_simps spot_gradient_def) (simp add: ex_snow_spots_def)
  have aurora: "build_checked ex_rejects ex_env ex_store ex_aurora []
       = Inr (build ex_env ex_store ex_aurora [])
     \<and> globalAlpha (dstate (build_state ex_env ex_store ex_aurora [])) = Fin 1"
    using C7_aurora_stop_throws [of ex_aurora "\<lparr>bg_type = ''aurora'', colors = [],
       baseColor = ''#0D0E12'',
       spots = [\<lparr>spot_color = ''#5865f2'', spot_x = Fin 0, spot_y = Fin 0, spot_radius = Fin 500\<rparr>,
                \<lparr>spot_color = ''#be4eea'', spot_x = Fin 900, spot_y = Fin 800,
                 spot_radius = Fin 600\<rparr>]\<rparr>" ex_rejects ex_env ex_store "[]"]
    by (simp add: ex_rejects_simps) (simp add: ex_aurora_def setBackground_def)
  have bare: "build_checked ex_rejects ex_env ex_store ex_bare [] = Inr (build ex_env ex_store ex_bare [])
     \<and> (\<exists>rest.
      layers (build_state ex_env ex_store ex_bare [])
        = (FillRect (Fin 0) (Fin 0) (Fin 900) (Fin 370), Color ''#0D0E12'', Fin 1) # rest
      \<and> (\<forall>l\<in>set rest. snd (snd l) = Fin 1))
     \<and> globalAlpha (dstate (build_state ex_env ex_store ex_bare [])) = Fin 1"
    using C7_aurora_stop_throws [of ex_bare "\<lparr>bg_type = ''aurora'', colors = [],
       baseColor = ''#0D0E12'', spots = []\<rparr>" ex_rejects ex_env ex_store "[]"]
    by (simp add: h) (simp add: ex_bare_def setBackground_def)
  show ?thesis
    using snow aurora bare bg ex_rejects_simps by blast
qed

section \<open>setRankTiers\<close>

lemma mset_insert_sorted: "mset (insert_sorted cmp a bs) = add_mset a (mset bs)"
  by (induction bs) simp_all

lemma mset_Array_sort: "mset (Array_sort cmp xs) = mset xs"
  by (induction xs) (simp_all add: Array_sort_def mset_insert_sorted)

lemma set_Array_sort: "set (Array_sort cmp xs) = set xs"
  using mset_Array_sort [of cmp xs] by (metis set_mset_mset)

lemma set_insert_sorted: "set (insert_sorted cmp a bs) = insert a (set bs)"
  using mset_insert_sorted [of cmp a bs] by (metis set_mset_mset set_mset_add_mset_insert)

lemma descending_insert_sorted:
  assumes "minXp a \<noteq> NaN" "\<forall>t\<in>set bs. minXp t \<noteq> NaN" "descending bs"
  shows "descending (insert_sorted (\<lambda>t u. minXp u - minXp t) a bs)"
  using assms
proof (induction bs)
  case Nil
  show ?case by (simp add: descending_def)
next
  case (Cons b bs)
  have nb: "minXp b \<noteq> NaN" and IH: "descending (insert_sorted (\<lambda>t u. minXp u - minXp t) a bs)"
    and below: "\<forall>u\<in>set bs. minXp u \<le> minXp b" and tail: "descending bs"
    using Cons by (simp_all add: descending_def)
  show ?case
  proof (cases "minXp a < minXp b")
    case True
    then have "insert_sorted (\<lambda>t u. minXp u - minXp t) a (b # bs)
        = b # insert_sorted (\<lambda>t u. minXp u - minXp t) a bs"
      using Cons.prems(1) nb by (simp add: js_sub_pos)
    moreover have "minXp a \<le> minXp b"
      using True by (simp add: less_eq_jsnum_def)
    ultimately show ?thesis
      using IH below by (simp only: descending_def sorted_wrt.simps set_insert_sorted) simp
  next
    case False
    then have eq: "insert_sorted (\<lambda>t u. minXp u - minXp t) a (b # bs) = a # b # bs"
      using Cons.prems(1) nb by (simp add: js_sub_pos)
    have ba: "minXp b \<le> minXp a"
      using False Cons.prems(1) nb by (simp add: js_not_less_le)
    then have "\<forall>u\<in>set bs. minXp u \<le> minXp a"
      using below by (blast intro: js_le_trans)
    then show ?thesis
      using ba below tail by (simp only: eq descending_def sorted_wrt.simps) simp
  qed
qed

lemma descending_Array_sort:
  "\<forall>t\<in>set xs. minXp t \<noteq> NaN \<Longrightarrow> descending (Array_sort (\<lambda>t u. minXp u - minXp t) xs)"
proof (induction xs)
  case Nil
  show ?case by (simp add: Array_sort_def descending_def)
next
  case (Cons x xs)
  have "descending (Array_sort (\<lambda>t u. minXp u - minXp t) xs)"
    using Cons by simp
  moreover have "\<forall>t\<in>set (Array_sort (\<lambda>t u. minXp u - minXp t) xs). minXp t \<noteq> NaN"
    using Cons.prems by (simp add: set_Array_sort)
  ultimately have "descending (insert_sorted (\<lambda>t u. minXp u - minXp t) x
      (Array_sort (\<lambda>t u. minXp u - minXp t) xs))"
    using Cons.prems by (intro descending_insert_sorted) simp_all
  then show ?case by (simp add: Array_sort_def)
qed

text \<open>
  C9. \<open>setRankTiers\<close> sorts the array it is given where it is: after the call the
  caller's reference holds the sorted array, a rearrangement of what it held, descending
  by \<open>minXp\<close> when no \<open>minXp\<close> is \<open>NaN\<close>; the builder's \<open>rankTiers\<close> is that same
  reference, so rank resolution reads the caller's array; and no other array changes.
\<close>

theorem C9_setRankTiers_in_place:
  "setRankTiers tiers (s, b) = (s', b') \<longrightarrow>
     rankTiers b' = tiers
     \<and> b' = b\<lparr>rankTiers := tiers\<rparr>
     \<and> s' tiers = Array_sort (\<lambda>t u. minXp u - minXp t) (s tiers)
     \<and> mset (s' tiers) = mset (s tiers)
     \<and> ((\<forall>t\<in>set (s tiers). minXp t \<noteq> NaN) \<longrightarrow> descending (s' tiers))
     \<and> (\<forall>r. r \<noteq> tiers \<longrightarrow> s' r = s r)
     \<and> (\<forall>v. getRankForXp s' b' v
            = (if s' tiers = [] then None else find (\<lambda>tier. minXp tier \<le> v) (s' tiers)))"
  by (auto simp: setRankTiers_def mset_Array_sort descending_Array_sort getRankForXp_def)

text \<open>C9 at the example store, whose array at reference 1 is not in order.\<close>

theorem C9_witness:
  "setRankTiers 1 (ex_store, ex_builder) = ex_ranked
   \<and> ex_store 1 = [ex_beginner, ex_master, ex_pro]
   \<and> minXp ex_beginner \<noteq> NaN \<and> minXp ex_master \<noteq> NaN \<and> minXp ex_pro \<noteq> NaN
   \<and> rankTiers (snd ex_ranked) = 1
   \<and> fst ex_ranked 1 = [ex_master, ex_pro, ex_beginner]
   \<and> descending (fst ex_ranked 1)
   \<and> fst ex_ranked 0 = ex_store 0"
proof -
  have call: "setRankTiers 1 (ex_store, ex_builder) = (fst ex_ranked, snd ex_ranked)"
    by (simp add: ex_ranked_def)
  have vals: "ex_store 1 = [ex_beginner, ex_master, ex_pro]"
    "minXp ex_beginner \<noteq> NaN" "minXp ex_master \<noteq> NaN" "minXp ex_pro \<noteq> NaN"
    by (simp_all add: ex_store_def ex_master_def ex_pro_def ex_beginner_def)
  have sorted: "fst ex_ranked 1 = [ex_master, ex_pro, ex_beginner]"
    by (simp add: ex_ranked_eq)
  from C9_setRankTiers_in_place [of 1 ex_store ex_builder "fst ex_ranked" "snd ex_ranked"] call
  have "rankTiers (snd ex_ranked) = 1"
    and "(\<forall>t\<in>set (ex_store 1). minXp t \<noteq> NaN) \<longrightarrow> descending (fst ex_ranked 1)"
    and "\<forall>r. r \<noteq> 1 \<longrightarrow> fst ex_ranked r = ex_store r"
    by blast+
  with vals sorted show ?thesis
    by (simp add: ex_ranked_def)
qed

section \<open>The rank label\<close>

text \<open>
  X2. The rank label of a row is drawn exactly when the rank column is visible and
  \<open>getRankForXp\<close> finds a tier for the row's XP: it is the tier's name, right of the bar,
  in the tier's colour. Nothing is drawn for a participant below every threshold.
\<close>

theorem X2_rank_label:
  "layers (build_rank s b p y c)
     = layers c
       @ (case getRankForXp s b (xp p) of
            None \<Rightarrow> []
          | Some tier \<Rightarrow>
              if rankVisible b
              then [(FillText (tier_name tier) (width - Fin 50) (y + Fin 58),
                     Color (tier_color tier), globalAlpha (dstate c))]
              else [])"
  by (simp add: build_rank_def layers_def ctx_defs split: option.splits)

text \<open>
  X2 with the one tier Pro from 1000: the XP 1500 is labelled Pro in \<open>#5865F2\<close>, the XP
  500 is not labelled.
\<close>

theorem X2_witness:
  "layers (build_rank ex_pro_store ex_builder ex_frank (Fin 120) fresh)
     = [(FillText ''Pro'' (Fin 850) (Fin 178), Color ''#5865F2'', Fin 1)]
   \<and> layers (build_rank ex_pro_store ex_builder ex_carol (Fin 220) fresh) = []"
proof -
  have "getRankForXp ex_pro_store ex_builder (xp ex_frank) = Some ex_pro"
    "getRankForXp ex_pro_store ex_builder (xp ex_carol) = None"
    by (simp_all add: getRankForXp_def ex_pro_store_def ex_builder_eq ex_frank_def ex_carol_def
        ex_pro_def less_eq_jsnum_def)
  then show ?thesis
    using X2_rank_label [of ex_pro_store ex_builder ex_frank "Fin 120" fresh]
      X2_rank_label [of ex_pro_store ex_builder ex_carol "Fin 220" fresh]
    by (simp add: ex_builder_eq ex_pro_def width_def minus_jsnum_def fresh_def)
qed

end
